theory Spec2Isabelle
  imports Main "HOL-Library.Sublist"
begin

section \<open>Data model of pkg/cmd/image/squash.go\<close>

text \<open>
  A \<open>digest.Digest\<close> is a Go string and \<open>Digest.String()\<close> returns it unchanged, so digests
  are strings here. Go's \<open>int\<close> is modelled as \<open>int\<close>: the only arithmetic of the file is
  \<open>count+1\<close>, \<open>i+1\<close> and a difference of two slice lengths, none of which can leave the
  64-bit range.
\<close>

type_synonym digest = string
type_synonym bytes = string
type_synonym time = int

record Descriptor =
  MediaType :: string
  Digest :: digest
  Size :: int

record Manifest =
  SchemaVersion :: int
  Config :: Descriptor
  Layers :: "Descriptor list"

record History =
  Created :: "time option"
  CreatedBy :: string
  Author :: string
  Comment :: string
  EmptyLayer :: bool

record RootFS =
  Type :: string
  DiffIDs :: "digest list"

record Platform =
  Architecture :: string
  OS :: string
  OSVersion :: string
  OSFeatures :: "string list"
  Variant :: string

text \<open>
  \<open>ocispec.Image\<close>; its \<open>Config\<close> field (the runtime configuration) is only ever copied by
  this file, so its type is left as the parameter \<open>'c\<close>.
\<close>

record 'c Image =
  Created :: "time option"
  Author :: string
  Platform :: Platform
  Config :: 'c
  RootFS :: RootFS
  History :: "History list"

text \<open>\<open>images.Image\<close>, the record kept by the image store.\<close>

record ImageRecord =
  Name :: string
  Target :: Descriptor
  UpdatedAt :: time

text \<open>
  \<open>squashImage\<close>. The field \<open>ClientImage\<close> is \<open>containerd.NewImage(sr.client, containerImage)\<close>,
  a handle on the image record; it is modelled by that record.
\<close>

record 'c squashImage =
  ClientImage :: ImageRecord
  Config :: "'c Image"
  Image :: ImageRecord
  Manifest :: Manifest

text \<open>
  The fields of \<open>types.ImageSquashOptions\<close> that squash.go reads; of \<open>GOptions\<close> these are
  \<open>Snapshotter\<close> and \<open>Namespace\<close>.
\<close>

record ImageSquashOptions =
  Snapshotter :: string
  Namespace :: string
  Author :: string
  Message :: string
  SourceImageRef :: string
  TargetImageName :: string
  SquashLayerCount :: int
  SquashLayerDigest :: string

subsection \<open>Errors\<close>

text \<open>
  The sentinel errors of \<open>errdefs\<close> that the file names, any other error of a collaborator
  (\<open>ErrOther\<close>), an error wrapped by \<open>fmt.Errorf("...: %w", err)\<close> (\<open>Wrapped\<close>, with the text
  that precedes the wrapped error), and \<open>PanicSliceBounds\<close>. The last one is not an error
  value of the program: it stands for the run-time panic of a slice expression out of
  range, which unwinds the call stack (running the deferred calls) instead of returning.
\<close>

datatype error =
  ErrNotFound
  | ErrInvalidArgument
  | ErrAlreadyExists
  | ErrOther string
  | Wrapped string error
  | PanicSliceBounds

text \<open>\<open>errdefs.IsNotFound\<close> and \<open>errdefs.IsAlreadyExists\<close> look through the wrapping.\<close>

fun IsNotFound :: "error \<Rightarrow> bool" where
  "IsNotFound ErrNotFound = True"
| "IsNotFound (Wrapped msg e) = IsNotFound e"
| "IsNotFound e = False"

fun IsAlreadyExists :: "error \<Rightarrow> bool" where
  "IsAlreadyExists ErrAlreadyExists = True"
| "IsAlreadyExists (Wrapped msg e) = IsAlreadyExists e"
| "IsAlreadyExists e = False"

fun IsInvalidArgument :: "error \<Rightarrow> bool" where
  "IsInvalidArgument ErrInvalidArgument = True"
| "IsInvalidArgument (Wrapped msg e) = IsInvalidArgument e"
| "IsInvalidArgument e = False"

section \<open>generateSquashLayer\<close>

text \<open>
  The loop of the digest branch, with its two variables \<open>find\<close> (here \<open>found\<close>) and \<open>res\<close>:
  \<^verbatim>\<open>
  for _, layer := range image.Manifest.Layers {
      if layer.Digest.String() == sr.opt.SquashLayerDigest { find = true }
      if find { res = append(res, layer) }
  }
  \<close>
\<close>

fun squashLayerScan :: "string \<Rightarrow> Descriptor list \<Rightarrow> bool \<Rightarrow> Descriptor list \<Rightarrow> bool \<times> Descriptor list" where
  "squashLayerScan d [] found res = (found, res)"
| "squashLayerScan d (layer # rest) found res =
     (let found' = (if Digest layer = d then True else found);
          res' = (if found' then res @ [layer] else res)
      in squashLayerScan d rest found' res')"

definition generateSquashLayer :: "ImageSquashOptions \<Rightarrow> 'c squashImage \<Rightarrow> error + Descriptor list" where
  "generateSquashLayer opt img =
     (if SquashLayerDigest opt \<noteq> '''' then
        (case squashLayerScan (SquashLayerDigest opt) (Layers (Manifest img)) False [] of
           (found, res) \<Rightarrow>
             if \<not> found then
               Inl (Wrapped (''layer digest '' @ SquashLayerDigest opt @ '' not found in the image: '') ErrNotFound)
             else Inr res)
      else if SquashLayerCount opt > 1 \<and> SquashLayerCount opt \<le> int (length (Layers (Manifest img))) then
        Inr (drop (nat (int (length (Layers (Manifest img))) - SquashLayerCount opt)) (Layers (Manifest img)))
      else Inl (Wrapped ''invalid squash option: '' ErrInvalidArgument))"

section \<open>The collaborators\<close>

text \<open>
  The image store, the content store, the snapshotter, the diff service, the lease manager,
  the clock, the random source, and the library functions (\<open>imgutil\<close>, \<open>identity\<close>, \<open>digest\<close>,
  \<open>encoding/json\<close>, \<open>strings\<close>, \<open>runtime\<close>) are not part of the file. Every call to a stateful
  collaborator is recorded as an event, and the answer to a call is given by the environment
  as a function of the events recorded before it and of the arguments. Logging calls
  (\<open>log.G(ctx)\<close>) are left out: they do not influence any result.
\<close>

datatype Mount = Mount (mType: string) (mSource: string) (mOptions: "string list")

record ContentInfo =
  Size :: int
  Labels :: "string \<rightharpoonup> string"

datatype event =
    EvImageGet string
  | EvReadManifest ImageRecord
  | EvReadImageConfig ImageRecord
  | EvWithLease
  | EvLeaseDone
  | EvNow
  | EvUniquePart
  | EvPrepare string string
  | EvApply Descriptor "Mount list"
  | EvRemove string
  | EvCreateDiff string
  | EvInfo digest
  | EvCommit string string
  | EvWriteBlob string bytes Descriptor "string \<rightharpoonup> string"
  | EvImageUpdate ImageRecord
  | EvImageCreate ImageRecord
  | EvUnpack ImageRecord string

type_synonym trace = "event list"

record 'c env =
  imageStore_Get :: "trace \<Rightarrow> string \<Rightarrow> error + ImageRecord"
  imageStore_Update :: "trace \<Rightarrow> ImageRecord \<Rightarrow> ImageRecord \<times> error option"
  imageStore_Create :: "trace \<Rightarrow> ImageRecord \<Rightarrow> ImageRecord \<times> error option"
  imgutil_ReadManifest :: "trace \<Rightarrow> ImageRecord \<Rightarrow> error + Manifest"
  imgutil_ReadImageConfig :: "trace \<Rightarrow> ImageRecord \<Rightarrow> error + 'c Image"
  imgutil_DiffIDsSpare :: "trace \<Rightarrow> ImageRecord \<Rightarrow> digest list"
  imgutil_LayersSpare :: "ImageRecord \<Rightarrow> Descriptor list"
  client_WithLease :: "trace \<Rightarrow> error option"
  time_Now :: "trace \<Rightarrow> time"
  uniquePart :: "trace \<Rightarrow> string"
  sn_Prepare :: "trace \<Rightarrow> string \<Rightarrow> string \<Rightarrow> error + Mount list"
  sn_Commit :: "trace \<Rightarrow> string \<Rightarrow> string \<Rightarrow> error option"
  sn_Remove :: "trace \<Rightarrow> string \<Rightarrow> error option"
  differ_Apply :: "trace \<Rightarrow> Descriptor \<Rightarrow> Mount list \<Rightarrow> error option"
  rootfs_CreateDiff :: "trace \<Rightarrow> string \<Rightarrow> error + Descriptor"
  contentStore_Info :: "trace \<Rightarrow> digest \<Rightarrow> error + ContentInfo"
  content_WriteBlob :: "trace \<Rightarrow> string \<Rightarrow> bytes \<Rightarrow> Descriptor \<Rightarrow> (string \<rightharpoonup> string) \<Rightarrow> error option"
  cimg_Unpack :: "trace \<Rightarrow> ImageRecord \<Rightarrow> string \<Rightarrow> error option"
  identity_ChainID :: "digest list \<Rightarrow> digest"
  digest_Parse :: "string \<Rightarrow> error + digest"
  digest_FromBytes :: "bytes \<Rightarrow> digest"
  json_Marshal :: "'c Image \<Rightarrow> error + bytes"
  json_MarshalIndent :: "string \<times> Manifest \<Rightarrow> error + bytes"
  strings_TrimSpace :: "string \<Rightarrow> string"
  runtime_GOARCH :: string
  runtime_GOOS :: string

text \<open>The media types of \<open>containerd/core/images\<close> that the file uses.\<close>

definition MediaTypeDockerSchema2LayerGzip :: string where
  "MediaTypeDockerSchema2LayerGzip = ''application/vnd.docker.image.rootfs.diff.tar.gzip''"

definition MediaTypeDockerSchema2Config :: string where
  "MediaTypeDockerSchema2Config = ''application/vnd.docker.container.image.v1+json''"

definition MediaTypeDockerSchema2Manifest :: string where
  "MediaTypeDockerSchema2Manifest = ''application/vnd.docker.distribution.manifest.v2+json''"

section \<open>initImage\<close>

text \<open>
  \<open>imgutil.ReadManifest\<close> returns a pointer; a successful read is taken to return a manifest
  (not nil), as every later dereference of \<open>image.Manifest\<close> supposes.
\<close>

definition initImage :: "'c env \<Rightarrow> ImageSquashOptions \<Rightarrow> trace \<Rightarrow> (error + 'c squashImage) \<times> trace" where
  "initImage env opt tr =
     (let tr1 = tr @ [EvImageGet (SourceImageRef opt)] in
      (case imageStore_Get env tr (SourceImageRef opt) of
         Inl err \<Rightarrow> (Inl err, tr1)
       | Inr containerImage \<Rightarrow>
           (let clientImage = containerImage;
                tr2 = tr1 @ [EvReadManifest clientImage] in
            (case imgutil_ReadManifest env tr1 clientImage of
               Inl err \<Rightarrow> (Inl err, tr2)
             | Inr manifest \<Rightarrow>
                 (let tr3 = tr2 @ [EvReadImageConfig clientImage] in
                  (case imgutil_ReadImageConfig env tr2 clientImage of
                     Inl err \<Rightarrow> (Inl err, tr3)
                   | Inr config \<Rightarrow>
                       (Inr \<lparr>ClientImage = clientImage, Config = config,
                             Image = containerImage, Manifest = manifest\<rparr>, tr3)))))))"

section \<open>applyLayersToSnapshot and createDiff\<close>

fun applyLayersToSnapshot :: "'c env \<Rightarrow> Mount list \<Rightarrow> Descriptor list \<Rightarrow> trace \<Rightarrow> error option \<times> trace" where
  "applyLayersToSnapshot env mount [] tr = (None, tr)"
| "applyLayersToSnapshot env mount (layer # rest) tr =
     (case differ_Apply env tr layer mount of
        Some err \<Rightarrow> (Some err, tr @ [EvApply layer mount])
      | None \<Rightarrow> applyLayersToSnapshot env mount rest (tr @ [EvApply layer mount]))"

definition createDiff :: "'c env \<Rightarrow> string \<Rightarrow> trace \<Rightarrow> (error + Descriptor \<times> digest) \<times> trace" where
  "createDiff env snapshotName tr =
     (let tr1 = tr @ [EvCreateDiff snapshotName] in
      (case rootfs_CreateDiff env tr snapshotName of
         Inl err \<Rightarrow> (Inl err, tr1)
       | Inr newDesc \<Rightarrow>
           (let tr2 = tr1 @ [EvInfo (Digest newDesc)] in
            (case contentStore_Info env tr1 (Digest newDesc) of
               Inl err \<Rightarrow> (Inl err, tr2)
             | Inr info \<Rightarrow>
                 (case Labels info ''containerd.io/uncompressed'' of
                    None \<Rightarrow> (Inl (ErrOther ''invalid differ response with no diffID''), tr2)
                  | Some diffIDStr \<Rightarrow>
                      (case digest_Parse env diffIDStr of
                         Inl err \<Rightarrow> (Inl err, tr2)
                       | Inr diffID \<Rightarrow>
                           (Inr (\<lparr>MediaType = MediaTypeDockerSchema2LayerGzip,
                                  Digest = Digest newDesc,
                                  Descriptor.Size = ContentInfo.Size info\<rparr>, diffID), tr2)))))))"

section \<open>generateBaseImageConfig\<close>

text \<open>
  The loop over the original history, with its variables \<open>history\<close> and \<open>count\<close>:
  \<^verbatim>\<open>
  for _, h := range orginalConfig.History {
      if h.EmptyLayer { history = append(history, h); continue }
      if count+1 <= remainingLayerCount { history = append(history, h); count++ } else { break }
  }
  \<close>
\<close>

fun baseHistoryLoop :: "int \<Rightarrow> History list \<Rightarrow> History list \<Rightarrow> int \<Rightarrow> History list" where
  "baseHistoryLoop remainingLayerCount [] history count = history"
| "baseHistoryLoop remainingLayerCount (h # hs) history count =
     (if EmptyLayer h then baseHistoryLoop remainingLayerCount hs (history @ [h]) count
      else if count + 1 \<le> remainingLayerCount then
        baseHistoryLoop remainingLayerCount hs (history @ [h]) (count + 1)
      else history)"

text \<open>
  The slice expression \<open>s[:n]\<close>. A Go slice is a window of length \<open>len(s)\<close> on a backing
  array; \<open>spare\<close> is what the array holds between \<open>len(s)\<close> and \<open>cap(s)\<close>. The expression
  panics when \<open>n\<close> is negative or exceeds the capacity, and otherwise yields the first
  \<open>n\<close> elements of the array from the start of \<open>s\<close>: for \<open>len(s) < n \<le> cap(s)\<close> these
  include elements of the spare part.

  The two slices that the file cuts are decoded by \<open>imgutil\<close>, so their spare parts are
  given by the environment: \<open>imgutil_DiffIDsSpare\<close> for the \<open>RootFS.DiffIDs\<close> of the config
  returned by the read with the same arguments, \<open>imgutil_LayersSpare\<close> for the \<open>Layers\<close> of
  the manifest read for the image.
\<close>

definition sliceTo :: "'a list \<Rightarrow> 'a list \<Rightarrow> int \<Rightarrow> error + 'a list" where
  "sliceTo s spare n =
     (if n < 0 \<or> int (length s + length spare) < n then Inl PanicSliceBounds
      else Inr (take (nat n) (s @ spare)))"

definition generateBaseImageConfig :: "'c env \<Rightarrow> 'c squashImage \<Rightarrow> int \<Rightarrow> trace \<Rightarrow> (error + 'c Image) \<times> trace" where
  "generateBaseImageConfig env img remainingLayerCount tr =
     (let tr1 = tr @ [EvReadImageConfig (ClientImage img)] in
      (case imgutil_ReadImageConfig env tr (ClientImage img) of
         Inl err \<Rightarrow> (Inl err, tr1)
       | Inr orginalConfig \<Rightarrow>
           (let history = baseHistoryLoop remainingLayerCount (History orginalConfig) [] 0;
                cTime = time_Now env tr1;
                tr2 = tr1 @ [EvNow] in
            (case sliceTo (DiffIDs (RootFS orginalConfig))
                    (imgutil_DiffIDsSpare env tr (ClientImage img)) remainingLayerCount of
               Inl err \<Rightarrow> (Inl err, tr2)
             | Inr diffIDs \<Rightarrow>
                 (Inr \<lparr>Image.Created = Some cTime,
                       Author = Image.Author orginalConfig,
                       Platform = Platform orginalConfig,
                       Config = Image.Config orginalConfig,
                       RootFS = \<lparr>Type = Type (RootFS orginalConfig), DiffIDs = diffIDs\<rparr>,
                       History = history\<rparr>, tr2)))))"

section \<open>generateCommitImageConfig\<close>

text \<open>The function has no failing path: its error result is always nil.\<close>

definition generateCommitImageConfig :: "'c env \<Rightarrow> ImageSquashOptions \<Rightarrow> 'c Image \<Rightarrow> digest \<Rightarrow> trace \<Rightarrow> (error + 'c Image) \<times> trace" where
  "generateCommitImageConfig env opt baseConfig diffID tr =
     (let createdTime = time_Now env tr;
          tr1 = tr @ [EvNow];
          arch = (if Architecture (Platform baseConfig) = '''' then runtime_GOARCH env
                  else Architecture (Platform baseConfig));
          os = (if OS (Platform baseConfig) = '''' then runtime_GOOS env
                else OS (Platform baseConfig));
          author = (if strings_TrimSpace env (ImageSquashOptions.Author opt) = ''''
                    then Image.Author baseConfig
                    else strings_TrimSpace env (ImageSquashOptions.Author opt));
          comment = strings_TrimSpace env (Message opt) in
      (Inr \<lparr>Image.Created = Some createdTime,
            Author = author,
            Platform = \<lparr>Architecture = arch, OS = os, OSVersion = '''', OSFeatures = [], Variant = ''''\<rparr>,
            Config = Image.Config baseConfig,
            RootFS = \<lparr>Type = ''layers'', DiffIDs = DiffIDs (RootFS baseConfig) @ [diffID]\<rparr>,
            History = History baseConfig @
                        [\<lparr>History.Created = Some createdTime,
                          CreatedBy = '''',
                          Author = author,
                          Comment = comment,
                          EmptyLayer = False\<rparr>]\<rparr>, tr1))"

section \<open>writeContentsForImage\<close>

text \<open>\<open>fmt.Sprintf("%d", n)\<close>: the decimal digits of \<open>n\<close>, most significant first.\<close>

definition digitChar :: "nat \<Rightarrow> char" where
  "digitChar n = ''0123456789'' ! n"

fun decimal :: "nat \<Rightarrow> string" where
  "decimal n = (if n < 10 then [digitChar n] else decimal (n div 10) @ [digitChar (n mod 10)])"

declare decimal.simps [simp del]

definition formatInt :: "int \<Rightarrow> string" where
  "formatInt i = (if i < 0 then CHR ''-'' # decimal (nat (- i)) else decimal (nat i))"

definition gcRefContent :: "int \<Rightarrow> string" where
  "gcRefContent i = ''containerd.io/gc.ref.content.'' @ formatInt i"

text \<open>
  The loop that fills the label map, with the index \<open>i\<close> of \<open>range layers\<close>:
  \<^verbatim>\<open>
  for i, l := range layers {
      labels[fmt.Sprintf("containerd.io/gc.ref.content.%d", i+1)] = l.Digest.String()
  }
  \<close>
\<close>

fun gcLabelLoop :: "int \<Rightarrow> Descriptor list \<Rightarrow> (string \<rightharpoonup> string) \<Rightarrow> (string \<rightharpoonup> string)" where
  "gcLabelLoop i [] labels = labels"
| "gcLabelLoop i (l # ls) labels = gcLabelLoop (i + 1) ls (labels(gcRefContent (i + 1) \<mapsto> Digest l))"

definition manifestLabels :: "Descriptor \<Rightarrow> Descriptor list \<Rightarrow> (string \<rightharpoonup> string)" where
  "manifestLabels configDesc layers =
     gcLabelLoop 0 layers [''containerd.io/gc.ref.content.0'' \<mapsto> Digest configDesc]"

text \<open>
  The anonymous struct \<open>newMfst\<close>: the media type and the embedded \<open>ocispec.Manifest\<close>,
  whose layers are \<open>append(baseImageLayers, diffLayerDesc)\<close>.
\<close>

definition newManifest :: "Descriptor \<Rightarrow> Descriptor list \<Rightarrow> Descriptor \<Rightarrow> string \<times> Manifest" where
  "newManifest configDesc baseImageLayers diffLayerDesc =
     (MediaTypeDockerSchema2Manifest,
      \<lparr>SchemaVersion = 2, Config = configDesc, Layers = baseImageLayers @ [diffLayerDesc]\<rparr>)"

definition writeContentsForImage :: "'c env \<Rightarrow> string \<Rightarrow> 'c Image \<Rightarrow> Descriptor list \<Rightarrow> Descriptor \<Rightarrow> trace \<Rightarrow> (error + Descriptor \<times> digest) \<times> trace" where
  "writeContentsForImage env snName newConfig baseImageLayers diffLayerDesc tr =
     (case json_Marshal env newConfig of
        Inl err \<Rightarrow> (Inl err, tr)
      | Inr newConfigJSON \<Rightarrow>
          (let configDesc = \<lparr>MediaType = MediaTypeDockerSchema2Config,
                             Digest = digest_FromBytes env newConfigJSON,
                             Descriptor.Size = int (length newConfigJSON)\<rparr>;
               newMfst = newManifest configDesc baseImageLayers diffLayerDesc;
               layers = Layers (snd newMfst) in
           (case json_MarshalIndent env newMfst of
              Inl err \<Rightarrow> (Inl err, tr)
            | Inr newMfstJSON \<Rightarrow>
                (let newMfstDesc = \<lparr>MediaType = MediaTypeDockerSchema2Manifest,
                                    Digest = digest_FromBytes env newMfstJSON,
                                    Descriptor.Size = int (length newMfstJSON)\<rparr>;
                     labels = manifestLabels configDesc layers;
                     tr1 = tr @ [EvWriteBlob (Digest newMfstDesc) newMfstJSON newMfstDesc labels] in
                 (case content_WriteBlob env tr (Digest newMfstDesc) newMfstJSON newMfstDesc labels of
                    Some err \<Rightarrow> (Inl err, tr1)
                  | None \<Rightarrow>
                      (let labelOpt = [''containerd.io/gc.ref.snapshot.'' @ snName \<mapsto>
                                         identity_ChainID env (DiffIDs (RootFS newConfig))];
                           tr2 = tr1 @ [EvWriteBlob (Digest configDesc) newConfigJSON configDesc labelOpt] in
                       (case content_WriteBlob env tr1 (Digest configDesc) newConfigJSON configDesc labelOpt of
                          Some err \<Rightarrow> (Inl err, tr2)
                        | None \<Rightarrow> (Inr (newMfstDesc, Digest configDesc), tr2))))))))"

section \<open>createSquashImage\<close>

text \<open>The function returns the pair \<open>(newImg, error)\<close>; \<open>newImg\<close> is what Update returned.\<close>

definition createSquashImage :: "'c env \<Rightarrow> ImageRecord \<Rightarrow> trace \<Rightarrow> (ImageRecord \<times> error option) \<times> trace" where
  "createSquashImage env img tr =
     (let tr1 = tr @ [EvImageUpdate img] in
      (case imageStore_Update env tr img of
         (newImg, None) \<Rightarrow> ((newImg, None), tr1)
       | (newImg, Some err) \<Rightarrow>
           if \<not> IsNotFound err then
             ((newImg, Some (Wrapped (''failed to update new squashImage '' @ Name img @ '': '') err)), tr1)
           else
             (let tr2 = tr1 @ [EvImageCreate img] in
              (case imageStore_Create env tr1 img of
                 (created, Some err') \<Rightarrow>
                   ((newImg, Some (Wrapped (''failed to create new squashImage '' @ Name img @ '': '') err')), tr2)
               | (created, None) \<Rightarrow> ((newImg, None), tr2)))))"

section \<open>applyDiffLayer\<close>

text \<open>
  The deferred function, registered once Prepare has succeeded: when the function returns
  an error, removal of the scratch snapshot is attempted; the result of the removal is only
  logged.
\<close>

definition deferredRemove :: "string \<Rightarrow> error option \<Rightarrow> trace \<Rightarrow> trace" where
  "deferredRemove key retErr tr = (if retErr \<noteq> None then tr @ [EvRemove key] else tr)"

text \<open>
  The result is the triple \<open>(diffLayerDesc, diffID, snapshotID)\<close> or the error; the values
  that Go returns beside a non-nil error are ignored by the caller and left out.
\<close>

definition applyDiffLayer :: "'c env \<Rightarrow> 'c Image \<Rightarrow> Descriptor list \<Rightarrow> trace \<Rightarrow> (error + Descriptor \<times> digest \<times> string) \<times> trace" where
  "applyDiffLayer env baseImg layers tr =
     (let key = uniquePart env tr;
          tr0 = tr @ [EvUniquePart];
          parent = identity_ChainID env (DiffIDs (RootFS baseImg));
          tr1 = tr0 @ [EvPrepare key parent] in
      (case sn_Prepare env tr0 key parent of
         Inl err \<Rightarrow> (Inl err, tr1)
       | Inr m \<Rightarrow>
           (case applyLayersToSnapshot env m layers tr1 of
              (Some err, tr2) \<Rightarrow> (Inl err, deferredRemove key (Some err) tr2)
            | (None, tr2) \<Rightarrow>
                (case createDiff env key tr2 of
                   (Inl err, tr3) \<Rightarrow>
                     (Inl (Wrapped ''failed to export layer: '' err),
                      deferredRemove key (Some (Wrapped ''failed to export layer: '' err)) tr3)
                 | (Inr (diffLayerDesc, diffID), tr3) \<Rightarrow>
                     (let snapshotID = identity_ChainID env (DiffIDs (RootFS baseImg) @ [diffID]);
                          tr4 = tr3 @ [EvCommit snapshotID key] in
                      (case sn_Commit env tr3 snapshotID key of
                         Some err \<Rightarrow>
                           if IsAlreadyExists err then
                             (Inr (diffLayerDesc, diffID, snapshotID), deferredRemove key None tr4)
                           else (Inl err, deferredRemove key (Some err) tr4)
                       | None \<Rightarrow> (Inr (diffLayerDesc, diffID, snapshotID), deferredRemove key None tr4)))))))"

section \<open>Squash\<close>

text \<open>
  The pipeline, started on an empty list of events. From the moment the lease is acquired,
  \<open>defer done(ctx)\<close> releases it on every way out (\<open>EvLeaseDone\<close>), also when the slice
  expression of \<open>generateBaseImageConfig\<close> panics.

  Slices are modelled as lists. The three calls of \<open>append\<close> on a slice that was cut with
  \<open>s[:n]\<close> (on \<open>baseImg.RootFS.DiffIDs\<close> in \<open>applyDiffLayer\<close> and in
  \<open>generateCommitImageConfig\<close>, on \<open>baseImageLayers\<close> in \<open>writeContentsForImage\<close>) may write
  into the backing array of the slice they were cut from. The value of \<open>append\<close> is the
  list with the element added in either case, and the arrays written to (the config read by
  \<open>generateBaseImageConfig\<close>, and \<open>image.Manifest.Layers\<close> with \<open>sLayers\<close>) are not read
  again after these calls, so no store of arrays is needed.
\<close>

definition squashUnderLease :: "'c env \<Rightarrow> ImageSquashOptions \<Rightarrow> 'c squashImage \<Rightarrow> Descriptor list \<Rightarrow> trace \<Rightarrow> error option \<times> trace" where
  "squashUnderLease env opt img sLayers tr =
     (let remainingLayerCount = int (length (Layers (Manifest img))) - int (length sLayers) in
      (case generateBaseImageConfig env img remainingLayerCount tr of
         (Inl err, tr1) \<Rightarrow> (Some err, tr1)
       | (Inr baseImage, tr1) \<Rightarrow>
           (case applyDiffLayer env baseImage sLayers tr1 of
              (Inl err, tr2) \<Rightarrow> (Some err, tr2)
            | (Inr (diffLayerDesc, diffID, snapshotID), tr2) \<Rightarrow>
                (case generateCommitImageConfig env opt baseImage diffID tr2 of
                   (Inl err, tr3) \<Rightarrow> (Some (Wrapped ''failed to generate commit image config: '' err), tr3)
                 | (Inr imageConfig, tr3) \<Rightarrow>
                     (case sliceTo (Layers (Manifest img)) (imgutil_LayersSpare env (ClientImage img))
                             remainingLayerCount of
                        Inl err \<Rightarrow> (Some err, tr3)
                      | Inr baseImageLayers \<Rightarrow>
                          (case writeContentsForImage env (Snapshotter opt) imageConfig baseImageLayers diffLayerDesc tr3 of
                             (Inl err, tr4) \<Rightarrow> (Some err, tr4)
                           | (Inr (commitManifestDesc, configDigest), tr4) \<Rightarrow>
                               (let nimg = \<lparr>Name = TargetImageName opt,
                                            Target = commitManifestDesc,
                                            UpdatedAt = time_Now env tr4\<rparr>;
                                    tr5 = tr4 @ [EvNow] in
                                (case createSquashImage env nimg tr5 of
                                   ((newImg, Some err), tr6) \<Rightarrow> (Some err, tr6)
                                 | ((newImg, None), tr6) \<Rightarrow>
                                     (case cimg_Unpack env tr6 nimg (Snapshotter opt) of
                                        Some err \<Rightarrow> (Some err, tr6 @ [EvUnpack nimg (Snapshotter opt)])
                                      | None \<Rightarrow> (None, tr6 @ [EvUnpack nimg (Snapshotter opt)]))))))))))"

definition Squash :: "'c env \<Rightarrow> ImageSquashOptions \<Rightarrow> error option \<times> trace" where
  "Squash env opt =
     (case initImage env opt [] of
        (Inl err, tr1) \<Rightarrow> (Some err, tr1)
      | (Inr img, tr1) \<Rightarrow>
          (case generateSquashLayer opt img of
             Inl err \<Rightarrow> (Some err, tr1)
           | Inr sLayers \<Rightarrow>
               (case client_WithLease env tr1 of
                  Some err \<Rightarrow> (Some (Wrapped ''failed to create lease for squash: '' err), tr1 @ [EvWithLease])
                | None \<Rightarrow>
                    (case squashUnderLease env opt img sLayers (tr1 @ [EvWithLease]) of
                       (res, tr2) \<Rightarrow> (res, tr2 @ [EvLeaseDone])))))"

section \<open>Writes to the stores\<close>

text \<open>
  The events that write the image record (Update or Create on the image store) and the
  events that write a blob to the content store.
\<close>

fun isImageWrite :: "event \<Rightarrow> bool" where
  "isImageWrite (EvImageUpdate i) = True"
| "isImageWrite (EvImageCreate i) = True"
| "isImageWrite ev = False"

fun isBlobWrite :: "event \<Rightarrow> bool" where
  "isBlobWrite (EvWriteBlob ref bs desc labels) = True"
| "isBlobWrite ev = False"

definition noImageWrite :: "trace \<Rightarrow> bool" where
  "noImageWrite tr = list_all (\<lambda>ev. \<not> isImageWrite ev) tr"

definition noStoreWrite :: "trace \<Rightarrow> bool" where
  "noStoreWrite tr = list_all (\<lambda>ev. \<not> isImageWrite ev \<and> \<not> isBlobWrite ev) tr"

section \<open>Concrete data\<close>

text \<open>
  A small image and an environment in which every collaborator succeeds; the theorems
  below are instantiated on them and on variations of them.
\<close>

definition exLayer :: "string \<Rightarrow> Descriptor" where
  "exLayer d = \<lparr>MediaType = MediaTypeDockerSchema2LayerGzip, Digest = d, Descriptor.Size = 10\<rparr>"

definition exRecord :: ImageRecord where
  "exRecord = \<lparr>Name = ''src:latest'', Target = exLayer ''sha256:m'', UpdatedAt = 0\<rparr>"

definition exHistory :: "string \<Rightarrow> bool \<Rightarrow> History" where
  "exHistory c e = \<lparr>History.Created = None, CreatedBy = c, Author = ''a'', Comment = '''', EmptyLayer = e\<rparr>"

definition exConfig :: "digest list \<Rightarrow> History list \<Rightarrow> unit Image" where
  "exConfig ds hs =
     \<lparr>Image.Created = None, Author = ''orig'',
      Platform = \<lparr>Architecture = ''amd64'', OS = ''linux'', OSVersion = '''', OSFeatures = [], Variant = ''''\<rparr>,
      Config = (), RootFS = \<lparr>Type = ''layers'', DiffIDs = ds\<rparr>, History = hs\<rparr>"

definition exImage :: "Descriptor list \<Rightarrow> unit squashImage" where
  "exImage ls =
     \<lparr>ClientImage = exRecord, Config = exConfig [] [], Image = exRecord,
      Manifest = \<lparr>SchemaVersion = 2, Config = exLayer ''sha256:c'', Layers = ls\<rparr>\<rparr>"

definition exOpt :: "int \<Rightarrow> string \<Rightarrow> ImageSquashOptions" where
  "exOpt c d =
     \<lparr>Snapshotter = ''overlayfs'', Namespace = ''default'', Author = '' me '', Message = '' msg '',
      SourceImageRef = ''src:latest'', TargetImageName = ''dst:latest'',
      SquashLayerCount = c, SquashLayerDigest = d\<rparr>"

definition exEnv :: "unit env" where
  "exEnv =
     \<lparr>imageStore_Get = (\<lambda>tr ref. Inr exRecord),
      imageStore_Update = (\<lambda>tr i. (i, None)),
      imageStore_Create = (\<lambda>tr i. (i, None)),
      imgutil_ReadManifest = (\<lambda>tr i. Inr \<lparr>SchemaVersion = 2, Config = exLayer ''sha256:c'',
          Layers = [exLayer ''sha256:a'', exLayer ''sha256:b'', exLayer ''sha256:c'']\<rparr>),
      imgutil_ReadImageConfig = (\<lambda>tr i. Inr (exConfig [''sha256:d1'', ''sha256:d2'', ''sha256:d3'']
          [exHistory ''ADD a'' False, exHistory ''ENV x'' True, exHistory ''RUN b'' False,
           exHistory ''RUN c'' False, exHistory ''CMD y'' True])),
      imgutil_DiffIDsSpare = (\<lambda>tr i. []),
      imgutil_LayersSpare = (\<lambda>i. []),
      client_WithLease = (\<lambda>tr. None),
      time_Now = (\<lambda>tr. 0),
      uniquePart = (\<lambda>tr. ''key''),
      sn_Prepare = (\<lambda>tr key parent. Inr [Mount ''overlay'' ''overlay'' []]),
      sn_Commit = (\<lambda>tr name key. None),
      sn_Remove = (\<lambda>tr key. None),
      differ_Apply = (\<lambda>tr layer mount. None),
      rootfs_CreateDiff = (\<lambda>tr key. Inr (exLayer ''sha256:new'')),
      contentStore_Info = (\<lambda>tr d. Inr \<lparr>ContentInfo.Size = 7,
          Labels = [''containerd.io/uncompressed'' \<mapsto> ''sha256:newdiff'']\<rparr>),
      content_WriteBlob = (\<lambda>tr ref bs desc labels. None),
      cimg_Unpack = (\<lambda>tr i sn. None),
      identity_ChainID = (\<lambda>ds. ''chain:'' @ concat ds),
      digest_Parse = (\<lambda>s. Inr s),
      digest_FromBytes = (\<lambda>bs. ''sha256:'' @ bs),
      json_Marshal = (\<lambda>c. Inr ''config-json''),
      json_MarshalIndent = (\<lambda>m. Inr ''manifest-json''),
      strings_TrimSpace = (\<lambda>s. rev (dropWhile (\<lambda>c. c = CHR '' '') (rev (dropWhile (\<lambda>c. c = CHR '' '') s)))),
      runtime_GOARCH = ''amd64'',
      runtime_GOOS = ''linux''\<rparr>"

definition exEnvRootFSType :: "unit env" where
  "exEnvRootFSType =
     exEnv\<lparr>imgutil_ReadImageConfig :=
       (\<lambda>tr i. Inr ((exConfig [''sha256:d1'', ''sha256:d2''] [])\<lparr>RootFS := \<lparr>Type = ''other'', DiffIDs = [''sha256:d1'', ''sha256:d2'']\<rparr>\<rparr>))\<rparr>"

definition exEnvStore :: "error option \<Rightarrow> error option \<Rightarrow> unit env" where
  "exEnvStore u c =
     exEnv\<lparr>imageStore_Update := (\<lambda>tr i. (i, u)), imageStore_Create := (\<lambda>tr i. (i, c))\<rparr>"

definition exEnvCommit :: "error option \<Rightarrow> unit env" where
  "exEnvCommit c = exEnv\<lparr>sn_Commit := (\<lambda>tr name key. c)\<rparr>"

definition exEnvApplyFails :: "unit env" where
  "exEnvApplyFails =
     exEnv\<lparr>differ_Apply :=
       (\<lambda>tr layer mount. if Digest layer = ''sha256:b'' then Some (ErrOther ''apply failed'') else None)\<rparr>"

definition exEnvCreateDiffFails :: "unit env" where
  "exEnvCreateDiffFails = exEnv\<lparr>rootfs_CreateDiff := (\<lambda>tr key. Inl (ErrOther ''diff failed''))\<rparr>"

definition exEnvWriteFails :: "unit env" where
  "exEnvWriteFails =
     exEnv\<lparr>content_WriteBlob :=
       (\<lambda>tr ref bs desc labels. if ref = ''sha256:config-json'' then Some (ErrOther ''write failed'') else None)\<rparr>"

fun isWithLease :: "event \<Rightarrow> bool" where
  "isWithLease EvWithLease = True"
| "isWithLease ev = False"

definition exEnvReadFails :: "unit env" where
  "exEnvReadFails =
     exEnv\<lparr>imgutil_ReadImageConfig :=
       (\<lambda>tr i. if list_ex isWithLease tr then Inl (ErrOther ''read failed'') else imgutil_ReadImageConfig exEnv tr i)\<rparr>"

definition exEnvGetFails :: "unit env" where
  "exEnvGetFails = exEnv\<lparr>imageStore_Get := (\<lambda>tr ref. Inl ErrNotFound)\<rparr>"

definition exEnvLeaseFails :: "unit env" where
  "exEnvLeaseFails = exEnv\<lparr>client_WithLease := (\<lambda>tr. Some (ErrOther ''no lease''))\<rparr>"

definition exEnvReadManifestFails :: "unit env" where
  "exEnvReadManifestFails = exEnv\<lparr>imgutil_ReadManifest := (\<lambda>tr i. Inl (ErrOther ''no manifest''))\<rparr>"

definition exEnvReadConfigFails :: "unit env" where
  "exEnvReadConfigFails = exEnv\<lparr>imgutil_ReadImageConfig := (\<lambda>tr i. Inl (ErrOther ''no config''))\<rparr>"

definition exEnvShortConfig :: "unit env" where
  "exEnvShortConfig = exEnv\<lparr>imgutil_ReadImageConfig := (\<lambda>tr i. Inr (exConfig [] []))\<rparr>"

definition exEnvPrepareFails :: "unit env" where
  "exEnvPrepareFails = exEnv\<lparr>sn_Prepare := (\<lambda>tr key parent. Inl (ErrOther ''prepare failed''))\<rparr>"

definition exEnvInfoFails :: "unit env" where
  "exEnvInfoFails = exEnv\<lparr>contentStore_Info := (\<lambda>tr d. Inl ErrNotFound)\<rparr>"

definition exEnvNoLabel :: "unit env" where
  "exEnvNoLabel = exEnv\<lparr>contentStore_Info := (\<lambda>tr d. Inr \<lparr>ContentInfo.Size = 7, Labels = Map.empty\<rparr>)\<rparr>"

definition exEnvParseFails :: "unit env" where
  "exEnvParseFails = exEnv\<lparr>digest_Parse := (\<lambda>s. Inl (ErrOther ''invalid digest''))\<rparr>"

definition exEnvMarshalFails :: "unit env" where
  "exEnvMarshalFails = exEnv\<lparr>json_Marshal := (\<lambda>c. Inl (ErrOther ''marshal failed''))\<rparr>"

definition exEnvMarshalIndentFails :: "unit env" where
  "exEnvMarshalIndentFails = exEnv\<lparr>json_MarshalIndent := (\<lambda>m. Inl (ErrOther ''marshal failed''))\<rparr>"

definition exEnvManifestWriteFails :: "unit env" where
  "exEnvManifestWriteFails =
     exEnv\<lparr>content_WriteBlob :=
       (\<lambda>tr ref bs desc labels. if ref = ''sha256:manifest-json'' then Some (ErrOther ''write failed'') else None)\<rparr>"

definition exEnvSpare :: "unit env" where
  "exEnvSpare = exEnvShortConfig\<lparr>imgutil_DiffIDsSpare := (\<lambda>tr i. [''sha256:spare''])\<rparr>"

section \<open>Properties of generateSquashLayer\<close>

lemma squashLayerScan_found:
  "squashLayerScan d ls True res = (True, res @ ls)"
  by (induction ls arbitrary: res) simp_all

lemma squashLayerScan_not_found:
  "squashLayerScan d ls False res =
     (if \<exists>l \<in> set ls. Digest l = d then (True, res @ dropWhile (\<lambda>l. Digest l \<noteq> d) ls) else (False, res))"
  by (induction ls arbitrary: res) (simp_all add: squashLayerScan_found)

text \<open>
  C2. With an empty selector digest, a count \<open>c\<close> with \<open>1 < c \<le> L\<close> selects exactly the last
  \<open>c\<close> layer descriptors in their original order (the layers are the skipped \<open>L - c\<close> ones
  followed by the result, which has length \<open>c\<close>); every other count fails with
  InvalidArgument.
\<close>

theorem generateSquashLayer_count:
  fixes img :: "'c squashImage"
  assumes "SquashLayerDigest opt = ''''"
  shows "(1 < SquashLayerCount opt \<and> SquashLayerCount opt \<le> int (length (Layers (Manifest img))) \<longrightarrow>
            (\<exists>pre res. generateSquashLayer opt img = Inr res
               \<and> Layers (Manifest img) = pre @ res
               \<and> int (length res) = SquashLayerCount opt))
       \<and> (\<not> (1 < SquashLayerCount opt \<and> SquashLayerCount opt \<le> int (length (Layers (Manifest img)))) \<longrightarrow>
            (\<exists>e. generateSquashLayer opt img = Inl e \<and> IsInvalidArgument e))"
proof (intro conjI impI)
  let ?L = "Layers (Manifest img)"
  let ?c = "SquashLayerCount opt"
  assume range: "1 < ?c \<and> ?c \<le> int (length ?L)"
  define k where "k = nat (int (length ?L) - ?c)"
  have res: "generateSquashLayer opt img = Inr (drop k ?L)"
    using assms range by (simp add: generateSquashLayer_def k_def)
  have split: "?L = take k ?L @ drop k ?L" by simp
  have len: "int (length (drop k ?L)) = ?c"
    using range unfolding k_def by (simp only: length_drop) linarith
  show "\<exists>pre res. generateSquashLayer opt img = Inr res \<and> ?L = pre @ res \<and> int (length res) = ?c"
    using res split len by blast
next
  assume "\<not> (1 < SquashLayerCount opt \<and> SquashLayerCount opt \<le> int (length (Layers (Manifest img))))"
  then have "generateSquashLayer opt img = Inl (Wrapped ''invalid squash option: '' ErrInvalidArgument)"
    using assms by (auto simp add: generateSquashLayer_def)
  then show "\<exists>e. generateSquashLayer opt img = Inl e \<and> IsInvalidArgument e"
    by simp
qed

text \<open>Witness of C2: a count of 2 on three layers, and a count of 1 on one layer.\<close>

theorem generateSquashLayer_count_witness:
  "SquashLayerDigest (exOpt 2 '''') = ''''
   \<and> generateSquashLayer (exOpt 2 '''') (exImage [exLayer ''sha256:a'', exLayer ''sha256:b'', exLayer ''sha256:c''])
       = Inr [exLayer ''sha256:b'', exLayer ''sha256:c'']
   \<and> (\<exists>e. generateSquashLayer (exOpt 1 '''') (exImage [exLayer ''sha256:a'']) = Inl e \<and> IsInvalidArgument e)"
proof -
  have h2: "SquashLayerDigest (exOpt 2 '''') = ''''" and h1: "SquashLayerDigest (exOpt 1 '''') = ''''"
    by (simp_all add: exOpt_def)
  let ?I = "exImage [exLayer ''sha256:a'', exLayer ''sha256:b'', exLayer ''sha256:c'']"
  from generateSquashLayer_count [OF h2, of ?I]
  obtain pre res where r:
    "generateSquashLayer (exOpt 2 '''') ?I = Inr res"
    "[exLayer ''sha256:a'', exLayer ''sha256:b'', exLayer ''sha256:c''] = pre @ res"
    "int (length res) = 2"
    by (auto simp add: exOpt_def exImage_def)
  have "res = [exLayer ''sha256:b'', exLayer ''sha256:c'']"
    using r(2,3) by (cases pre; cases res) (auto simp add: Cons_eq_append_conv)
  with r(1) have a: "generateSquashLayer (exOpt 2 '''') ?I = Inr [exLayer ''sha256:b'', exLayer ''sha256:c'']"
    by (simp only:)
  from generateSquashLayer_count [OF h1, of "exImage [exLayer ''sha256:a'']"]
  have b: "\<exists>e. generateSquashLayer (exOpt 1 '''') (exImage [exLayer ''sha256:a'']) = Inl e \<and> IsInvalidArgument e"
    by (simp add: exOpt_def exImage_def)
  from h2 a b show ?thesis by (intro conjI)
qed

text \<open>
  C3. With a non-empty selector digest (whatever the count), the result is the suffix of the
  layer sequence that starts at the first descriptor whose digest is the target: the layers
  are a prefix without any match followed by the result, whose head matches. The selection
  fails, with NotFound, exactly when no descriptor has the target digest.
\<close>

theorem generateSquashLayer_digest:
  fixes img :: "'c squashImage"
  assumes "SquashLayerDigest opt \<noteq> ''''"
  shows "((\<exists>l \<in> set (Layers (Manifest img)). Digest l = SquashLayerDigest opt) \<longrightarrow>
            (\<exists>pre res. generateSquashLayer opt img = Inr res
               \<and> Layers (Manifest img) = pre @ res
               \<and> (\<forall>l \<in> set pre. Digest l \<noteq> SquashLayerDigest opt)
               \<and> res \<noteq> [] \<and> Digest (hd res) = SquashLayerDigest opt))
       \<and> ((\<exists>e. generateSquashLayer opt img = Inl e) \<longleftrightarrow>
            \<not> (\<exists>l \<in> set (Layers (Manifest img)). Digest l = SquashLayerDigest opt))
       \<and> (\<forall>e. generateSquashLayer opt img = Inl e \<longrightarrow> IsNotFound e)"
proof -
  let ?L = "Layers (Manifest img)"
  let ?d = "SquashLayerDigest opt"
  let ?P = "\<lambda>l. Digest l \<noteq> ?d"
  have some: "generateSquashLayer opt img = Inr (dropWhile ?P ?L)" if "\<exists>l \<in> set ?L. Digest l = ?d"
    using assms that by (simp add: generateSquashLayer_def squashLayerScan_not_found)
  have none: "generateSquashLayer opt img =
                Inl (Wrapped (''layer digest '' @ ?d @ '' not found in the image: '') ErrNotFound)"
    if "\<not> (\<exists>l \<in> set ?L. Digest l = ?d)"
    using assms that by (simp add: generateSquashLayer_def squashLayerScan_not_found)
  have first: "\<exists>pre res. generateSquashLayer opt img = Inr res \<and> ?L = pre @ res
                 \<and> (\<forall>l \<in> set pre. Digest l \<noteq> ?d) \<and> res \<noteq> [] \<and> Digest (hd res) = ?d"
    if ex: "\<exists>l \<in> set ?L. Digest l = ?d"
  proof -
    have ne: "dropWhile ?P ?L \<noteq> []" using ex by (simp add: dropWhile_eq_Nil_conv)
    have hd: "Digest (hd (dropWhile ?P ?L)) = ?d" using hd_dropWhile [OF ne] by simp
    have pre: "\<forall>l \<in> set (takeWhile ?P ?L). Digest l \<noteq> ?d" by (auto dest: set_takeWhileD)
    have "?L = takeWhile ?P ?L @ dropWhile ?P ?L" by simp
    with some [OF ex] ne hd pre show ?thesis by blast
  qed
  show ?thesis
  proof (cases "\<exists>l \<in> set ?L. Digest l = ?d")
    case True
    with first some show ?thesis by auto
  next
    case False
    with none show ?thesis by auto
  qed
qed

text \<open>
  Witness of C3: the target is the digest of the second of three layers, and a target that
  no layer has.
\<close>

theorem generateSquashLayer_digest_witness:
  "SquashLayerDigest (exOpt 0 ''sha256:b'') \<noteq> ''''
   \<and> generateSquashLayer (exOpt 0 ''sha256:b'') (exImage [exLayer ''sha256:a'', exLayer ''sha256:b'', exLayer ''sha256:c''])
       = Inr [exLayer ''sha256:b'', exLayer ''sha256:c'']
   \<and> (\<exists>e. generateSquashLayer (exOpt 0 ''sha256:x'') (exImage [exLayer ''sha256:a'']) = Inl e \<and> IsNotFound e)"
proof -
  let ?I = "exImage [exLayer ''sha256:a'', exLayer ''sha256:b'', exLayer ''sha256:c'']"
  have hb: "SquashLayerDigest (exOpt 0 ''sha256:b'') \<noteq> ''''" and hx: "SquashLayerDigest (exOpt 0 ''sha256:x'') \<noteq> ''''"
    by (simp_all add: exOpt_def)
  have ex: "\<exists>l \<in> set (Layers (Manifest ?I)). Digest l = SquashLayerDigest (exOpt 0 ''sha256:b'')"
    by (simp add: exOpt_def exImage_def exLayer_def)
  from generateSquashLayer_digest [OF hb, of ?I] ex
  obtain pre res where r:
    "generateSquashLayer (exOpt 0 ''sha256:b'') ?I = Inr res"
    "Layers (Manifest ?I) = pre @ res"
    "\<forall>l \<in> set pre. Digest l \<noteq> SquashLayerDigest (exOpt 0 ''sha256:b'')"
    "res \<noteq> []" "Digest (hd res) = SquashLayerDigest (exOpt 0 ''sha256:b'')"
    by blast
  have res: "res = [exLayer ''sha256:b'', exLayer ''sha256:c'']"
    using r(2-5) by (cases res) (auto simp add: exOpt_def exImage_def exLayer_def append_eq_Cons_conv Cons_eq_append_conv)
  from r(1) res have a: "generateSquashLayer (exOpt 0 ''sha256:b'') ?I = Inr [exLayer ''sha256:b'', exLayer ''sha256:c'']"
    by (simp only:)
  have b: "\<exists>e. generateSquashLayer (exOpt 0 ''sha256:x'') (exImage [exLayer ''sha256:a'']) = Inl e \<and> IsNotFound e"
  proof -
    have "\<not> (\<exists>l \<in> set (Layers (Manifest (exImage [exLayer ''sha256:a'']))). Digest l = SquashLayerDigest (exOpt 0 ''sha256:x''))"
      by (simp add: exOpt_def exImage_def exLayer_def)
    with generateSquashLayer_digest [OF hx, of "exImage [exLayer ''sha256:a'']"] show ?thesis by blast
  qed
  from hb a b show ?thesis by (intro conjI)
qed

text \<open>
  Counterexample to C9 as stated: two layers with the same digest (the same blob twice, as
  manifests may list it). The last layer's digest is the target, and the selection is the
  suffix from the first match, here both layers, not a one-element suffix.
\<close>

theorem generateSquashLayer_last_digest_counterexample:
  "SquashLayerDigest (exOpt 0 ''sha256:a'') \<noteq> ''''
   \<and> Digest (last (Layers (Manifest (exImage [exLayer ''sha256:a'', exLayer ''sha256:a''])))) = SquashLayerDigest (exOpt 0 ''sha256:a'')
   \<and> generateSquashLayer (exOpt 0 ''sha256:a'') (exImage [exLayer ''sha256:a'', exLayer ''sha256:a''])
       = Inr [exLayer ''sha256:a'', exLayer ''sha256:a'']"
  by (simp add: generateSquashLayer_def exOpt_def exImage_def exLayer_def)

text \<open>
  C9, amended. Digest mode has no minimum suffix size. When the last layer is the first
  layer whose digest is the target, the selection is that one layer; when the first layer's
  digest is the target, the selection is the whole layer sequence (no layer is retained);
  on a single-layer image with the target digest the selection succeeds with that layer,
  where the count selection of 1 fails with InvalidArgument.
\<close>

theorem generateSquashLayer_digest_no_minimum:
  fixes img :: "'c squashImage"
  assumes "SquashLayerDigest opt \<noteq> ''''"
  shows "(\<forall>pre l. Layers (Manifest img) = pre @ [l] \<and> Digest l = SquashLayerDigest opt
              \<and> (\<forall>x \<in> set pre. Digest x \<noteq> SquashLayerDigest opt) \<longrightarrow>
            generateSquashLayer opt img = Inr [l])
       \<and> (\<forall>l rest. Layers (Manifest img) = l # rest \<and> Digest l = SquashLayerDigest opt \<longrightarrow>
            generateSquashLayer opt img = Inr (Layers (Manifest img)))
       \<and> (\<forall>l. Layers (Manifest img) = [l] \<and> Digest l = SquashLayerDigest opt \<longrightarrow>
            generateSquashLayer opt img = Inr [l]
            \<and> (\<exists>e. generateSquashLayer (opt\<lparr>SquashLayerCount := 1, SquashLayerDigest := ''''\<rparr>) img = Inl e
                   \<and> IsInvalidArgument e))"
proof (intro conjI allI impI)
  fix pre l
  assume h: "Layers (Manifest img) = pre @ [l] \<and> Digest l = SquashLayerDigest opt
             \<and> (\<forall>x \<in> set pre. Digest x \<noteq> SquashLayerDigest opt)"
  then have "dropWhile (\<lambda>x. Digest x \<noteq> SquashLayerDigest opt) (pre @ [l]) = [l]"
    by simp
  with assms h show "generateSquashLayer opt img = Inr [l]"
    by (simp add: generateSquashLayer_def squashLayerScan_not_found)
next
  fix l rest
  assume "Layers (Manifest img) = l # rest \<and> Digest l = SquashLayerDigest opt"
  with assms show "generateSquashLayer opt img = Inr (Layers (Manifest img))"
    by (simp add: generateSquashLayer_def squashLayerScan_found)
next
  fix l
  assume "Layers (Manifest img) = [l] \<and> Digest l = SquashLayerDigest opt"
  with assms show "generateSquashLayer opt img = Inr [l]"
    by (simp add: generateSquashLayer_def)
next
  fix l
  assume "Layers (Manifest img) = [l] \<and> Digest l = SquashLayerDigest opt"
  then show "\<exists>e. generateSquashLayer (opt\<lparr>SquashLayerCount := 1, SquashLayerDigest := ''''\<rparr>) img = Inl e
                   \<and> IsInvalidArgument e"
    by (simp add: generateSquashLayer_def)
qed

text \<open>Witness of C9: two layers with either digest as the target, and a single layer.\<close>

theorem generateSquashLayer_digest_no_minimum_witness:
  "generateSquashLayer (exOpt 0 ''sha256:b'') (exImage [exLayer ''sha256:a'', exLayer ''sha256:b''])
     = Inr [exLayer ''sha256:b'']
   \<and> generateSquashLayer (exOpt 0 ''sha256:a'') (exImage [exLayer ''sha256:a'', exLayer ''sha256:b''])
     = Inr [exLayer ''sha256:a'', exLayer ''sha256:b'']
   \<and> generateSquashLayer (exOpt 0 ''sha256:a'') (exImage [exLayer ''sha256:a'']) = Inr [exLayer ''sha256:a'']
   \<and> (\<exists>e. generateSquashLayer (exOpt 1 '''') (exImage [exLayer ''sha256:a'']) = Inl e \<and> IsInvalidArgument e)"
proof -
  let ?ab = "exImage [exLayer ''sha256:a'', exLayer ''sha256:b'']"
  let ?a = "exImage [exLayer ''sha256:a'']"
  have ha: "SquashLayerDigest (exOpt 0 ''sha256:a'') \<noteq> ''''" and hb: "SquashLayerDigest (exOpt 0 ''sha256:b'') \<noteq> ''''"
    by (simp_all add: exOpt_def)
  have upd: "(exOpt 0 ''sha256:a'')\<lparr>SquashLayerCount := 1, SquashLayerDigest := ''''\<rparr> = exOpt 1 ''''"
    by (simp add: exOpt_def)
  have 1: "generateSquashLayer (exOpt 0 ''sha256:b'') ?ab = Inr [exLayer ''sha256:b'']"
    using generateSquashLayer_digest_no_minimum [OF hb, of ?ab, THEN conjunct1, rule_format, of "[exLayer ''sha256:a'']" "exLayer ''sha256:b''"]
    by (simp add: exOpt_def exImage_def exLayer_def)
  have 2: "generateSquashLayer (exOpt 0 ''sha256:a'') ?ab = Inr [exLayer ''sha256:a'', exLayer ''sha256:b'']"
    using generateSquashLayer_digest_no_minimum [OF ha, of ?ab, THEN conjunct2, THEN conjunct1, rule_format, of "exLayer ''sha256:a''" "[exLayer ''sha256:b'']"]
    by (simp add: exOpt_def exImage_def exLayer_def)
  have 3: "generateSquashLayer (exOpt 0 ''sha256:a'') ?a = Inr [exLayer ''sha256:a'']
           \<and> (\<exists>e. generateSquashLayer (exOpt 1 '''') ?a = Inl e \<and> IsInvalidArgument e)"
    using generateSquashLayer_digest_no_minimum [OF ha, of ?a, THEN conjunct2, THEN conjunct2, rule_format, of "exLayer ''sha256:a''"]
    unfolding upd by (simp add: exOpt_def exImage_def exLayer_def)
  from 1 2 3 show ?thesis by (intro conjI) simp_all
qed

section \<open>Properties of generateBaseImageConfig\<close>

text \<open>
  The slice expression on a config whose \<open>DiffIDs\<close> has length 0 and a remaining count of 1:
  with one spare element in the backing array the function carries on and the base config
  holds that element; with no spare element the expression panics.
\<close>

lemma generateBaseImageConfig_spare_capacity:
  "fst (generateBaseImageConfig exEnvSpare (exImage []) 1 []) =
     Inr ((exConfig [''sha256:spare''] [])\<lparr>Image.Created := Some 0\<rparr>)
   \<and> fst (generateBaseImageConfig exEnvShortConfig (exImage []) 1 []) = Inl PanicSliceBounds"
  by (simp add: generateBaseImageConfig_def sliceTo_def exEnvSpare_def exEnvShortConfig_def exEnv_def
      exConfig_def exImage_def)

lemma baseHistoryLoop_acc:
  "baseHistoryLoop r hs acc c = acc @ baseHistoryLoop r hs [] c"
proof (induction hs arbitrary: acc c)
  case Nil
  show ?case by simp
next
  case (Cons h hs)
  have a: "baseHistoryLoop r hs (acc @ [h]) k = acc @ h # baseHistoryLoop r hs [] k" for k
    using Cons.IH [of "acc @ [h]" k] Cons.IH [of "[h]" k] by simp
  have b: "baseHistoryLoop r hs [h] k = h # baseHistoryLoop r hs [] k" for k
    using Cons.IH [of "[h]" k] by simp
  show ?case by (simp add: a b)
qed

lemma baseHistoryLoop_Cons:
  "baseHistoryLoop r hs [h] c = h # baseHistoryLoop r hs [] c"
  using baseHistoryLoop_acc [of r hs "[h]" c] by simp

lemma baseHistoryLoop_prefix:
  "prefix (baseHistoryLoop r hs [] c) hs"
  by (induction hs arbitrary: c) (simp_all add: baseHistoryLoop_Cons)

lemma baseHistoryLoop_count:
  "c \<le> r \<Longrightarrow> c + int (length (filter (\<lambda>h. \<not> EmptyLayer h) (baseHistoryLoop r hs [] c))) \<le> r"
proof (induction hs arbitrary: c)
  case Nil
  then show ?case by simp
next
  case (Cons h hs)
  show ?case
  proof (cases "EmptyLayer h")
    case True
    with Cons.IH [OF Cons.prems] show ?thesis by (simp add: baseHistoryLoop_Cons)
  next
    case False
    show ?thesis
    proof (cases "c + 1 \<le> r")
      case True
      with Cons.IH [of "c + 1"] False show ?thesis by (simp add: baseHistoryLoop_Cons)
    next
      case no: False
      with False Cons.prems show ?thesis by (simp add: baseHistoryLoop_Cons)
    qed
  qed
qed

lemma baseHistoryLoop_stops:
  "c \<le> r \<Longrightarrow>
     baseHistoryLoop r hs [] c = hs
     \<or> (\<exists>h rest. hs = baseHistoryLoop r hs [] c @ h # rest \<and> \<not> EmptyLayer h
           \<and> c + int (length (filter (\<lambda>h. \<not> EmptyLayer h) (baseHistoryLoop r hs [] c))) = r)"
proof (induction hs arbitrary: c)
  case Nil
  then show ?case by simp
next
  case (Cons h hs)
  show ?case
  proof (cases "EmptyLayer h")
    case True
    with Cons.IH [OF Cons.prems] show ?thesis by (auto simp add: baseHistoryLoop_Cons)
  next
    case False
    show ?thesis
    proof (cases "c + 1 \<le> r")
      case True
      with Cons.IH [of "c + 1"] False show ?thesis by (auto simp add: baseHistoryLoop_Cons)
    next
      case no: False
      with False Cons.prems show ?thesis by (auto simp add: baseHistoryLoop_Cons)
    qed
  qed
qed

lemma baseHistoryLoop_all:
  "c + int (length (filter (\<lambda>h. \<not> EmptyLayer h) hs)) \<le> r \<Longrightarrow> baseHistoryLoop r hs [] c = hs"
proof (induction hs arbitrary: c)
  case Nil
  show ?case by simp
next
  case (Cons h hs)
  show ?case
  proof (cases "EmptyLayer h")
    case True
    with Cons.prems have "c + int (length (filter (\<lambda>h. \<not> EmptyLayer h) hs)) \<le> r" by simp
    from Cons.IH [OF this] True show ?thesis by (simp add: baseHistoryLoop_Cons)
  next
    case False
    with Cons.prems have "(c + 1) + int (length (filter (\<lambda>h. \<not> EmptyLayer h) hs)) \<le> r" by simp
    from Cons.IH [OF this] this False show ?thesis by (simp add: baseHistoryLoop_Cons)
  qed
qed

text \<open>
  C1, amended. For every original config and every remaining count with
  \<open>0 \<le> remaining \<le> length of the original diffIDs\<close>, the base config has as diffIDs exactly the
  first \<open>remaining\<close> original diffIDs (so their number is \<open>remaining\<close>), and its history is
  the longest prefix of the original history with at most \<open>remaining\<close> non-empty-layer
  entries: a prefix of the original history, with at most \<open>remaining\<close> non-empty-layer
  entries, that either is the whole history or stops right before a non-empty-layer entry
  when it already holds \<open>remaining\<close> of them. So the empty-layer entries before that point
  are kept in their order and the ones after it are dropped; the whole history is kept when
  it has at most \<open>remaining\<close> non-empty-layer entries.
\<close>

theorem generateBaseImageConfig_prefix:
  fixes env :: "'c env"
  assumes "imgutil_ReadImageConfig env tr (ClientImage img) = Inr orig"
    and "0 \<le> remaining"
    and "remaining \<le> int (length (DiffIDs (RootFS orig)))"
  shows "\<exists>base. fst (generateBaseImageConfig env img remaining tr) = Inr base
           \<and> DiffIDs (RootFS base) = take (nat remaining) (DiffIDs (RootFS orig))
           \<and> int (length (DiffIDs (RootFS base))) = remaining
           \<and> prefix (History base) (History orig)
           \<and> int (length (filter (\<lambda>h. \<not> EmptyLayer h) (History base))) \<le> remaining
           \<and> (History base = History orig
                \<or> (\<exists>h rest. History orig = History base @ h # rest \<and> \<not> EmptyLayer h
                      \<and> int (length (filter (\<lambda>h. \<not> EmptyLayer h) (History base))) = remaining))
           \<and> (int (length (filter (\<lambda>h. \<not> EmptyLayer h) (History orig))) \<le> remaining
                \<longrightarrow> History base = History orig)"
proof -
  let ?H = "baseHistoryLoop remaining (History orig) [] 0"
  let ?D = "take (nat remaining) (DiffIDs (RootFS orig))"
  define base where "base =
    \<lparr>Image.Created = Some (time_Now env (tr @ [EvReadImageConfig (ClientImage img)])),
     Author = Image.Author orig, Platform = Platform orig, Config = Image.Config orig,
     RootFS = \<lparr>Type = Type (RootFS orig), DiffIDs = ?D\<rparr>, History = ?H\<rparr>"
  have slice: "sliceTo (DiffIDs (RootFS orig)) spare remaining = Inr ?D" for spare
    using assms(2,3) by (simp add: sliceTo_def)
  have res: "fst (generateBaseImageConfig env img remaining tr) = Inr base"
    using assms(1) slice by (simp add: generateBaseImageConfig_def base_def)
  have d: "DiffIDs (RootFS base) = ?D" and h: "History base = ?H"
    by (simp_all add: base_def)
  have len: "int (length ?D) = remaining"
    using assms(2,3) by simp
  have cnt: "int (length (filter (\<lambda>h. \<not> EmptyLayer h) ?H)) \<le> remaining"
    using baseHistoryLoop_count [of 0 remaining "History orig"] assms(2) by simp
  have stop: "?H = History orig
                \<or> (\<exists>h rest. History orig = ?H @ h # rest \<and> \<not> EmptyLayer h
                      \<and> int (length (filter (\<lambda>h. \<not> EmptyLayer h) ?H)) = remaining)"
    using baseHistoryLoop_stops [of 0 remaining "History orig"] assms(2) by simp
  have all: "int (length (filter (\<lambda>h. \<not> EmptyLayer h) (History orig))) \<le> remaining \<longrightarrow> ?H = History orig"
    using baseHistoryLoop_all [of 0 "History orig" remaining] by simp
  show ?thesis
    using res d len cnt stop all baseHistoryLoop_prefix [of remaining "History orig" 0]
    unfolding h [symmetric] d [symmetric] by (intro exI [of _ base]) blast
qed

text \<open>
  Witness of C1: a config with three diffIDs and five history entries, two of them for
  empty layers, and two remaining layers.
\<close>

theorem generateBaseImageConfig_prefix_witness:
  "imgutil_ReadImageConfig exEnv [] (ClientImage (exImage [])) =
     Inr (exConfig [''sha256:d1'', ''sha256:d2'', ''sha256:d3'']
            [exHistory ''ADD a'' False, exHistory ''ENV x'' True, exHistory ''RUN b'' False,
             exHistory ''RUN c'' False, exHistory ''CMD y'' True])
   \<and> (\<exists>base. fst (generateBaseImageConfig exEnv (exImage []) 2 []) = Inr base
         \<and> DiffIDs (RootFS base) = [''sha256:d1'', ''sha256:d2'']
         \<and> History base = [exHistory ''ADD a'' False, exHistory ''ENV x'' True, exHistory ''RUN b'' False])"
proof -
  let ?hs = "[exHistory ''ADD a'' False, exHistory ''ENV x'' True, exHistory ''RUN b'' False,
              exHistory ''RUN c'' False, exHistory ''CMD y'' True]"
  let ?orig = "exConfig [''sha256:d1'', ''sha256:d2'', ''sha256:d3''] ?hs"
  have rd: "imgutil_ReadImageConfig exEnv [] (ClientImage (exImage [])) = Inr ?orig"
    by (simp add: exEnv_def)
  have r0: "(0::int) \<le> 2" and r1: "2 \<le> int (length (DiffIDs (RootFS ?orig)))"
    by (simp_all add: exConfig_def)
  from generateBaseImageConfig_prefix [OF rd r0 r1]
  obtain base where b:
    "fst (generateBaseImageConfig exEnv (exImage []) 2 []) = Inr base"
    "DiffIDs (RootFS base) = take (nat 2) (DiffIDs (RootFS ?orig))"
    "prefix (History base) (History ?orig)"
    "int (length (filter (\<lambda>h. \<not> EmptyLayer h) (History base))) \<le> 2"
    "History base = History ?orig
       \<or> (\<exists>h rest. History ?orig = History base @ h # rest \<and> \<not> EmptyLayer h
             \<and> int (length (filter (\<lambda>h. \<not> EmptyLayer h) (History base))) = 2)"
    by blast
  have d: "DiffIDs (RootFS base) = [''sha256:d1'', ''sha256:d2'']"
    using b(2) by (simp add: exConfig_def)
  have h: "History base = [exHistory ''ADD a'' False, exHistory ''ENV x'' True, exHistory ''RUN b'' False]"
  proof -
    have "fst (generateBaseImageConfig exEnv (exImage []) 2 []) =
            Inr ((exConfig [''sha256:d1'', ''sha256:d2'']
                    [exHistory ''ADD a'' False, exHistory ''ENV x'' True, exHistory ''RUN b'' False])
                   \<lparr>Image.Created := Some 0\<rparr>)"
      by (simp add: generateBaseImageConfig_def sliceTo_def exEnv_def exConfig_def exHistory_def exImage_def)
    with b(1) show ?thesis by (auto simp add: exConfig_def)
  qed
  from rd b(1) d h show ?thesis by blast
qed

text \<open>
  Counterexample to C1 as stated, on the same config with one remaining layer: the loop
  stops at the second non-empty-layer entry, and the empty-layer entry \<open>CMD y\<close> that
  follows it is not in the result. With a negative count the slice expression panics.
\<close>

theorem generateBaseImageConfig_empty_layers_counterexample:
  "imgutil_ReadImageConfig exEnv [] (ClientImage (exImage [])) =
     Inr (exConfig [''sha256:d1'', ''sha256:d2'', ''sha256:d3'']
            [exHistory ''ADD a'' False, exHistory ''ENV x'' True, exHistory ''RUN b'' False,
             exHistory ''RUN c'' False, exHistory ''CMD y'' True])
   \<and> EmptyLayer (exHistory ''CMD y'' True)
   \<and> fst (generateBaseImageConfig exEnv (exImage []) 1 []) =
       Inr ((exConfig [''sha256:d1''] [exHistory ''ADD a'' False, exHistory ''ENV x'' True])
              \<lparr>Image.Created := Some 0\<rparr>)
   \<and> fst (generateBaseImageConfig exEnv (exImage []) (- 1) []) = Inl PanicSliceBounds"
  by (simp add: generateBaseImageConfig_def sliceTo_def exEnv_def exConfig_def exHistory_def exImage_def)

section \<open>Properties of generateCommitImageConfig\<close>

text \<open>
  C8. For every base config and new diffID, the commit config has the base config's diffIDs
  followed by the new diffID, and the base config's history followed by exactly one new
  entry: its author is the trimmed author option when that is not empty and the base
  config's author otherwise, its comment is the trimmed message option, and it is not an
  empty-layer entry.
\<close>

theorem generateCommitImageConfig_appends:
  fixes env :: "'c env"
  shows "\<exists>cfg entry. fst (generateCommitImageConfig env opt baseConfig diffID tr) = Inr cfg
           \<and> DiffIDs (RootFS cfg) = DiffIDs (RootFS baseConfig) @ [diffID]
           \<and> History cfg = History baseConfig @ [entry]
           \<and> History.Author entry =
               (if strings_TrimSpace env (ImageSquashOptions.Author opt) \<noteq> ''''
                then strings_TrimSpace env (ImageSquashOptions.Author opt)
                else Image.Author baseConfig)
           \<and> Comment entry = strings_TrimSpace env (Message opt)
           \<and> \<not> EmptyLayer entry"
  by (simp add: generateCommitImageConfig_def Let_def)

text \<open>
  An instance of C8, with an environment whose \<open>TrimSpace\<close> removes the blanks at both
  ends: the author option \<open>'' me ''\<close> and the message option \<open>'' msg ''\<close>.
\<close>

theorem generateCommitImageConfig_appends_witness:
  "\<exists>cfg entry. fst (generateCommitImageConfig exEnv (exOpt 2 '''') (exConfig [''sha256:d1''] [exHistory ''ADD a'' False]) ''sha256:n'' []) = Inr cfg
     \<and> DiffIDs (RootFS cfg) = [''sha256:d1'', ''sha256:n'']
     \<and> History cfg = [exHistory ''ADD a'' False, entry]
     \<and> History.Author entry = ''me''
     \<and> Comment entry = ''msg''
     \<and> \<not> EmptyLayer entry"
  using generateCommitImageConfig_appends [of exEnv "exOpt 2 ''''" "exConfig [''sha256:d1''] [exHistory ''ADD a'' False]" "''sha256:n''" "[]"]
  by (simp add: exEnv_def exOpt_def exConfig_def)

text \<open>
  C10. The commit config's rootfs type is the literal \<open>layers\<close>, whatever the base config's
  rootfs type is; the base config's rootfs type is the one of the original config that was
  read.
\<close>

theorem rootfs_type_layers_or_copied:
  fixes env :: "'c env"
  shows "(\<exists>cfg. fst (generateCommitImageConfig env opt baseConfig diffID tr) = Inr cfg
            \<and> Type (RootFS cfg) = ''layers'')
       \<and> (\<forall>orig base. imgutil_ReadImageConfig env tr' (ClientImage img) = Inr orig
              \<and> fst (generateBaseImageConfig env img remaining tr') = Inr base
            \<longrightarrow> Type (RootFS base) = Type (RootFS orig))"
  by (auto simp add: generateCommitImageConfig_def generateBaseImageConfig_def Let_def split: sum.splits)

text \<open>
  Witness of C10: an original config whose rootfs type is \<open>other\<close>. The base config keeps
  that type, and the commit config derived from this base config has the type \<open>layers\<close>.
\<close>

theorem rootfs_type_layers_or_copied_witness:
  "(\<exists>base. fst (generateBaseImageConfig exEnvRootFSType (exImage []) 1 []) = Inr base
      \<and> Type (RootFS base) = ''other''
      \<and> (\<exists>cfg. fst (generateCommitImageConfig exEnvRootFSType (exOpt 2 '''') base ''sha256:n'' []) = Inr cfg
            \<and> Type (RootFS cfg) = ''layers''))"
proof -
  let ?orig = "(exConfig [''sha256:d1'', ''sha256:d2''] [])\<lparr>RootFS := \<lparr>Type = ''other'', DiffIDs = [''sha256:d1'', ''sha256:d2'']\<rparr>\<rparr>"
  have rd: "imgutil_ReadImageConfig exEnvRootFSType [] (ClientImage (exImage [])) = Inr ?orig"
    by (simp add: exEnvRootFSType_def)
  obtain base where b: "fst (generateBaseImageConfig exEnvRootFSType (exImage []) 1 []) = Inr base"
    by (simp add: generateBaseImageConfig_def sliceTo_def exEnvRootFSType_def exConfig_def)
  note t = rootfs_type_layers_or_copied [where env = exEnvRootFSType and opt = "exOpt 2 ''''"
      and baseConfig = base and diffID = "''sha256:n''" and tr = "[]" and tr' = "[]"
      and img = "exImage []" and remaining = 1]
  from t rd b have "Type (RootFS base) = Type (RootFS ?orig)" by blast
  then have "Type (RootFS base) = ''other''" by simp
  with t b show ?thesis by blast
qed

section \<open>Properties of writeContentsForImage\<close>

lemma digitChar_inj:
  assumes "n < 10" "m < 10" "digitChar n = digitChar m"
  shows "n = m"
proof -
  have d: "distinct ''0123456789''" by simp
  have "n < length ''0123456789''" "m < length ''0123456789''" using assms(1,2) by simp_all
  with d assms(3) show ?thesis unfolding digitChar_def by (simp only: nth_eq_iff_index_eq)
qed

lemma decimal_nonempty: "decimal n \<noteq> []"
  by (subst decimal.simps) simp

lemma decimal_small: "n < 10 \<Longrightarrow> decimal n = [digitChar n]"
  by (subst decimal.simps) simp

lemma decimal_large: "\<not> n < 10 \<Longrightarrow> decimal n = decimal (n div 10) @ [digitChar (n mod 10)]"
  by (subst decimal.simps) simp

lemma decimal_inj: "decimal n = decimal m \<Longrightarrow> n = m"
proof (induction n arbitrary: m rule: decimal.induct)
  case (1 n)
  show ?case
  proof (cases "n < 10")
    case small: True
    show ?thesis
    proof (cases "m < 10")
      case True
      with small "1.prems" show ?thesis by (simp add: decimal_small digitChar_inj)
    next
      case False
      with small "1.prems" decimal_nonempty [of "m div 10"] show ?thesis
        by (simp add: decimal_small decimal_large)
    qed
  next
    case large: False
    show ?thesis
    proof (cases "m < 10")
      case True
      with large "1.prems" decimal_nonempty [of "n div 10"] show ?thesis
        by (simp add: decimal_small decimal_large)
    next
      case False
      with large "1.prems" have eq: "decimal (n div 10) = decimal (m div 10)"
        and c: "digitChar (n mod 10) = digitChar (m mod 10)"
        by (simp_all add: decimal_large)
      from "1.IH" [OF large eq] have q: "n div 10 = m div 10" .
      have r: "n mod 10 = m mod 10" using c by (intro digitChar_inj) simp_all
      from q r show ?thesis by (metis div_mult_mod_eq)
    qed
  qed
qed

lemma formatInt_inj: "0 \<le> i \<Longrightarrow> 0 \<le> j \<Longrightarrow> formatInt i = formatInt j \<Longrightarrow> i = j"
  using decimal_inj [of "nat i" "nat j"] by (simp add: formatInt_def)

lemma gcRefContent_inj: "0 \<le> i \<Longrightarrow> 0 \<le> j \<Longrightarrow> gcRefContent i = gcRefContent j \<Longrightarrow> i = j"
  using formatInt_inj [of i j] by (simp add: gcRefContent_def)

lemma gcRefContent_0: "gcRefContent 0 = ''containerd.io/gc.ref.content.0''"
  by (simp add: gcRefContent_def formatInt_def decimal_small digitChar_def)

lemma gcRefContent_neq: "0 \<le> i \<Longrightarrow> 0 \<le> j \<Longrightarrow> i \<noteq> j \<Longrightarrow> gcRefContent i \<noteq> gcRefContent j"
  using gcRefContent_inj by blast

lemma gcLabelLoop_other:
  "\<forall>j < length ls. k \<noteq> gcRefContent (i + 1 + int j) \<Longrightarrow> gcLabelLoop i ls labels k = labels k"
proof (induction ls arbitrary: i labels)
  case Nil
  show ?case by simp
next
  case (Cons l ls)
  have "\<forall>j < length ls. k \<noteq> gcRefContent (i + 1 + 1 + int j)"
  proof (intro allI impI)
    fix j assume "j < length ls"
    then have "Suc j < length (l # ls)" by simp
    with Cons.prems have "k \<noteq> gcRefContent (i + 1 + int (Suc j))" by blast
    moreover have "i + 1 + int (Suc j) = i + 1 + 1 + int j" by simp
    ultimately show "k \<noteq> gcRefContent (i + 1 + 1 + int j)" by metis
  qed
  from Cons.IH [OF this] have "gcLabelLoop (i + 1) ls (labels(gcRefContent (i + 1) \<mapsto> Digest l)) k
      = (labels(gcRefContent (i + 1) \<mapsto> Digest l)) k" .
  moreover have "k \<noteq> gcRefContent (i + 1)" using Cons.prems by force
  ultimately show ?case by simp
qed

lemma gcLabelLoop_nth:
  "0 \<le> i \<Longrightarrow> j < length ls \<Longrightarrow> gcLabelLoop i ls labels (gcRefContent (i + 1 + int j)) = Some (Digest (ls ! j))"
proof (induction ls arbitrary: i j labels)
  case Nil
  then show ?case by simp
next
  case (Cons l ls)
  show ?case
  proof (cases j)
    case 0
    have "\<forall>j' < length ls. gcRefContent (i + 1) \<noteq> gcRefContent (i + 1 + 1 + int j')"
      using Cons.prems(1) by (intro allI impI gcRefContent_neq) simp_all
    from gcLabelLoop_other [OF this, of "labels(gcRefContent (i + 1) \<mapsto> Digest l)"] 0
    show ?thesis by simp
  next
    case (Suc j')
    with Cons.prems have "0 \<le> i + 1" "j' < length ls" by simp_all
    from Cons.IH [OF this, of "labels(gcRefContent (i + 1) \<mapsto> Digest l)"]
    have "gcLabelLoop (i + 1) ls (labels(gcRefContent (i + 1) \<mapsto> Digest l)) (gcRefContent (i + 1 + 1 + int j'))
            = Some (Digest (ls ! j'))" .
    moreover have "i + 1 + int j = i + 1 + 1 + int j'" using Suc by simp
    ultimately show ?thesis using Suc by (metis gcLabelLoop.simps(2) nth_Cons_Suc)
  qed
qed

lemma gcLabelLoop_dom:
  "dom (gcLabelLoop i ls labels) = dom labels \<union> (\<lambda>j. gcRefContent (i + 1 + int j)) ` {..<length ls}"
proof (induction ls arbitrary: i labels)
  case Nil
  show ?case by simp
next
  case (Cons l ls)
  have "{..<length (l # ls)} = insert 0 (Suc ` {..<length ls})"
    by (simp add: lessThan_Suc_eq_insert_0)
  then have "(\<lambda>j. gcRefContent (i + 1 + int j)) ` {..<length (l # ls)}
      = insert (gcRefContent (i + 1)) ((\<lambda>j. gcRefContent (i + 1 + int (Suc j))) ` {..<length ls})"
    by (simp only: image_insert image_image) simp
  moreover have "(\<lambda>j. gcRefContent (i + 1 + int (Suc j))) = (\<lambda>j. gcRefContent (i + 1 + 1 + int j))"
    by (rule ext) (simp add: algebra_simps)
  ultimately have img: "(\<lambda>j. gcRefContent (i + 1 + int j)) ` {..<length (l # ls)}
      = insert (gcRefContent (i + 1)) ((\<lambda>j. gcRefContent (i + 1 + 1 + int j)) ` {..<length ls})"
    by (simp only:)
  have "dom (gcLabelLoop i (l # ls) labels)
      = dom (labels(gcRefContent (i + 1) \<mapsto> Digest l)) \<union> (\<lambda>j. gcRefContent (i + 1 + 1 + int j)) ` {..<length ls}"
    using Cons.IH [of "i + 1" "labels(gcRefContent (i + 1) \<mapsto> Digest l)"] by (simp only: gcLabelLoop.simps)
  also have "\<dots> = dom labels \<union> insert (gcRefContent (i + 1)) ((\<lambda>j. gcRefContent (i + 1 + 1 + int j)) ` {..<length ls})"
    by (simp only: dom_fun_upd) auto
  finally show ?case by (simp only: img)
qed

lemma manifestLabels_dom:
  "dom (manifestLabels configDesc layers) = (\<lambda>j. gcRefContent (int j)) ` {..length layers}"
proof -
  have "{..length layers} = insert 0 (Suc ` {..<length layers})"
    by (simp only: lessThan_Suc_atMost [symmetric] lessThan_Suc_eq_insert_0)
  then have "(\<lambda>j. gcRefContent (int j)) ` {..length layers}
      = insert (gcRefContent 0) ((\<lambda>j. gcRefContent (int (Suc j))) ` {..<length layers})"
    by (simp only: image_insert image_image) simp
  moreover have "(\<lambda>j. gcRefContent (int (Suc j))) = (\<lambda>j. gcRefContent (0 + 1 + int j))"
    by (rule ext) (simp add: algebra_simps)
  ultimately have "(\<lambda>j. gcRefContent (int j)) ` {..length layers}
      = insert (gcRefContent 0) ((\<lambda>j. gcRefContent (0 + 1 + int j)) ` {..<length layers})"
    by (simp only:)
  moreover have "dom (manifestLabels configDesc layers)
      = insert (gcRefContent 0) ((\<lambda>j. gcRefContent (0 + 1 + int j)) ` {..<length layers})"
    unfolding manifestLabels_def gcLabelLoop_dom gcRefContent_0 [symmetric] by simp
  ultimately show ?thesis by (simp only:)
qed

lemma manifestLabels_card:
  "card (dom (manifestLabels configDesc layers)) = length layers + 1"
proof -
  have "inj_on (\<lambda>j. gcRefContent (int j)) {..length layers}"
  proof (rule inj_onI)
    fix x y assume "gcRefContent (int x) = gcRefContent (int y)"
    then have "int x = int y" by (intro gcRefContent_inj) simp_all
    then show "x = y" by simp
  qed
  then show ?thesis by (simp add: manifestLabels_dom card_image)
qed

lemma manifestLabels_config:
  "manifestLabels configDesc layers ''containerd.io/gc.ref.content.0'' = Some (Digest configDesc)"
proof -
  have "\<forall>j < length layers. gcRefContent 0 \<noteq> gcRefContent (0 + 1 + int j)"
    by (intro allI impI gcRefContent_neq) simp_all
  from gcLabelLoop_other [OF this, of "[gcRefContent 0 \<mapsto> Digest configDesc]"] show ?thesis
    unfolding manifestLabels_def gcRefContent_0 [symmetric] by simp
qed

lemma manifestLabels_layer:
  "i < length layers \<Longrightarrow> manifestLabels configDesc layers (gcRefContent (int i + 1)) = Some (Digest (layers ! i))"
proof -
  assume "i < length layers"
  from gcLabelLoop_nth [OF _ this, of 0] have
    "gcLabelLoop 0 layers labels (gcRefContent (0 + 1 + int i)) = Some (Digest (layers ! i))" for labels
    by simp
  moreover have "0 + 1 + int i = int i + 1" by simp
  ultimately show ?thesis unfolding manifestLabels_def by metis
qed


lemma manifestLabels_prefixed:
  "{k \<in> dom (manifestLabels configDesc layers). prefix ''containerd.io/gc.ref.content.'' k}
     = dom (manifestLabels configDesc layers)"
  by (auto simp add: manifestLabels_dom gcRefContent_def)

text \<open>
  C4. Whenever the two serialisations succeed, the manifest that is serialised has as layers
  the retained base-layer descriptors in their order followed by the new diff descriptor
  as the last element, and the first blob written is that manifest, with a label map that
  has exactly \<open>N + 1\<close> keys \<open>containerd.io/gc.ref.content.*\<close> for the \<open>N\<close> layers of the
  manifest: the key with index 0 holds the config digest and the key with index \<open>i + 1\<close>
  holds the digest of layer \<open>i\<close>.
\<close>

theorem writeContentsForImage_manifest_labels:
  fixes env :: "'c env"
  assumes "json_Marshal env newConfig = Inr newConfigJSON"
    and "configDesc = \<lparr>MediaType = MediaTypeDockerSchema2Config,
                        Digest = digest_FromBytes env newConfigJSON,
                        Descriptor.Size = int (length newConfigJSON)\<rparr>"
    and "json_MarshalIndent env (newManifest configDesc baseImageLayers diffLayerDesc) = Inr newMfstJSON"
    and "newMfstDesc = \<lparr>MediaType = MediaTypeDockerSchema2Manifest,
                         Digest = digest_FromBytes env newMfstJSON,
                         Descriptor.Size = int (length newMfstJSON)\<rparr>"
  shows "\<exists>mfst labels rest.
           newManifest configDesc baseImageLayers diffLayerDesc = (MediaTypeDockerSchema2Manifest, mfst)
         \<and> Layers mfst = baseImageLayers @ [diffLayerDesc]
         \<and> snd (writeContentsForImage env snName newConfig baseImageLayers diffLayerDesc tr)
             = tr @ EvWriteBlob (Digest newMfstDesc) newMfstJSON newMfstDesc labels # rest
         \<and> card {k \<in> dom labels. prefix ''containerd.io/gc.ref.content.'' k} = length (Layers mfst) + 1
         \<and> labels ''containerd.io/gc.ref.content.0'' = Some (Digest configDesc)
         \<and> (\<forall>i < length (Layers mfst).
               labels (''containerd.io/gc.ref.content.'' @ formatInt (int i + 1)) = Some (Digest (Layers mfst ! i)))"
proof -
  let ?layers = "baseImageLayers @ [diffLayerDesc]"
  let ?mfst = "\<lparr>SchemaVersion = 2, Config = configDesc, Layers = ?layers\<rparr>"
  let ?labels = "manifestLabels configDesc ?layers"
  have m: "newManifest configDesc baseImageLayers diffLayerDesc = (MediaTypeDockerSchema2Manifest, ?mfst)"
    by (simp add: newManifest_def)
  have "\<exists>rest. snd (writeContentsForImage env snName newConfig baseImageLayers diffLayerDesc tr)
             = tr @ EvWriteBlob (Digest newMfstDesc) newMfstJSON newMfstDesc ?labels # rest"
    using assms(1,3) unfolding assms(2,4) writeContentsForImage_def
    by (simp add: Let_def newManifest_def split: option.split)
  then obtain rest where w: "snd (writeContentsForImage env snName newConfig baseImageLayers diffLayerDesc tr)
             = tr @ EvWriteBlob (Digest newMfstDesc) newMfstJSON newMfstDesc ?labels # rest" ..
  have c: "card {k \<in> dom ?labels. prefix ''containerd.io/gc.ref.content.'' k} = length (Layers ?mfst) + 1"
    by (simp only: manifestLabels_prefixed manifestLabels_card) simp
  have z: "?labels ''containerd.io/gc.ref.content.0'' = Some (Digest configDesc)"
    by (rule manifestLabels_config)
  have l: "\<forall>i < length (Layers ?mfst).
             ?labels (''containerd.io/gc.ref.content.'' @ formatInt (int i + 1)) = Some (Digest (Layers ?mfst ! i))"
    using manifestLabels_layer [of _ ?layers configDesc] by (simp add: gcRefContent_def)
  have l0: "Layers ?mfst = ?layers" by simp
  from m l0 w c z l show ?thesis by blast
qed


text \<open>Witness of C4: one retained layer and the new diff layer, hence three labels.\<close>

theorem writeContentsForImage_manifest_labels_witness:
  "\<exists>labels rest.
      snd (writeContentsForImage exEnv ''overlayfs'' (exConfig [] []) [exLayer ''sha256:a''] (exLayer ''sha256:new'') [])
        = EvWriteBlob ''sha256:manifest-json'' ''manifest-json''
            \<lparr>MediaType = MediaTypeDockerSchema2Manifest, Digest = ''sha256:manifest-json'', Descriptor.Size = 13\<rparr>
            labels # rest
    \<and> card {k \<in> dom labels. prefix ''containerd.io/gc.ref.content.'' k} = 3
    \<and> labels ''containerd.io/gc.ref.content.0'' = Some ''sha256:config-json''
    \<and> labels ''containerd.io/gc.ref.content.1'' = Some ''sha256:a''
    \<and> labels ''containerd.io/gc.ref.content.2'' = Some ''sha256:new''"
proof -
  let ?cd = "\<lparr>MediaType = MediaTypeDockerSchema2Config, Digest = ''sha256:config-json'', Descriptor.Size = 11\<rparr>"
  let ?md = "\<lparr>MediaType = MediaTypeDockerSchema2Manifest, Digest = ''sha256:manifest-json'', Descriptor.Size = 13\<rparr>"
  have h1: "json_Marshal exEnv (exConfig [] []) = Inr ''config-json''"
    by (simp add: exEnv_def)
  have h2: "?cd = \<lparr>MediaType = MediaTypeDockerSchema2Config,
                    Digest = digest_FromBytes exEnv ''config-json'',
                    Descriptor.Size = int (length ''config-json'')\<rparr>"
    by (simp add: exEnv_def)
  have h3: "json_MarshalIndent exEnv (newManifest ?cd [exLayer ''sha256:a''] (exLayer ''sha256:new'')) = Inr ''manifest-json''"
    by (simp add: exEnv_def)
  have h4: "?md = \<lparr>MediaType = MediaTypeDockerSchema2Manifest,
                    Digest = digest_FromBytes exEnv ''manifest-json'',
                    Descriptor.Size = int (length ''manifest-json'')\<rparr>"
    by (simp add: exEnv_def)
  let ?P = "\<lambda>mfst labels rest.
      newManifest ?cd [exLayer ''sha256:a''] (exLayer ''sha256:new'') = (MediaTypeDockerSchema2Manifest, mfst)
    \<and> Layers mfst = [exLayer ''sha256:a''] @ [exLayer ''sha256:new'']
    \<and> snd (writeContentsForImage exEnv ''overlayfs'' (exConfig [] []) [exLayer ''sha256:a''] (exLayer ''sha256:new'') [])
         = [] @ EvWriteBlob (Digest ?md) ''manifest-json'' ?md labels # rest
    \<and> card {k \<in> dom labels. prefix ''containerd.io/gc.ref.content.'' k} = length (Layers mfst) + 1
    \<and> labels ''containerd.io/gc.ref.content.0'' = Some (Digest ?cd)
    \<and> (\<forall>i < length (Layers mfst).
          labels (''containerd.io/gc.ref.content.'' @ formatInt (int i + 1)) = Some (Digest (Layers mfst ! i)))"
  from writeContentsForImage_manifest_labels [OF h1 h2 h3 h4, of "''overlayfs''" "[]"]
  obtain mfst where "\<exists>labels rest. ?P mfst labels rest" ..
  then obtain labels where "\<exists>rest. ?P mfst labels rest" ..
  then obtain rest where p: "?P mfst labels rest" ..
  note q1 = p [THEN conjunct2] note q2 = q1 [THEN conjunct2] note q3 = q2 [THEN conjunct2]
  note q4 = q3 [THEN conjunct2]
  note r = q1 [THEN conjunct1] q2 [THEN conjunct1] q3 [THEN conjunct1] q4 [THEN conjunct1]
    q4 [THEN conjunct2]
  have f1: "formatInt 1 = ''1''" and f2: "formatInt 2 = ''2''"
    by (simp_all add: formatInt_def decimal_small digitChar_def)
  have len: "0 < length (Layers mfst)" "1 < length (Layers mfst)"
    using r(1) by simp_all
  have l1: "labels ''containerd.io/gc.ref.content.1'' = Some ''sha256:a''"
    using r(5) [rule_format, OF len(1)] r(1) by (simp add: f1 exLayer_def)
  have l2: "labels ''containerd.io/gc.ref.content.2'' = Some ''sha256:new''"
    using r(5) [rule_format, OF len(2)] r(1) by (simp add: f2 exLayer_def)
  have c: "card {k \<in> dom labels. prefix ''containerd.io/gc.ref.content.'' k} = 3"
    using r(1,3) by simp
  have z: "labels ''containerd.io/gc.ref.content.0'' = Some ''sha256:config-json''"
    using r(4) by simp
  have w: "snd (writeContentsForImage exEnv ''overlayfs'' (exConfig [] []) [exLayer ''sha256:a''] (exLayer ''sha256:new'') [])
       = EvWriteBlob ''sha256:manifest-json'' ''manifest-json'' ?md labels # rest"
    using r(2) by simp
  from w c z l1 l2 show ?thesis by blast
qed

section \<open>Properties of createSquashImage\<close>

text \<open>
  C7. The upsert first calls Update on the image store. It calls Create exactly when Update
  failed with NotFound. It succeeds exactly when Update succeeds, or Update fails with
  NotFound and Create succeeds. An Update failure other than NotFound is returned as an
  error (wrapped with the text "failed to update ..."), and so is a Create failure
  (wrapped with "failed to create ...").
\<close>

theorem createSquashImage_upsert:
  fixes env :: "'c env"
  assumes "imageStore_Update env tr img = (newImg, uerr)"
    and "imageStore_Create env (tr @ [EvImageUpdate img]) img = (created, cerr)"
  shows "snd (createSquashImage env img tr) =
           tr @ EvImageUpdate img # (if \<exists>e. uerr = Some e \<and> IsNotFound e then [EvImageCreate img] else [])
       \<and> (snd (fst (createSquashImage env img tr)) = None \<longleftrightarrow>
            uerr = None \<or> ((\<exists>e. uerr = Some e \<and> IsNotFound e) \<and> cerr = None))
       \<and> (\<forall>e. uerr = Some e \<and> \<not> IsNotFound e \<longrightarrow>
            snd (fst (createSquashImage env img tr)) =
              Some (Wrapped (''failed to update new squashImage '' @ Name img @ '': '') e))
       \<and> (\<forall>e e'. uerr = Some e \<and> IsNotFound e \<and> cerr = Some e' \<longrightarrow>
            snd (fst (createSquashImage env img tr)) =
              Some (Wrapped (''failed to create new squashImage '' @ Name img @ '': '') e'))"
proof (cases uerr)
  case None
  with assms show ?thesis by (simp add: createSquashImage_def)
next
  case (Some e)
  show ?thesis
  proof (cases "IsNotFound e")
    case False
    with Some assms show ?thesis by (simp add: createSquashImage_def)
  next
    case True
    with Some assms show ?thesis by (cases cerr) (simp_all add: createSquashImage_def)
  qed
qed

text \<open>
  Witness of C7: Update succeeds; Update fails with NotFound and Create succeeds; Update
  fails with another error; Update fails with NotFound and Create fails.
\<close>

theorem createSquashImage_upsert_witness:
  "snd (createSquashImage (exEnvStore None None) exRecord []) = [EvImageUpdate exRecord]
   \<and> snd (fst (createSquashImage (exEnvStore None None) exRecord [])) = None
   \<and> snd (createSquashImage (exEnvStore (Some ErrNotFound) None) exRecord [])
       = [EvImageUpdate exRecord, EvImageCreate exRecord]
   \<and> snd (fst (createSquashImage (exEnvStore (Some ErrNotFound) None) exRecord [])) = None
   \<and> snd (createSquashImage (exEnvStore (Some (ErrOther ''io'')) None) exRecord []) = [EvImageUpdate exRecord]
   \<and> snd (fst (createSquashImage (exEnvStore (Some (ErrOther ''io'')) None) exRecord []))
       = Some (Wrapped ''failed to update new squashImage src:latest: '' (ErrOther ''io''))
   \<and> snd (createSquashImage (exEnvStore (Some ErrNotFound) (Some (ErrOther ''io''))) exRecord [])
       = [EvImageUpdate exRecord, EvImageCreate exRecord]
   \<and> snd (fst (createSquashImage (exEnvStore (Some ErrNotFound) (Some (ErrOther ''io''))) exRecord []))
       = Some (Wrapped ''failed to create new squashImage src:latest: '' (ErrOther ''io''))"
proof -
  have u: "imageStore_Update (exEnvStore a b) [] exRecord = (exRecord, a)"
    and c: "imageStore_Create (exEnvStore a b) ([] @ [EvImageUpdate exRecord]) exRecord = (exRecord, b)" for a b
    by (simp_all add: exEnvStore_def exEnv_def)
  have n: "Name exRecord = ''src:latest''" by (simp add: exRecord_def)
  note t = createSquashImage_upsert [OF u c]
  have 1: "snd (createSquashImage (exEnvStore None None) exRecord []) = [EvImageUpdate exRecord]
      \<and> snd (fst (createSquashImage (exEnvStore None None) exRecord [])) = None"
    using t [of None None] by simp
  have 2: "snd (createSquashImage (exEnvStore (Some ErrNotFound) None) exRecord [])
         = [EvImageUpdate exRecord, EvImageCreate exRecord]
      \<and> snd (fst (createSquashImage (exEnvStore (Some ErrNotFound) None) exRecord [])) = None"
    using t [of "Some ErrNotFound" None] by simp
  have 3: "snd (createSquashImage (exEnvStore (Some (ErrOther ''io'')) None) exRecord []) = [EvImageUpdate exRecord]
      \<and> snd (fst (createSquashImage (exEnvStore (Some (ErrOther ''io'')) None) exRecord []))
         = Some (Wrapped ''failed to update new squashImage src:latest: '' (ErrOther ''io''))"
    using t [of "Some (ErrOther ''io'')" None] by (simp add: n)
  have 4: "snd (createSquashImage (exEnvStore (Some ErrNotFound) (Some (ErrOther ''io''))) exRecord [])
         = [EvImageUpdate exRecord, EvImageCreate exRecord]
      \<and> snd (fst (createSquashImage (exEnvStore (Some ErrNotFound) (Some (ErrOther ''io''))) exRecord []))
         = Some (Wrapped ''failed to create new squashImage src:latest: '' (ErrOther ''io''))"
    using t [of "Some ErrNotFound" "Some (ErrOther ''io'')"] by (simp add: n)
  from 1 2 3 4 show ?thesis by (intro conjI) (simp_all only:)
qed

section \<open>Properties of applyDiffLayer\<close>

text \<open>
  C6. Suppose Prepare, the application of the layers and the creation of the diff have
  succeeded. When the commit of the snapshot fails with AlreadyExists, applyDiffLayer
  returns success with the same diff descriptor, diffID and chain-id snapshot name (and the
  same events) as when the commit succeeds. Any other commit error is returned as the
  failure, after the removal of the scratch snapshot has been attempted.
\<close>

theorem applyDiffLayer_commit:
  fixes env :: "'c env"
  assumes "key = uniquePart env tr"
    and "parent = identity_ChainID env (DiffIDs (RootFS baseImg))"
    and "sn_Prepare env (tr @ [EvUniquePart]) key parent = Inr m"
    and "applyLayersToSnapshot env m layers (tr @ [EvUniquePart, EvPrepare key parent]) = (None, tr2)"
    and "createDiff env key tr2 = (Inr (diffLayerDesc, diffID), tr3)"
    and "snapshotID = identity_ChainID env (DiffIDs (RootFS baseImg) @ [diffID])"
  shows "(sn_Commit env tr3 snapshotID key = None \<longrightarrow>
            applyDiffLayer env baseImg layers tr =
              (Inr (diffLayerDesc, diffID, snapshotID), tr3 @ [EvCommit snapshotID key]))
       \<and> (\<forall>e. sn_Commit env tr3 snapshotID key = Some e \<and> IsAlreadyExists e \<longrightarrow>
            applyDiffLayer env baseImg layers tr =
              (Inr (diffLayerDesc, diffID, snapshotID), tr3 @ [EvCommit snapshotID key]))
       \<and> (\<forall>e. sn_Commit env tr3 snapshotID key = Some e \<and> \<not> IsAlreadyExists e \<longrightarrow>
            applyDiffLayer env baseImg layers tr =
              (Inl e, tr3 @ [EvCommit snapshotID key, EvRemove key]))"
  using assms(3,4,5) unfolding assms(1,2,6)
  by (simp add: applyDiffLayer_def deferredRemove_def Let_def)


text \<open>
  Witness of C6: the commit succeeds, fails with a wrapped AlreadyExists, and fails with
  another error.
\<close>

theorem applyDiffLayer_commit_witness:
  "fst (applyDiffLayer (exEnvCommit None) (exConfig [''sha256:d1''] []) [exLayer ''sha256:b'', exLayer ''sha256:c''] [])
     = Inr (\<lparr>MediaType = MediaTypeDockerSchema2LayerGzip, Digest = ''sha256:new'', Descriptor.Size = 7\<rparr>,
            ''sha256:newdiff'', ''chain:sha256:d1sha256:newdiff'')
   \<and> fst (applyDiffLayer (exEnvCommit (Some (Wrapped ''commit: '' ErrAlreadyExists))) (exConfig [''sha256:d1''] [])
            [exLayer ''sha256:b'', exLayer ''sha256:c''] [])
     = Inr (\<lparr>MediaType = MediaTypeDockerSchema2LayerGzip, Digest = ''sha256:new'', Descriptor.Size = 7\<rparr>,
            ''sha256:newdiff'', ''chain:sha256:d1sha256:newdiff'')
   \<and> applyDiffLayer (exEnvCommit (Some (ErrOther ''io''))) (exConfig [''sha256:d1''] [])
            [exLayer ''sha256:b'', exLayer ''sha256:c''] []
     = (Inl (ErrOther ''io''),
        [EvUniquePart, EvPrepare ''key'' ''chain:sha256:d1'',
         EvApply (exLayer ''sha256:b'') [Mount ''overlay'' ''overlay'' []],
         EvApply (exLayer ''sha256:c'') [Mount ''overlay'' ''overlay'' []],
         EvCreateDiff ''key'', EvInfo ''sha256:new'',
         EvCommit ''chain:sha256:d1sha256:newdiff'' ''key'', EvRemove ''key''])"
proof -
  let ?base = "exConfig [''sha256:d1''] []"
  let ?layers = "[exLayer ''sha256:b'', exLayer ''sha256:c'']"
  let ?m = "[Mount ''overlay'' ''overlay'' []]"
  let ?tr2 = "[EvUniquePart, EvPrepare ''key'' ''chain:sha256:d1'', EvApply (exLayer ''sha256:b'') ?m,
               EvApply (exLayer ''sha256:c'') ?m]"
  let ?tr3 = "?tr2 @ [EvCreateDiff ''key'', EvInfo ''sha256:new'']"
  let ?desc = "\<lparr>MediaType = MediaTypeDockerSchema2LayerGzip, Digest = ''sha256:new'', Descriptor.Size = 7\<rparr>"
  have h1: "''key'' = uniquePart (exEnvCommit c) []"
    and h2: "''chain:sha256:d1'' = identity_ChainID (exEnvCommit c) (DiffIDs (RootFS ?base))"
    and h3: "sn_Prepare (exEnvCommit c) ([] @ [EvUniquePart]) ''key'' ''chain:sha256:d1'' = Inr ?m"
    and h4: "applyLayersToSnapshot (exEnvCommit c) ?m ?layers ([] @ [EvUniquePart, EvPrepare ''key'' ''chain:sha256:d1''])
               = (None, ?tr2)"
    and h5: "createDiff (exEnvCommit c) ''key'' ?tr2 = (Inr (?desc, ''sha256:newdiff''), ?tr3)"
    and h6: "''chain:sha256:d1sha256:newdiff'' = identity_ChainID (exEnvCommit c) (DiffIDs (RootFS ?base) @ [''sha256:newdiff''])"
    and cm: "sn_Commit (exEnvCommit c) ?tr3 ''chain:sha256:d1sha256:newdiff'' ''key'' = c" for c
    by (simp_all add: exEnvCommit_def exEnv_def exConfig_def createDiff_def exLayer_def)
  note t = applyDiffLayer_commit [OF h1 h2 h3 h4 h5 h6]
  have 1: "fst (applyDiffLayer (exEnvCommit None) ?base ?layers []) = Inr (?desc, ''sha256:newdiff'', ''chain:sha256:d1sha256:newdiff'')"
    using t [of None] cm [of None] by simp
  have 2: "fst (applyDiffLayer (exEnvCommit (Some (Wrapped ''commit: '' ErrAlreadyExists))) ?base ?layers [])
             = Inr (?desc, ''sha256:newdiff'', ''chain:sha256:d1sha256:newdiff'')"
    using t [of "Some (Wrapped ''commit: '' ErrAlreadyExists)"] cm [of "Some (Wrapped ''commit: '' ErrAlreadyExists)"] by simp
  have 3: "applyDiffLayer (exEnvCommit (Some (ErrOther ''io''))) ?base ?layers []
             = (Inl (ErrOther ''io''), ?tr3 @ [EvCommit ''chain:sha256:d1sha256:newdiff'' ''key'', EvRemove ''key''])"
    using t [of "Some (ErrOther ''io'')"] cm [of "Some (ErrOther ''io'')"] by simp
  from 1 2 3 show ?thesis by simp
qed

section \<open>Properties of Squash\<close>

lemma noStoreWrite_append [simp]: "noStoreWrite (xs @ ys) \<longleftrightarrow> noStoreWrite xs \<and> noStoreWrite ys"
  by (simp add: noStoreWrite_def)

lemma noImageWrite_append [simp]: "noImageWrite (xs @ ys) \<longleftrightarrow> noImageWrite xs \<and> noImageWrite ys"
  by (simp add: noImageWrite_def)

lemma noStoreWrite_noImageWrite: "noStoreWrite tr \<Longrightarrow> noImageWrite tr"
  by (induction tr) (simp_all add: noStoreWrite_def noImageWrite_def)

lemma initImage_trace:
  "initImage env opt tr = (r, tr') \<Longrightarrow> \<exists>evs. tr' = tr @ evs \<and> noStoreWrite evs"
  by (auto simp add: initImage_def Let_def noStoreWrite_def split: sum.splits)

lemma generateBaseImageConfig_trace:
  "generateBaseImageConfig env img n tr = (r, tr') \<Longrightarrow> \<exists>evs. tr' = tr @ evs \<and> noStoreWrite evs"
  by (auto simp add: generateBaseImageConfig_def Let_def noStoreWrite_def split: sum.splits)

lemma applyLayersToSnapshot_trace:
  "applyLayersToSnapshot env m layers tr = (r, tr') \<Longrightarrow> \<exists>evs. tr' = tr @ evs \<and> noStoreWrite evs"
proof (induction layers arbitrary: tr)
  case Nil
  then show ?case by (simp add: noStoreWrite_def)
next
  case (Cons layer rest)
  show ?case
  proof (cases "differ_Apply env tr layer m")
    case None
    with Cons.prems have "applyLayersToSnapshot env m rest (tr @ [EvApply layer m]) = (r, tr')" by simp
    from Cons.IH [OF this] obtain evs where "tr' = (tr @ [EvApply layer m]) @ evs" "noStoreWrite evs" by blast
    then have "tr' = tr @ (EvApply layer m # evs) \<and> noStoreWrite (EvApply layer m # evs)"
      by (simp add: noStoreWrite_def)
    then show ?thesis by blast
  next
    case (Some e)
    with Cons.prems have "tr' = tr @ [EvApply layer m] \<and> noStoreWrite [EvApply layer m]"
      by (auto simp add: noStoreWrite_def)
    then show ?thesis by blast
  qed
qed

lemma createDiff_trace:
  "createDiff env key tr = (r, tr') \<Longrightarrow> \<exists>evs. tr' = tr @ evs \<and> noStoreWrite evs"
  by (auto simp add: createDiff_def Let_def noStoreWrite_def split: sum.splits option.splits)

lemma applyDiffLayer_trace:
  assumes "applyDiffLayer env baseImg layers tr = (r, tr')"
  shows "\<exists>evs. tr' = tr @ evs \<and> noStoreWrite evs"
proof -
  let ?key = "uniquePart env tr"
  let ?parent = "identity_ChainID env (DiffIDs (RootFS baseImg))"
  let ?tr1 = "tr @ [EvUniquePart, EvPrepare ?key ?parent]"
  show ?thesis
  proof (cases "sn_Prepare env (tr @ [EvUniquePart]) ?key ?parent")
    case (Inl e)
    with assms have "tr' = tr @ [EvUniquePart, EvPrepare ?key ?parent]"
      by (simp add: applyDiffLayer_def Let_def)
    then show ?thesis by (simp add: noStoreWrite_def)
  next
    case (Inr m)
    obtain a tr2 where al: "applyLayersToSnapshot env m layers ?tr1 = (a, tr2)" by (cases "applyLayersToSnapshot env m layers ?tr1")
    from applyLayersToSnapshot_trace [OF al] obtain evs2 where e2: "tr2 = ?tr1 @ evs2" "noStoreWrite evs2" by blast
    show ?thesis
    proof (cases a)
      case (Some e)
      with assms Inr al have "tr' = tr2 @ [EvRemove ?key]"
        by (simp add: applyDiffLayer_def Let_def deferredRemove_def)
      with e2 have "tr' = tr @ ([EvUniquePart, EvPrepare ?key ?parent] @ evs2 @ [EvRemove ?key])
          \<and> noStoreWrite ([EvUniquePart, EvPrepare ?key ?parent] @ evs2 @ [EvRemove ?key])"
        by (simp add: noStoreWrite_def)
      then show ?thesis by blast
    next
      case None
      obtain d tr3 where cd: "createDiff env ?key tr2 = (d, tr3)" by (cases "createDiff env ?key tr2")
      from createDiff_trace [OF cd] obtain evs3 where e3: "tr3 = tr2 @ evs3" "noStoreWrite evs3" by blast
      have "\<exists>evs4. tr' = tr3 @ evs4 \<and> noStoreWrite evs4"
      proof (cases d)
        case (Inl e)
        with assms Inr al None cd have "tr' = tr3 @ [EvRemove ?key]"
          by (simp add: applyDiffLayer_def Let_def deferredRemove_def)
        then show ?thesis by (simp add: noStoreWrite_def)
      next
        case (Inr p)
        obtain desc diffID where p: "p = (desc, diffID)" by (cases p)
        let ?sid = "identity_ChainID env (DiffIDs (RootFS baseImg) @ [diffID])"
        from assms \<open>sn_Prepare env (tr @ [EvUniquePart]) ?key ?parent = Inr m\<close> al None cd Inr p
        have "tr' = tr3 @ [EvCommit ?sid ?key] \<or> tr' = tr3 @ [EvCommit ?sid ?key, EvRemove ?key]"
          by (auto simp add: applyDiffLayer_def Let_def deferredRemove_def split: option.splits if_splits)
        then show ?thesis by (auto simp add: noStoreWrite_def)
      qed
      then obtain evs4 where "tr' = tr3 @ evs4" "noStoreWrite evs4" by blast
      with e2 e3 have "tr' = tr @ ([EvUniquePart, EvPrepare ?key ?parent] @ evs2 @ evs3 @ evs4)
          \<and> noStoreWrite ([EvUniquePart, EvPrepare ?key ?parent] @ evs2 @ evs3 @ evs4)"
        by (simp add: noStoreWrite_def)
      then show ?thesis by blast
    qed
  qed
qed

lemma generateCommitImageConfig_trace:
  "generateCommitImageConfig env opt baseConfig diffID tr = (r, tr') \<Longrightarrow> tr' = tr @ [EvNow]"
  by (auto simp add: generateCommitImageConfig_def Let_def)

lemma writeContentsForImage_trace:
  "writeContentsForImage env snName newConfig baseImageLayers diffLayerDesc tr = (r, tr')
     \<Longrightarrow> \<exists>evs. tr' = tr @ evs \<and> noImageWrite evs"
  by (auto simp add: writeContentsForImage_def Let_def noImageWrite_def split: sum.splits option.splits)

lemma generateSquashLayer_length:
  fixes img :: "'c squashImage"
  assumes "generateSquashLayer opt img = Inr sLayers"
  shows "length sLayers \<le> length (Layers (Manifest img))"
proof (cases "SquashLayerDigest opt = ''''")
  case True
  with assms show ?thesis by (auto simp add: generateSquashLayer_def split: if_splits)
next
  case False
  with assms have "sLayers = dropWhile (\<lambda>l. Digest l \<noteq> SquashLayerDigest opt) (Layers (Manifest img))"
    by (auto simp add: generateSquashLayer_def squashLayerScan_not_found split: if_splits)
  then show ?thesis by (simp add: length_dropWhile_le)
qed

lemma applyLayersToSnapshot_all_applied:
  "(\<forall>i < length ls. differ_Apply env (tr @ map (\<lambda>l. EvApply l m) (take i ls)) (ls ! i) m = None)
     \<Longrightarrow> applyLayersToSnapshot env m ls tr = (None, tr @ map (\<lambda>l. EvApply l m) ls)"
proof (induction ls arbitrary: tr)
  case Nil
  show ?case by simp
next
  case (Cons a ls)
  from Cons.prems [rule_format, of 0] have first: "differ_Apply env tr a m = None" by simp
  have "\<forall>i < length ls. differ_Apply env ((tr @ [EvApply a m]) @ map (\<lambda>l. EvApply l m) (take i ls)) (ls ! i) m = None"
  proof (intro allI impI)
    fix i assume "i < length ls"
    then have "Suc i < length (a # ls)" by simp
    from Cons.prems [rule_format, OF this]
    show "differ_Apply env ((tr @ [EvApply a m]) @ map (\<lambda>l. EvApply l m) (take i ls)) (ls ! i) m = None"
      by simp
  qed
  from Cons.IH [OF this] first show ?case by simp
qed

lemma applyLayersToSnapshot_first_failure:
  "(\<forall>i < length pre. differ_Apply env (tr @ map (\<lambda>l. EvApply l m) (take i pre)) (pre ! i) m = None)
     \<Longrightarrow> differ_Apply env (tr @ map (\<lambda>l. EvApply l m) pre) l m = Some e
     \<Longrightarrow> applyLayersToSnapshot env m (pre @ l # rest) tr
           = (Some e, tr @ map (\<lambda>l. EvApply l m) pre @ [EvApply l m])"
proof (induction pre arbitrary: tr)
  case Nil
  then show ?case by simp
next
  case (Cons a pre)
  from Cons.prems(1) [rule_format, of 0] have first: "differ_Apply env tr a m = None" by simp
  have rest_ok: "\<forall>i < length pre. differ_Apply env ((tr @ [EvApply a m]) @ map (\<lambda>l. EvApply l m) (take i pre)) (pre ! i) m = None"
  proof (intro allI impI)
    fix i assume "i < length pre"
    then have "Suc i < length (a # pre)" by simp
    from Cons.prems(1) [rule_format, OF this]
    show "differ_Apply env ((tr @ [EvApply a m]) @ map (\<lambda>l. EvApply l m) (take i pre)) (pre ! i) m = None"
      by simp
  qed
  have fail: "differ_Apply env ((tr @ [EvApply a m]) @ map (\<lambda>l. EvApply l m) pre) l m = Some e"
    using Cons.prems(2) by simp
  from Cons.IH [OF rest_ok fail] first show ?case by simp
qed

lemma noStoreWrite_applied [simp]: "noStoreWrite (map (\<lambda>l. EvApply l m) ls)"
  by (induction ls) (simp_all add: noStoreWrite_def)

lemma noStoreWrite_Cons:
  "noStoreWrite (ev # tr) \<longleftrightarrow> \<not> isImageWrite ev \<and> \<not> isBlobWrite ev \<and> noStoreWrite tr"
  by (simp add: noStoreWrite_def)

lemma noStoreWrite_Nil [simp]: "noStoreWrite []"
  by (simp add: noStoreWrite_def)

lemma noImageWrite_Cons:
  "noImageWrite (ev # tr) \<longleftrightarrow> \<not> isImageWrite ev \<and> noImageWrite tr"
  by (simp add: noImageWrite_def)

lemma noImageWrite_Nil [simp]: "noImageWrite []"
  by (simp add: noImageWrite_def)

subsection \<open>What each function returns when one of its calls fails\<close>

lemma initImage_ok:
  "imageStore_Get env tr (SourceImageRef opt) = Inr r
   \<Longrightarrow> imgutil_ReadManifest env (tr @ [EvImageGet (SourceImageRef opt)]) r = Inr manifest
   \<Longrightarrow> imgutil_ReadImageConfig env (tr @ [EvImageGet (SourceImageRef opt), EvReadManifest r]) r = Inr config
   \<Longrightarrow> initImage env opt tr =
         (Inr \<lparr>ClientImage = r, Config = config, Image = r, Manifest = manifest\<rparr>,
          tr @ [EvImageGet (SourceImageRef opt), EvReadManifest r, EvReadImageConfig r])"
  by (simp add: initImage_def)

lemma initImage_Get_fails:
  "imageStore_Get env tr (SourceImageRef opt) = Inl e
   \<Longrightarrow> initImage env opt tr = (Inl e, tr @ [EvImageGet (SourceImageRef opt)])"
  by (simp add: initImage_def)

lemma initImage_ReadManifest_fails:
  "imageStore_Get env tr (SourceImageRef opt) = Inr r
   \<Longrightarrow> imgutil_ReadManifest env (tr @ [EvImageGet (SourceImageRef opt)]) r = Inl e
   \<Longrightarrow> initImage env opt tr = (Inl e, tr @ [EvImageGet (SourceImageRef opt), EvReadManifest r])"
  by (simp add: initImage_def)

lemma initImage_ReadImageConfig_fails:
  "imageStore_Get env tr (SourceImageRef opt) = Inr r
   \<Longrightarrow> imgutil_ReadManifest env (tr @ [EvImageGet (SourceImageRef opt)]) r = Inr manifest
   \<Longrightarrow> imgutil_ReadImageConfig env (tr @ [EvImageGet (SourceImageRef opt), EvReadManifest r]) r = Inl e
   \<Longrightarrow> initImage env opt tr =
         (Inl e, tr @ [EvImageGet (SourceImageRef opt), EvReadManifest r, EvReadImageConfig r])"
  by (simp add: initImage_def)

lemma generateBaseImageConfig_read_fails:
  "imgutil_ReadImageConfig env tr (ClientImage img) = Inl e
   \<Longrightarrow> generateBaseImageConfig env img n tr = (Inl e, tr @ [EvReadImageConfig (ClientImage img)])"
  by (simp add: generateBaseImageConfig_def)

lemma generateBaseImageConfig_slice_panics:
  "imgutil_ReadImageConfig env tr (ClientImage img) = Inr orig
   \<Longrightarrow> int (length (DiffIDs (RootFS orig)) + length (imgutil_DiffIDsSpare env tr (ClientImage img))) < n
   \<Longrightarrow> generateBaseImageConfig env img n tr =
         (Inl PanicSliceBounds, tr @ [EvReadImageConfig (ClientImage img), EvNow])"
  by (simp add: generateBaseImageConfig_def sliceTo_def)

lemma createDiff_ok:
  "rootfs_CreateDiff env tr key = Inr newDesc
   \<Longrightarrow> contentStore_Info env (tr @ [EvCreateDiff key]) (Digest newDesc) = Inr info
   \<Longrightarrow> Labels info ''containerd.io/uncompressed'' = Some diffIDStr
   \<Longrightarrow> digest_Parse env diffIDStr = Inr diffID
   \<Longrightarrow> createDiff env key tr =
         (Inr (\<lparr>MediaType = MediaTypeDockerSchema2LayerGzip, Digest = Digest newDesc,
                Descriptor.Size = ContentInfo.Size info\<rparr>, diffID),
          tr @ [EvCreateDiff key, EvInfo (Digest newDesc)])"
  by (simp add: createDiff_def)

lemma createDiff_CreateDiff_fails:
  "rootfs_CreateDiff env tr key = Inl e
   \<Longrightarrow> createDiff env key tr = (Inl e, tr @ [EvCreateDiff key])"
  by (simp add: createDiff_def)

lemma createDiff_Info_fails:
  "rootfs_CreateDiff env tr key = Inr newDesc
   \<Longrightarrow> contentStore_Info env (tr @ [EvCreateDiff key]) (Digest newDesc) = Inl e
   \<Longrightarrow> createDiff env key tr = (Inl e, tr @ [EvCreateDiff key, EvInfo (Digest newDesc)])"
  by (simp add: createDiff_def)

lemma createDiff_no_label:
  "rootfs_CreateDiff env tr key = Inr newDesc
   \<Longrightarrow> contentStore_Info env (tr @ [EvCreateDiff key]) (Digest newDesc) = Inr info
   \<Longrightarrow> Labels info ''containerd.io/uncompressed'' = None
   \<Longrightarrow> createDiff env key tr =
         (Inl (ErrOther ''invalid differ response with no diffID''),
          tr @ [EvCreateDiff key, EvInfo (Digest newDesc)])"
  by (simp add: createDiff_def)

lemma createDiff_Parse_fails:
  "rootfs_CreateDiff env tr key = Inr newDesc
   \<Longrightarrow> contentStore_Info env (tr @ [EvCreateDiff key]) (Digest newDesc) = Inr info
   \<Longrightarrow> Labels info ''containerd.io/uncompressed'' = Some diffIDStr
   \<Longrightarrow> digest_Parse env diffIDStr = Inl e
   \<Longrightarrow> createDiff env key tr = (Inl e, tr @ [EvCreateDiff key, EvInfo (Digest newDesc)])"
  by (simp add: createDiff_def)

lemma applyDiffLayer_Prepare_fails:
  "sn_Prepare env (tr @ [EvUniquePart]) (uniquePart env tr) (identity_ChainID env (DiffIDs (RootFS baseImg))) = Inl e
   \<Longrightarrow> applyDiffLayer env baseImg layers tr =
         (Inl e, tr @ [EvUniquePart, EvPrepare (uniquePart env tr) (identity_ChainID env (DiffIDs (RootFS baseImg)))])"
  by (simp add: applyDiffLayer_def Let_def)

lemma applyDiffLayer_apply_fails:
  "sn_Prepare env (tr @ [EvUniquePart]) (uniquePart env tr) (identity_ChainID env (DiffIDs (RootFS baseImg))) = Inr m
   \<Longrightarrow> applyLayersToSnapshot env m layers
         (tr @ [EvUniquePart, EvPrepare (uniquePart env tr) (identity_ChainID env (DiffIDs (RootFS baseImg)))])
         = (Some e, tr')
   \<Longrightarrow> applyDiffLayer env baseImg layers tr = (Inl e, tr' @ [EvRemove (uniquePart env tr)])"
  by (simp add: applyDiffLayer_def deferredRemove_def Let_def)

lemma applyDiffLayer_createDiff_fails:
  "sn_Prepare env (tr @ [EvUniquePart]) (uniquePart env tr) (identity_ChainID env (DiffIDs (RootFS baseImg))) = Inr m
   \<Longrightarrow> applyLayersToSnapshot env m layers
         (tr @ [EvUniquePart, EvPrepare (uniquePart env tr) (identity_ChainID env (DiffIDs (RootFS baseImg)))])
         = (None, tr')
   \<Longrightarrow> createDiff env (uniquePart env tr) tr' = (Inl e, tr'')
   \<Longrightarrow> applyDiffLayer env baseImg layers tr =
         (Inl (Wrapped ''failed to export layer: '' e), tr'' @ [EvRemove (uniquePart env tr)])"
  by (simp add: applyDiffLayer_def deferredRemove_def Let_def)

lemma applyDiffLayer_commit_fails:
  "sn_Prepare env (tr @ [EvUniquePart]) (uniquePart env tr) (identity_ChainID env (DiffIDs (RootFS baseImg))) = Inr m
   \<Longrightarrow> applyLayersToSnapshot env m layers
         (tr @ [EvUniquePart, EvPrepare (uniquePart env tr) (identity_ChainID env (DiffIDs (RootFS baseImg)))])
         = (None, tr')
   \<Longrightarrow> createDiff env (uniquePart env tr) tr' = (Inr (desc, diffID), tr'')
   \<Longrightarrow> sn_Commit env tr'' (identity_ChainID env (DiffIDs (RootFS baseImg) @ [diffID])) (uniquePart env tr) = Some e
   \<Longrightarrow> \<not> IsAlreadyExists e
   \<Longrightarrow> applyDiffLayer env baseImg layers tr =
         (Inl e, tr'' @ [EvCommit (identity_ChainID env (DiffIDs (RootFS baseImg) @ [diffID])) (uniquePart env tr),
                         EvRemove (uniquePart env tr)])"
  by (simp add: applyDiffLayer_def deferredRemove_def Let_def)

lemma applyDiffLayer_ok:
  "sn_Prepare env (tr @ [EvUniquePart]) (uniquePart env tr) (identity_ChainID env (DiffIDs (RootFS baseImg))) = Inr m
   \<Longrightarrow> applyLayersToSnapshot env m layers
         (tr @ [EvUniquePart, EvPrepare (uniquePart env tr) (identity_ChainID env (DiffIDs (RootFS baseImg)))])
         = (None, tr')
   \<Longrightarrow> createDiff env (uniquePart env tr) tr' = (Inr (desc, diffID), tr'')
   \<Longrightarrow> sn_Commit env tr'' (identity_ChainID env (DiffIDs (RootFS baseImg) @ [diffID])) (uniquePart env tr) = None
       \<or> (\<exists>e. sn_Commit env tr'' (identity_ChainID env (DiffIDs (RootFS baseImg) @ [diffID])) (uniquePart env tr) = Some e
              \<and> IsAlreadyExists e)
   \<Longrightarrow> applyDiffLayer env baseImg layers tr =
         (Inr (desc, diffID, identity_ChainID env (DiffIDs (RootFS baseImg) @ [diffID])),
          tr'' @ [EvCommit (identity_ChainID env (DiffIDs (RootFS baseImg) @ [diffID])) (uniquePart env tr)])"
  by (auto simp add: applyDiffLayer_def deferredRemove_def Let_def)

lemma writeContentsForImage_Marshal_fails:
  "json_Marshal env newConfig = Inl e
   \<Longrightarrow> writeContentsForImage env snName newConfig baseImageLayers diffLayerDesc tr = (Inl e, tr)"
  by (simp add: writeContentsForImage_def)

lemma writeContentsForImage_MarshalIndent_fails:
  "json_Marshal env newConfig = Inr newConfigJSON
   \<Longrightarrow> json_MarshalIndent env
         (newManifest \<lparr>MediaType = MediaTypeDockerSchema2Config, Digest = digest_FromBytes env newConfigJSON,
                       Descriptor.Size = int (length newConfigJSON)\<rparr> baseImageLayers diffLayerDesc) = Inl e
   \<Longrightarrow> writeContentsForImage env snName newConfig baseImageLayers diffLayerDesc tr = (Inl e, tr)"
  by (simp add: writeContentsForImage_def Let_def)

lemma writeContentsForImage_manifest_write_fails:
  "json_Marshal env newConfig = Inr newConfigJSON
   \<Longrightarrow> configDesc = \<lparr>MediaType = MediaTypeDockerSchema2Config, Digest = digest_FromBytes env newConfigJSON,
                       Descriptor.Size = int (length newConfigJSON)\<rparr>
   \<Longrightarrow> json_MarshalIndent env (newManifest configDesc baseImageLayers diffLayerDesc) = Inr newMfstJSON
   \<Longrightarrow> newMfstDesc = \<lparr>MediaType = MediaTypeDockerSchema2Manifest, Digest = digest_FromBytes env newMfstJSON,
                        Descriptor.Size = int (length newMfstJSON)\<rparr>
   \<Longrightarrow> content_WriteBlob env tr (Digest newMfstDesc) newMfstJSON newMfstDesc
         (manifestLabels configDesc (baseImageLayers @ [diffLayerDesc])) = Some e
   \<Longrightarrow> writeContentsForImage env snName newConfig baseImageLayers diffLayerDesc tr =
         (Inl e, tr @ [EvWriteBlob (Digest newMfstDesc) newMfstJSON newMfstDesc
                         (manifestLabels configDesc (baseImageLayers @ [diffLayerDesc]))])"
  by (simp add: writeContentsForImage_def Let_def newManifest_def)

lemma writeContentsForImage_config_write_fails:
  "json_Marshal env newConfig = Inr newConfigJSON
   \<Longrightarrow> configDesc = \<lparr>MediaType = MediaTypeDockerSchema2Config, Digest = digest_FromBytes env newConfigJSON,
                       Descriptor.Size = int (length newConfigJSON)\<rparr>
   \<Longrightarrow> json_MarshalIndent env (newManifest configDesc baseImageLayers diffLayerDesc) = Inr newMfstJSON
   \<Longrightarrow> newMfstDesc = \<lparr>MediaType = MediaTypeDockerSchema2Manifest, Digest = digest_FromBytes env newMfstJSON,
                        Descriptor.Size = int (length newMfstJSON)\<rparr>
   \<Longrightarrow> wM = EvWriteBlob (Digest newMfstDesc) newMfstJSON newMfstDesc
              (manifestLabels configDesc (baseImageLayers @ [diffLayerDesc]))
   \<Longrightarrow> content_WriteBlob env tr (Digest newMfstDesc) newMfstJSON newMfstDesc
         (manifestLabels configDesc (baseImageLayers @ [diffLayerDesc])) = None
   \<Longrightarrow> content_WriteBlob env (tr @ [wM]) (Digest configDesc) newConfigJSON configDesc
         [''containerd.io/gc.ref.snapshot.'' @ snName \<mapsto> identity_ChainID env (DiffIDs (RootFS newConfig))] = Some e
   \<Longrightarrow> writeContentsForImage env snName newConfig baseImageLayers diffLayerDesc tr =
         (Inl e, tr @ [wM, EvWriteBlob (Digest configDesc) newConfigJSON configDesc
                         [''containerd.io/gc.ref.snapshot.'' @ snName \<mapsto> identity_ChainID env (DiffIDs (RootFS newConfig))]])"
  by (simp add: writeContentsForImage_def Let_def newManifest_def)

subsection \<open>What Squash returns when one of its stages fails\<close>

lemma Squash_initImage_fails:
  "initImage env opt [] = (Inl e, tr1) \<Longrightarrow> Squash env opt = (Some e, tr1)"
  by (simp add: Squash_def)

lemma Squash_generateSquashLayer_fails:
  "initImage env opt [] = (Inr img, tr1) \<Longrightarrow> generateSquashLayer opt img = Inl e
   \<Longrightarrow> Squash env opt = (Some e, tr1)"
  by (simp add: Squash_def)

lemma Squash_WithLease_fails:
  "initImage env opt [] = (Inr img, tr1) \<Longrightarrow> generateSquashLayer opt img = Inr sLayers
   \<Longrightarrow> client_WithLease env tr1 = Some e
   \<Longrightarrow> Squash env opt = (Some (Wrapped ''failed to create lease for squash: '' e), tr1 @ [EvWithLease])"
  by (simp add: Squash_def)

lemma Squash_generateBaseImageConfig_fails:
  "initImage env opt [] = (Inr img, tr1) \<Longrightarrow> generateSquashLayer opt img = Inr sLayers
   \<Longrightarrow> client_WithLease env tr1 = None
   \<Longrightarrow> generateBaseImageConfig env img (int (length (Layers (Manifest img))) - int (length sLayers))
         (tr1 @ [EvWithLease]) = (Inl e, tr2)
   \<Longrightarrow> Squash env opt = (Some e, tr2 @ [EvLeaseDone])"
  by (simp add: Squash_def squashUnderLease_def)

lemma Squash_applyDiffLayer_fails:
  "initImage env opt [] = (Inr img, tr1) \<Longrightarrow> generateSquashLayer opt img = Inr sLayers
   \<Longrightarrow> client_WithLease env tr1 = None
   \<Longrightarrow> generateBaseImageConfig env img (int (length (Layers (Manifest img))) - int (length sLayers))
         (tr1 @ [EvWithLease]) = (Inr baseImage, tr2)
   \<Longrightarrow> applyDiffLayer env baseImage sLayers tr2 = (Inl e, tr3)
   \<Longrightarrow> Squash env opt = (Some e, tr3 @ [EvLeaseDone])"
  by (simp add: Squash_def squashUnderLease_def)

lemma Squash_writeContentsForImage_fails:
  fixes img :: "'c squashImage"
  assumes "initImage env opt [] = (Inr img, tr1)" and g: "generateSquashLayer opt img = Inr sLayers"
    and "client_WithLease env tr1 = None"
    and "generateBaseImageConfig env img (int (length (Layers (Manifest img))) - int (length sLayers))
           (tr1 @ [EvWithLease]) = (Inr baseImage, tr2)"
    and "applyDiffLayer env baseImage sLayers tr2 = (Inr (diffLayerDesc, diffID, snapshotID), tr3)"
    and "generateCommitImageConfig env opt baseImage diffID tr3 = (Inr imageConfig, tr4)"
    and "writeContentsForImage env (Snapshotter opt) imageConfig
           (take (nat (int (length (Layers (Manifest img))) - int (length sLayers))) (Layers (Manifest img)))
           diffLayerDesc tr4 = (Inl e, tr5)"
  shows "Squash env opt = (Some e, tr5 @ [EvLeaseDone])"
proof -
  from generateSquashLayer_length [OF g]
  have "sliceTo (Layers (Manifest img)) spare (int (length (Layers (Manifest img))) - int (length sLayers))
          = Inr (take (nat (int (length (Layers (Manifest img))) - int (length sLayers))) (Layers (Manifest img)))"
    for spare
    by (simp add: sliceTo_def)
  with assms show ?thesis by (simp add: Squash_def squashUnderLease_def)
qed

text \<open>
  C5. A failure before the upsert of the image record ends the pipeline with an error, and
  no Update or Create of the image store has been called. The theorem has one case for each
  call of a collaborator that can fail, under the hypothesis that the calls before it have
  succeeded; each case gives the error returned and the calls made.

  \<^item> Reading the source image: \<open>imageStore.Get\<close>, \<open>imgutil.ReadManifest\<close>,
    \<open>imgutil.ReadImageConfig\<close>; the error of the call is returned.
  \<^item> The layer selection: its error is returned.
  \<^item> The lease: the error of \<open>client.WithLease\<close> is returned wrapped with
    "failed to create lease for squash".
  \<^item> The base config: the error of the second \<open>imgutil.ReadImageConfig\<close> is returned; when
    the remaining count exceeds the capacity of the diffIDs read, the slice expression
    panics.
  \<^item> \<open>applyDiffLayer\<close>: the error of \<open>sn.Prepare\<close> is returned. When \<open>differ.Apply\<close> fails on a
    layer, the layers before it having been applied, no further layer is applied and the
    error of Apply is returned. The errors of \<open>rootfs.CreateDiff\<close>, of \<open>contentStore.Info\<close>
    and of \<open>digest.Parse\<close>, and the error of a response with no diffID label, are returned
    wrapped with "failed to export layer" (\<open>%w\<close>, so that each is still that error for
    \<open>errors.Is\<close>). An error of \<open>sn.Commit\<close> other than AlreadyExists is returned as it is;
    AlreadyExists is not a failure. In all these cases but the one of Prepare the removal of
    the scratch snapshot is attempted.
  \<^item> \<open>writeContentsForImage\<close>: the errors of \<open>json.Marshal\<close> and \<open>json.MarshalIndent\<close> are
    returned, and so is the error of \<open>content.WriteBlob\<close> for the manifest and, the manifest
    having been written, for the config.

  Up to and including the two serialisations no blob has been written either. In every case
  after the lease has been acquired, the lease is released.
\<close>

theorem Squash_aborts_before_upsert:
  fixes env :: "'c env" and opt :: ImageSquashOptions and r :: ImageRecord and manifest :: Manifest
    and config orig baseImage imageConfig :: "'c Image" and img :: "'c squashImage"
    and sLayers pre rest baseLayers :: "Descriptor list" and l newDesc diffLayerDesc configDesc mDesc :: Descriptor
    and m :: "Mount list" and info :: ContentInfo and diffIDStr diffID ref key parent snapshotID :: string
    and cJSON mJSON :: bytes and remaining :: int and e :: error
    and t1 t2 tr1 trL tr2 trP trA trI trC tr4 :: trace and wM wC :: event
    and mLabels cLabels :: "string \<rightharpoonup> string"
    and Read Leased Based Prepared Applied Diffed Committed Serialised :: bool
  defines "ref \<equiv> SourceImageRef opt"
    and "t1 \<equiv> [EvImageGet ref]"
    and "t2 \<equiv> [EvImageGet ref, EvReadManifest r]"
    and "tr1 \<equiv> [EvImageGet ref, EvReadManifest r, EvReadImageConfig r]"
    and "img \<equiv> \<lparr>ClientImage = r, Config = config, Image = r, Manifest = manifest\<rparr>"
    and "Read \<equiv> imageStore_Get env [] ref = Inr r \<and> imgutil_ReadManifest env t1 r = Inr manifest
                  \<and> imgutil_ReadImageConfig env t2 r = Inr config"
    and "Leased \<equiv> Read \<and> generateSquashLayer opt img = Inr sLayers \<and> client_WithLease env tr1 = None"
    and "remaining \<equiv> int (length (Layers manifest)) - int (length sLayers)"
    and "trL \<equiv> tr1 @ [EvWithLease]"
    and "tr2 \<equiv> trL @ [EvReadImageConfig r, EvNow]"
    and "Based \<equiv> Leased \<and> generateBaseImageConfig env img remaining trL = (Inr baseImage, tr2)"
    and "key \<equiv> uniquePart env tr2"
    and "parent \<equiv> identity_ChainID env (DiffIDs (RootFS baseImage))"
    and "trP \<equiv> tr2 @ [EvUniquePart, EvPrepare key parent]"
    and "Prepared \<equiv> Based \<and> sn_Prepare env (tr2 @ [EvUniquePart]) key parent = Inr m"
    and "Applied \<equiv> Prepared
                  \<and> (\<forall>i < length sLayers.
                        differ_Apply env (trP @ map (\<lambda>x. EvApply x m) (take i sLayers)) (sLayers ! i) m = None)"
    and "trA \<equiv> trP @ map (\<lambda>x. EvApply x m) sLayers"
    and "trI \<equiv> trA @ [EvCreateDiff key, EvInfo (Digest newDesc)]"
    and "Diffed \<equiv> Applied \<and> rootfs_CreateDiff env trA key = Inr newDesc
                  \<and> contentStore_Info env (trA @ [EvCreateDiff key]) (Digest newDesc) = Inr info
                  \<and> Labels info ''containerd.io/uncompressed'' = Some diffIDStr
                  \<and> digest_Parse env diffIDStr = Inr diffID"
    and "diffLayerDesc \<equiv> \<lparr>MediaType = MediaTypeDockerSchema2LayerGzip, Digest = Digest newDesc,
                             Descriptor.Size = ContentInfo.Size info\<rparr>"
    and "snapshotID \<equiv> identity_ChainID env (DiffIDs (RootFS baseImage) @ [diffID])"
    and "trC \<equiv> trI @ [EvCommit snapshotID key]"
    and "tr4 \<equiv> trC @ [EvNow]"
    and "Committed \<equiv> Diffed
                  \<and> (sn_Commit env trI snapshotID key = None
                       \<or> (\<exists>e'. sn_Commit env trI snapshotID key = Some e' \<and> IsAlreadyExists e'))
                  \<and> generateCommitImageConfig env opt baseImage diffID trC = (Inr imageConfig, tr4)"
    and "baseLayers \<equiv> take (nat remaining) (Layers manifest)"
    and "configDesc \<equiv> \<lparr>MediaType = MediaTypeDockerSchema2Config, Digest = digest_FromBytes env cJSON,
                          Descriptor.Size = int (length cJSON)\<rparr>"
    and "mDesc \<equiv> \<lparr>MediaType = MediaTypeDockerSchema2Manifest, Digest = digest_FromBytes env mJSON,
                     Descriptor.Size = int (length mJSON)\<rparr>"
    and "mLabels \<equiv> manifestLabels configDesc (baseLayers @ [diffLayerDesc])"
    and "wM \<equiv> EvWriteBlob (Digest mDesc) mJSON mDesc mLabels"
    and "cLabels \<equiv> [''containerd.io/gc.ref.snapshot.'' @ Snapshotter opt
                        \<mapsto> identity_ChainID env (DiffIDs (RootFS imageConfig))]"
    and "wC \<equiv> EvWriteBlob (Digest configDesc) cJSON configDesc cLabels"
    and "Serialised \<equiv> Committed \<and> json_Marshal env imageConfig = Inr cJSON
                  \<and> json_MarshalIndent env (newManifest configDesc baseLayers diffLayerDesc) = Inr mJSON"
  shows
    "(imageStore_Get env [] ref = Inl e \<longrightarrow>
        Squash env opt = (Some e, t1) \<and> noStoreWrite t1)
   \<and> (imageStore_Get env [] ref = Inr r \<and> imgutil_ReadManifest env t1 r = Inl e \<longrightarrow>
        Squash env opt = (Some e, t2) \<and> noStoreWrite t2)
   \<and> (imageStore_Get env [] ref = Inr r \<and> imgutil_ReadManifest env t1 r = Inr manifest
        \<and> imgutil_ReadImageConfig env t2 r = Inl e \<longrightarrow>
        Squash env opt = (Some e, tr1) \<and> noStoreWrite tr1)
   \<and> (Read \<and> generateSquashLayer opt img = Inl e \<longrightarrow>
        Squash env opt = (Some e, tr1) \<and> noStoreWrite tr1)
   \<and> (Read \<and> generateSquashLayer opt img = Inr sLayers \<and> client_WithLease env tr1 = Some e \<longrightarrow>
        Squash env opt = (Some (Wrapped ''failed to create lease for squash: '' e), trL)
        \<and> noStoreWrite trL)
   \<and> (Leased \<and> imgutil_ReadImageConfig env trL r = Inl e \<longrightarrow>
        Squash env opt = (Some e, trL @ [EvReadImageConfig r, EvLeaseDone])
        \<and> noStoreWrite (trL @ [EvReadImageConfig r, EvLeaseDone]))
   \<and> (Leased \<and> imgutil_ReadImageConfig env trL r = Inr orig
        \<and> int (length (DiffIDs (RootFS orig)) + length (imgutil_DiffIDsSpare env trL r)) < remaining \<longrightarrow>
        Squash env opt = (Some PanicSliceBounds, tr2 @ [EvLeaseDone])
        \<and> noStoreWrite (tr2 @ [EvLeaseDone]))
   \<and> (Based \<and> sn_Prepare env (tr2 @ [EvUniquePart]) key parent = Inl e \<longrightarrow>
        Squash env opt = (Some e, trP @ [EvLeaseDone]) \<and> noStoreWrite (trP @ [EvLeaseDone]))
   \<and> (Prepared \<and> sLayers = pre @ l # rest
        \<and> (\<forall>i < length pre. differ_Apply env (trP @ map (\<lambda>x. EvApply x m) (take i pre)) (pre ! i) m = None)
        \<and> differ_Apply env (trP @ map (\<lambda>x. EvApply x m) pre) l m = Some e \<longrightarrow>
        Squash env opt = (Some e, trP @ map (\<lambda>x. EvApply x m) pre @ [EvApply l m, EvRemove key, EvLeaseDone])
        \<and> noStoreWrite (trP @ map (\<lambda>x. EvApply x m) pre @ [EvApply l m, EvRemove key, EvLeaseDone]))
   \<and> (Applied \<and> rootfs_CreateDiff env trA key = Inl e \<longrightarrow>
        Squash env opt = (Some (Wrapped ''failed to export layer: '' e),
                          trA @ [EvCreateDiff key, EvRemove key, EvLeaseDone])
        \<and> noStoreWrite (trA @ [EvCreateDiff key, EvRemove key, EvLeaseDone]))
   \<and> (Applied \<and> rootfs_CreateDiff env trA key = Inr newDesc
        \<and> contentStore_Info env (trA @ [EvCreateDiff key]) (Digest newDesc) = Inl e \<longrightarrow>
        Squash env opt = (Some (Wrapped ''failed to export layer: '' e), trI @ [EvRemove key, EvLeaseDone])
        \<and> noStoreWrite (trI @ [EvRemove key, EvLeaseDone]))
   \<and> (Applied \<and> rootfs_CreateDiff env trA key = Inr newDesc
        \<and> contentStore_Info env (trA @ [EvCreateDiff key]) (Digest newDesc) = Inr info
        \<and> Labels info ''containerd.io/uncompressed'' = None \<longrightarrow>
        Squash env opt = (Some (Wrapped ''failed to export layer: ''
                                  (ErrOther ''invalid differ response with no diffID'')),
                          trI @ [EvRemove key, EvLeaseDone])
        \<and> noStoreWrite (trI @ [EvRemove key, EvLeaseDone]))
   \<and> (Applied \<and> rootfs_CreateDiff env trA key = Inr newDesc
        \<and> contentStore_Info env (trA @ [EvCreateDiff key]) (Digest newDesc) = Inr info
        \<and> Labels info ''containerd.io/uncompressed'' = Some diffIDStr
        \<and> digest_Parse env diffIDStr = Inl e \<longrightarrow>
        Squash env opt = (Some (Wrapped ''failed to export layer: '' e), trI @ [EvRemove key, EvLeaseDone])
        \<and> noStoreWrite (trI @ [EvRemove key, EvLeaseDone]))
   \<and> (Diffed \<and> sn_Commit env trI snapshotID key = Some e \<and> \<not> IsAlreadyExists e \<longrightarrow>
        Squash env opt = (Some e, trC @ [EvRemove key, EvLeaseDone])
        \<and> noStoreWrite (trC @ [EvRemove key, EvLeaseDone]))
   \<and> (Committed \<and> json_Marshal env imageConfig = Inl e \<longrightarrow>
        Squash env opt = (Some e, tr4 @ [EvLeaseDone]) \<and> noStoreWrite (tr4 @ [EvLeaseDone]))
   \<and> (Committed \<and> json_Marshal env imageConfig = Inr cJSON
        \<and> json_MarshalIndent env (newManifest configDesc baseLayers diffLayerDesc) = Inl e \<longrightarrow>
        Squash env opt = (Some e, tr4 @ [EvLeaseDone]) \<and> noStoreWrite (tr4 @ [EvLeaseDone]))
   \<and> (Serialised \<and> content_WriteBlob env tr4 (Digest mDesc) mJSON mDesc mLabels = Some e \<longrightarrow>
        Squash env opt = (Some e, tr4 @ [wM, EvLeaseDone]) \<and> noImageWrite (tr4 @ [wM, EvLeaseDone]))
   \<and> (Serialised \<and> content_WriteBlob env tr4 (Digest mDesc) mJSON mDesc mLabels = None
        \<and> content_WriteBlob env (tr4 @ [wM]) (Digest configDesc) cJSON configDesc cLabels = Some e \<longrightarrow>
        Squash env opt = (Some e, tr4 @ [wM, wC, EvLeaseDone])
        \<and> noImageWrite (tr4 @ [wM, wC, EvLeaseDone]))"
proof -
  note nsw = noStoreWrite_Cons noImageWrite_Cons
  have q1: "noStoreWrite t1" and q2: "noStoreWrite t2" and q3: "noStoreWrite tr1" and qL: "noStoreWrite trL"
    and q4: "noStoreWrite tr2" and qP: "noStoreWrite trP" and qA: "noStoreWrite trA" and qI: "noStoreWrite trI"
    and qC: "noStoreWrite trC" and q5: "noStoreWrite tr4"
    by (simp_all add: t1_def t2_def tr1_def trL_def tr2_def trP_def trA_def trI_def trC_def tr4_def nsw)
  have mi: "Manifest img = manifest" and ci: "ClientImage img = r" by (simp_all add: img_def)
  have I: "initImage env opt [] = (Inr img, tr1)" if Read
    using that initImage_ok [of env "[]" opt r manifest config]
    by (simp add: Read_def img_def tr1_def t1_def t2_def ref_def)
  have G: "generateSquashLayer opt img = Inr sLayers" and W: "client_WithLease env tr1 = None"
    and R: Read if Leased
    using that by (simp_all add: Leased_def)
  have B: "generateBaseImageConfig env img (int (length (Layers (Manifest img))) - int (length sLayers))
             (tr1 @ [EvWithLease]) = (Inr baseImage, tr2)" and L: Leased if Based
    using that by (simp_all add: Based_def mi remaining_def trL_def)
  have P: "sn_Prepare env (tr2 @ [EvUniquePart]) (uniquePart env tr2)
             (identity_ChainID env (DiffIDs (RootFS baseImage))) = Inr m" and Bd: Based if Prepared
    using that by (simp_all add: Prepared_def key_def parent_def)
  have A: "applyLayersToSnapshot env m sLayers
             (tr2 @ [EvUniquePart, EvPrepare (uniquePart env tr2) (identity_ChainID env (DiffIDs (RootFS baseImage)))])
           = (None, trA)" and Pd: Prepared if Applied
    using that applyLayersToSnapshot_all_applied [of sLayers env trP m]
    by (simp_all add: Applied_def trA_def trP_def key_def parent_def)
  have D: "createDiff env (uniquePart env tr2) trA = (Inr (diffLayerDesc, diffID), trI)" and Ad: Applied if Diffed
    using that createDiff_ok [of env trA key newDesc info diffIDStr diffID]
    by (simp_all add: Diffed_def diffLayerDesc_def trI_def key_def)
  have AD: "applyDiffLayer env baseImage sLayers tr2 = (Inr (diffLayerDesc, diffID, snapshotID), trC)"
    and GC: "generateCommitImageConfig env opt baseImage diffID trC = (Inr imageConfig, tr4)"
    and Dd: Diffed if Committed
  proof -
    from that have d: Diffed and gc: "generateCommitImageConfig env opt baseImage diffID trC = (Inr imageConfig, tr4)"
      and c: "sn_Commit env trI snapshotID key = None
                \<or> (\<exists>e'. sn_Commit env trI snapshotID key = Some e' \<and> IsAlreadyExists e')"
      by (simp_all add: Committed_def)
    from applyDiffLayer_ok [OF P [OF Pd [OF Ad [OF d]]] A [OF Ad [OF d]] D [OF d]] c
    show "applyDiffLayer env baseImage sLayers tr2 = (Inr (diffLayerDesc, diffID, snapshotID), trC)"
      by (simp add: snapshotID_def trC_def key_def)
    show "generateCommitImageConfig env opt baseImage diffID trC = (Inr imageConfig, tr4)" by (rule gc)
    show Diffed by (rule d)
  qed
  let ?rem = "int (length (Layers (Manifest img))) - int (length sLayers)"
  have c1: "imageStore_Get env [] ref = Inl e \<longrightarrow> Squash env opt = (Some e, t1) \<and> noStoreWrite t1"
    using initImage_Get_fails [of env "[]" opt e] q1
    by (auto simp add: ref_def t1_def dest!: Squash_initImage_fails)
  have c2: "imageStore_Get env [] ref = Inr r \<and> imgutil_ReadManifest env t1 r = Inl e \<longrightarrow>
        Squash env opt = (Some e, t2) \<and> noStoreWrite t2"
    using initImage_ReadManifest_fails [of env "[]" opt r e] q2
    by (auto simp add: ref_def t1_def t2_def dest!: Squash_initImage_fails)
  have c3: "imageStore_Get env [] ref = Inr r \<and> imgutil_ReadManifest env t1 r = Inr manifest
        \<and> imgutil_ReadImageConfig env t2 r = Inl e \<longrightarrow>
        Squash env opt = (Some e, tr1) \<and> noStoreWrite tr1"
    using initImage_ReadImageConfig_fails [of env "[]" opt r manifest e] q3
    by (auto simp add: ref_def t1_def t2_def tr1_def dest!: Squash_initImage_fails)
  have c4: "Read \<and> generateSquashLayer opt img = Inl e \<longrightarrow>
        Squash env opt = (Some e, tr1) \<and> noStoreWrite tr1"
    using q3 by (auto dest: Squash_generateSquashLayer_fails [OF I])
  have c5: "Read \<and> generateSquashLayer opt img = Inr sLayers \<and> client_WithLease env tr1 = Some e \<longrightarrow>
        Squash env opt = (Some (Wrapped ''failed to create lease for squash: '' e), trL)
        \<and> noStoreWrite trL"
    using qL by (auto simp add: trL_def dest: Squash_WithLease_fails [OF I])
  have c6: "Leased \<and> imgutil_ReadImageConfig env trL r = Inl e \<longrightarrow>
        Squash env opt = (Some e, trL @ [EvReadImageConfig r, EvLeaseDone])
        \<and> noStoreWrite (trL @ [EvReadImageConfig r, EvLeaseDone])"
  proof (intro impI, elim conjE)
    assume l: Leased and f: "imgutil_ReadImageConfig env trL r = Inl e"
    from generateBaseImageConfig_read_fails [of env trL img e ?rem] f
    have "generateBaseImageConfig env img ?rem (tr1 @ [EvWithLease]) = (Inl e, trL @ [EvReadImageConfig r])"
      by (simp add: ci trL_def)
    from Squash_generateBaseImageConfig_fails [OF I [OF R [OF l]] G [OF l] W [OF l] this] qL
    show "Squash env opt = (Some e, trL @ [EvReadImageConfig r, EvLeaseDone])
        \<and> noStoreWrite (trL @ [EvReadImageConfig r, EvLeaseDone])"
      by (simp add: nsw)
  qed
  have c7: "Leased \<and> imgutil_ReadImageConfig env trL r = Inr orig
        \<and> int (length (DiffIDs (RootFS orig)) + length (imgutil_DiffIDsSpare env trL r)) < remaining \<longrightarrow>
        Squash env opt = (Some PanicSliceBounds, tr2 @ [EvLeaseDone])
        \<and> noStoreWrite (tr2 @ [EvLeaseDone])"
  proof (intro impI, elim conjE)
    assume l: Leased and f: "imgutil_ReadImageConfig env trL r = Inr orig"
      and n: "int (length (DiffIDs (RootFS orig)) + length (imgutil_DiffIDsSpare env trL r)) < remaining"
    from generateBaseImageConfig_slice_panics [of env trL img orig ?rem] f n
    have "generateBaseImageConfig env img ?rem (tr1 @ [EvWithLease]) = (Inl PanicSliceBounds, tr2)"
      by (simp add: ci mi trL_def tr2_def remaining_def)
    from Squash_generateBaseImageConfig_fails [OF I [OF R [OF l]] G [OF l] W [OF l] this] q4
    show "Squash env opt = (Some PanicSliceBounds, tr2 @ [EvLeaseDone]) \<and> noStoreWrite (tr2 @ [EvLeaseDone])"
      by (simp add: nsw)
  qed
  have fromB: "Squash env opt = (Some x, tr3 @ [EvLeaseDone])"
    if Based and "applyDiffLayer env baseImage sLayers tr2 = (Inl x, tr3)" for x tr3
    using Squash_applyDiffLayer_fails [OF I [OF R [OF L [OF that(1)]]] G [OF L [OF that(1)]]
      W [OF L [OF that(1)]] B [OF that(1)] that(2)] .
  have c8: "Based \<and> sn_Prepare env (tr2 @ [EvUniquePart]) key parent = Inl e \<longrightarrow>
        Squash env opt = (Some e, trP @ [EvLeaseDone]) \<and> noStoreWrite (trP @ [EvLeaseDone])"
  proof (intro impI, elim conjE)
    assume b: Based and f: "sn_Prepare env (tr2 @ [EvUniquePart]) key parent = Inl e"
    from applyDiffLayer_Prepare_fails [of env tr2 baseImage e sLayers] f
    have "applyDiffLayer env baseImage sLayers tr2 = (Inl e, trP)"
      by (simp add: key_def parent_def trP_def)
    from fromB [OF b this] qP
    show "Squash env opt = (Some e, trP @ [EvLeaseDone]) \<and> noStoreWrite (trP @ [EvLeaseDone])"
      by (simp add: nsw)
  qed
  have c9: "Prepared \<and> sLayers = pre @ l # rest
        \<and> (\<forall>i < length pre. differ_Apply env (trP @ map (\<lambda>x. EvApply x m) (take i pre)) (pre ! i) m = None)
        \<and> differ_Apply env (trP @ map (\<lambda>x. EvApply x m) pre) l m = Some e \<longrightarrow>
        Squash env opt = (Some e, trP @ map (\<lambda>x. EvApply x m) pre @ [EvApply l m, EvRemove key, EvLeaseDone])
        \<and> noStoreWrite (trP @ map (\<lambda>x. EvApply x m) pre @ [EvApply l m, EvRemove key, EvLeaseDone])"
  proof (intro impI, elim conjE)
    assume p: Prepared and s: "sLayers = pre @ l # rest"
      and ok: "\<forall>i < length pre. differ_Apply env (trP @ map (\<lambda>x. EvApply x m) (take i pre)) (pre ! i) m = None"
      and f: "differ_Apply env (trP @ map (\<lambda>x. EvApply x m) pre) l m = Some e"
    from applyLayersToSnapshot_first_failure [OF ok f, of rest] s
    have "applyLayersToSnapshot env m sLayers
           (tr2 @ [EvUniquePart, EvPrepare (uniquePart env tr2) (identity_ChainID env (DiffIDs (RootFS baseImage)))])
         = (Some e, trP @ map (\<lambda>x. EvApply x m) pre @ [EvApply l m])"
      by (simp add: trP_def key_def parent_def)
    from applyDiffLayer_apply_fails [OF P [OF p] this]
    have "applyDiffLayer env baseImage sLayers tr2 =
            (Inl e, (trP @ map (\<lambda>x. EvApply x m) pre @ [EvApply l m]) @ [EvRemove key])"
      by (simp add: key_def)
    from fromB [OF Bd [OF p] this] qP
    show "Squash env opt = (Some e, trP @ map (\<lambda>x. EvApply x m) pre @ [EvApply l m, EvRemove key, EvLeaseDone])
        \<and> noStoreWrite (trP @ map (\<lambda>x. EvApply x m) pre @ [EvApply l m, EvRemove key, EvLeaseDone])"
      by (simp add: nsw)
  qed
  have fromA: "Squash env opt = (Some (Wrapped ''failed to export layer: '' x), tr' @ [EvRemove key, EvLeaseDone])"
    if Applied and "createDiff env (uniquePart env tr2) trA = (Inl x, tr')" for x tr'
  proof -
    from applyDiffLayer_createDiff_fails [OF P [OF Pd [OF that(1)]] A [OF that(1)] that(2)]
    have "applyDiffLayer env baseImage sLayers tr2 = (Inl (Wrapped ''failed to export layer: '' x), tr' @ [EvRemove key])"
      by (simp add: key_def)
    from fromB [OF Bd [OF Pd [OF that(1)]] this] show ?thesis by simp
  qed
  have c10: "Applied \<and> rootfs_CreateDiff env trA key = Inl e \<longrightarrow>
        Squash env opt = (Some (Wrapped ''failed to export layer: '' e),
                          trA @ [EvCreateDiff key, EvRemove key, EvLeaseDone])
        \<and> noStoreWrite (trA @ [EvCreateDiff key, EvRemove key, EvLeaseDone])"
  proof (intro impI, elim conjE)
    assume a: Applied and f: "rootfs_CreateDiff env trA key = Inl e"
    from createDiff_CreateDiff_fails [of env trA key e] f
    have "createDiff env (uniquePart env tr2) trA = (Inl e, trA @ [EvCreateDiff key])"
      by (simp add: key_def)
    from fromA [OF a this] qA
    show "Squash env opt = (Some (Wrapped ''failed to export layer: '' e),
                          trA @ [EvCreateDiff key, EvRemove key, EvLeaseDone])
        \<and> noStoreWrite (trA @ [EvCreateDiff key, EvRemove key, EvLeaseDone])"
      by (simp add: nsw)
  qed
  have c11: "Applied \<and> rootfs_CreateDiff env trA key = Inr newDesc
        \<and> contentStore_Info env (trA @ [EvCreateDiff key]) (Digest newDesc) = Inl e \<longrightarrow>
        Squash env opt = (Some (Wrapped ''failed to export layer: '' e), trI @ [EvRemove key, EvLeaseDone])
        \<and> noStoreWrite (trI @ [EvRemove key, EvLeaseDone])"
  proof (intro impI, elim conjE)
    assume a: Applied and f1: "rootfs_CreateDiff env trA key = Inr newDesc"
      and f2: "contentStore_Info env (trA @ [EvCreateDiff key]) (Digest newDesc) = Inl e"
    from createDiff_Info_fails [OF f1 f2]
    have "createDiff env (uniquePart env tr2) trA = (Inl e, trI)"
      by (simp add: key_def trI_def)
    from fromA [OF a this] qI
    show "Squash env opt = (Some (Wrapped ''failed to export layer: '' e), trI @ [EvRemove key, EvLeaseDone])
        \<and> noStoreWrite (trI @ [EvRemove key, EvLeaseDone])"
      by (simp add: nsw)
  qed
  have c12: "Applied \<and> rootfs_CreateDiff env trA key = Inr newDesc
        \<and> contentStore_Info env (trA @ [EvCreateDiff key]) (Digest newDesc) = Inr info
        \<and> Labels info ''containerd.io/uncompressed'' = None \<longrightarrow>
        Squash env opt = (Some (Wrapped ''failed to export layer: ''
                                  (ErrOther ''invalid differ response with no diffID'')),
                          trI @ [EvRemove key, EvLeaseDone])
        \<and> noStoreWrite (trI @ [EvRemove key, EvLeaseDone])"
  proof (intro impI, elim conjE)
    assume a: Applied and f1: "rootfs_CreateDiff env trA key = Inr newDesc"
      and f2: "contentStore_Info env (trA @ [EvCreateDiff key]) (Digest newDesc) = Inr info"
      and f3: "Labels info ''containerd.io/uncompressed'' = None"
    from createDiff_no_label [OF f1 f2 f3]
    have "createDiff env (uniquePart env tr2) trA =
            (Inl (ErrOther ''invalid differ response with no diffID''), trI)"
      by (simp add: key_def trI_def)
    from fromA [OF a this] qI
    show "Squash env opt = (Some (Wrapped ''failed to export layer: ''
                                  (ErrOther ''invalid differ response with no diffID'')),
                          trI @ [EvRemove key, EvLeaseDone])
        \<and> noStoreWrite (trI @ [EvRemove key, EvLeaseDone])"
      by (simp add: nsw)
  qed
  have c13: "Applied \<and> rootfs_CreateDiff env trA key = Inr newDesc
        \<and> contentStore_Info env (trA @ [EvCreateDiff key]) (Digest newDesc) = Inr info
        \<and> Labels info ''containerd.io/uncompressed'' = Some diffIDStr
        \<and> digest_Parse env diffIDStr = Inl e \<longrightarrow>
        Squash env opt = (Some (Wrapped ''failed to export layer: '' e), trI @ [EvRemove key, EvLeaseDone])
        \<and> noStoreWrite (trI @ [EvRemove key, EvLeaseDone])"
  proof (intro impI, elim conjE)
    assume a: Applied and f1: "rootfs_CreateDiff env trA key = Inr newDesc"
      and f2: "contentStore_Info env (trA @ [EvCreateDiff key]) (Digest newDesc) = Inr info"
      and f3: "Labels info ''containerd.io/uncompressed'' = Some diffIDStr"
      and f4: "digest_Parse env diffIDStr = Inl e"
    from createDiff_Parse_fails [OF f1 f2 f3 f4]
    have "createDiff env (uniquePart env tr2) trA = (Inl e, trI)"
      by (simp add: key_def trI_def)
    from fromA [OF a this] qI
    show "Squash env opt = (Some (Wrapped ''failed to export layer: '' e), trI @ [EvRemove key, EvLeaseDone])
        \<and> noStoreWrite (trI @ [EvRemove key, EvLeaseDone])"
      by (simp add: nsw)
  qed
  have c14: "Diffed \<and> sn_Commit env trI snapshotID key = Some e \<and> \<not> IsAlreadyExists e \<longrightarrow>
        Squash env opt = (Some e, trC @ [EvRemove key, EvLeaseDone])
        \<and> noStoreWrite (trC @ [EvRemove key, EvLeaseDone])"
  proof (intro impI, elim conjE)
    assume d: Diffed and f: "sn_Commit env trI snapshotID key = Some e" and n: "\<not> IsAlreadyExists e"
    from f have f': "sn_Commit env trI (identity_ChainID env (DiffIDs (RootFS baseImage) @ [diffID])) (uniquePart env tr2) = Some e"
      by (simp add: snapshotID_def key_def)
    from applyDiffLayer_commit_fails [OF P [OF Pd [OF Ad [OF d]]] A [OF Ad [OF d]] D [OF d] f' n]
    have "applyDiffLayer env baseImage sLayers tr2 = (Inl e, trC @ [EvRemove key])"
      by (simp add: snapshotID_def key_def trC_def)
    from fromB [OF Bd [OF Pd [OF Ad [OF d]]] this] qC
    show "Squash env opt = (Some e, trC @ [EvRemove key, EvLeaseDone])
        \<and> noStoreWrite (trC @ [EvRemove key, EvLeaseDone])"
      by (simp add: nsw)
  qed
  have fromC: "Squash env opt = (Some x, tr5 @ [EvLeaseDone])"
    if c: Committed and w: "writeContentsForImage env (Snapshotter opt) imageConfig baseLayers diffLayerDesc tr4 = (Inl x, tr5)"
    for x tr5
  proof -
    note b = Bd [OF Pd [OF Ad [OF Dd [OF c]]]]
    from w have w': "writeContentsForImage env (Snapshotter opt) imageConfig
        (take (nat ?rem) (Layers (Manifest img))) diffLayerDesc tr4 = (Inl x, tr5)"
      by (simp add: baseLayers_def remaining_def mi)
    show ?thesis
      by (rule Squash_writeContentsForImage_fails [OF I [OF R [OF L [OF b]]] G [OF L [OF b]] W [OF L [OF b]]
            B [OF b] AD [OF c] GC [OF c] w'])
  qed
  have c15: "Committed \<and> json_Marshal env imageConfig = Inl e \<longrightarrow>
        Squash env opt = (Some e, tr4 @ [EvLeaseDone]) \<and> noStoreWrite (tr4 @ [EvLeaseDone])"
  proof (intro impI, elim conjE)
    assume c: Committed and f: "json_Marshal env imageConfig = Inl e"
    from fromC [OF c writeContentsForImage_Marshal_fails [OF f]] q5
    show "Squash env opt = (Some e, tr4 @ [EvLeaseDone]) \<and> noStoreWrite (tr4 @ [EvLeaseDone])"
      by (simp add: nsw)
  qed
  have c16: "Committed \<and> json_Marshal env imageConfig = Inr cJSON
        \<and> json_MarshalIndent env (newManifest configDesc baseLayers diffLayerDesc) = Inl e \<longrightarrow>
        Squash env opt = (Some e, tr4 @ [EvLeaseDone]) \<and> noStoreWrite (tr4 @ [EvLeaseDone])"
  proof (intro impI, elim conjE)
    assume c: Committed and f1: "json_Marshal env imageConfig = Inr cJSON"
      and f2: "json_MarshalIndent env (newManifest configDesc baseLayers diffLayerDesc) = Inl e"
    from fromC [OF c writeContentsForImage_MarshalIndent_fails [OF f1 f2 [unfolded configDesc_def]]] q5
    show "Squash env opt = (Some e, tr4 @ [EvLeaseDone]) \<and> noStoreWrite (tr4 @ [EvLeaseDone])"
      by (simp add: nsw)
  qed
  have q5i: "noImageWrite tr4" by (rule noStoreWrite_noImageWrite [OF q5])
  have c17: "Serialised \<and> content_WriteBlob env tr4 (Digest mDesc) mJSON mDesc mLabels = Some e \<longrightarrow>
        Squash env opt = (Some e, tr4 @ [wM, EvLeaseDone]) \<and> noImageWrite (tr4 @ [wM, EvLeaseDone])"
  proof (intro impI, elim conjE)
    assume s: Serialised and f: "content_WriteBlob env tr4 (Digest mDesc) mJSON mDesc mLabels = Some e"
    from s have c: Committed and f1: "json_Marshal env imageConfig = Inr cJSON"
      and f2: "json_MarshalIndent env (newManifest configDesc baseLayers diffLayerDesc) = Inr mJSON"
      by (simp_all add: Serialised_def)
    from writeContentsForImage_manifest_write_fails [OF f1 configDesc_def [THEN meta_eq_to_obj_eq] f2
        mDesc_def [THEN meta_eq_to_obj_eq] f [unfolded mLabels_def]]
    have "writeContentsForImage env (Snapshotter opt) imageConfig baseLayers diffLayerDesc tr4 = (Inl e, tr4 @ [wM])"
      by (simp add: wM_def mLabels_def)
    from fromC [OF c this] q5i
    show "Squash env opt = (Some e, tr4 @ [wM, EvLeaseDone]) \<and> noImageWrite (tr4 @ [wM, EvLeaseDone])"
      by (simp add: nsw wM_def)
  qed
  have c18: "Serialised \<and> content_WriteBlob env tr4 (Digest mDesc) mJSON mDesc mLabels = None
        \<and> content_WriteBlob env (tr4 @ [wM]) (Digest configDesc) cJSON configDesc cLabels = Some e \<longrightarrow>
        Squash env opt = (Some e, tr4 @ [wM, wC, EvLeaseDone])
        \<and> noImageWrite (tr4 @ [wM, wC, EvLeaseDone])"
  proof (intro impI, elim conjE)
    assume s: Serialised and f: "content_WriteBlob env tr4 (Digest mDesc) mJSON mDesc mLabels = None"
      and g: "content_WriteBlob env (tr4 @ [wM]) (Digest configDesc) cJSON configDesc cLabels = Some e"
    from s have c: Committed and f1: "json_Marshal env imageConfig = Inr cJSON"
      and f2: "json_MarshalIndent env (newManifest configDesc baseLayers diffLayerDesc) = Inr mJSON"
      by (simp_all add: Serialised_def)
    from writeContentsForImage_config_write_fails [OF f1 configDesc_def [THEN meta_eq_to_obj_eq] f2
        mDesc_def [THEN meta_eq_to_obj_eq] wM_def [unfolded mLabels_def, THEN meta_eq_to_obj_eq]
        f [unfolded mLabels_def] g [unfolded cLabels_def]]
    have "writeContentsForImage env (Snapshotter opt) imageConfig baseLayers diffLayerDesc tr4 = (Inl e, tr4 @ [wM, wC])"
      by (simp add: wC_def cLabels_def)
    from fromC [OF c this] q5i
    show "Squash env opt = (Some e, tr4 @ [wM, wC, EvLeaseDone])
        \<and> noImageWrite (tr4 @ [wM, wC, EvLeaseDone])"
      by (simp add: nsw wM_def wC_def)
  qed
  from c1 c2 c3 c4 c5 c6 c7 c8 c9 c10 c11 c12 c13 c14 c15 c16 c17 c18 show ?thesis
    by (intro conjI)
qed

text \<open>
  Witness of C5: the three-layer image squashed with a count of 3, in environments where
  exactly one call fails, one environment for each case of the theorem in the order of the
  cases; for the layer selection the count is 1, and for the panic the config read has no
  diffID and the count is 2. In the environment of the ninth case Apply fails on the second
  layer: the third is not applied, the scratch snapshot is removed and the lease is released.
\<close>

theorem Squash_aborts_before_upsert_witness:
  "fst (Squash (exEnvGetFails) (exOpt 3 '''')) = Some (ErrNotFound)
   \<and> noStoreWrite (snd (Squash (exEnvGetFails) (exOpt 3 '''')))
   \<and> fst (Squash (exEnvReadManifestFails) (exOpt 3 '''')) = Some (ErrOther ''no manifest'')
   \<and> noStoreWrite (snd (Squash (exEnvReadManifestFails) (exOpt 3 '''')))
   \<and> fst (Squash (exEnvReadConfigFails) (exOpt 3 '''')) = Some (ErrOther ''no config'')
   \<and> noStoreWrite (snd (Squash (exEnvReadConfigFails) (exOpt 3 '''')))
   \<and> fst (Squash (exEnv) (exOpt 1 '''')) = Some (Wrapped ''invalid squash option: '' ErrInvalidArgument)
   \<and> noStoreWrite (snd (Squash (exEnv) (exOpt 1 '''')))
   \<and> fst (Squash (exEnvLeaseFails) (exOpt 3 '''')) = Some (Wrapped ''failed to create lease for squash: '' (ErrOther ''no lease''))
   \<and> noStoreWrite (snd (Squash (exEnvLeaseFails) (exOpt 3 '''')))
   \<and> fst (Squash (exEnvReadFails) (exOpt 3 '''')) = Some (ErrOther ''read failed'')
   \<and> noStoreWrite (snd (Squash (exEnvReadFails) (exOpt 3 '''')))
   \<and> fst (Squash (exEnvShortConfig) (exOpt 2 '''')) = Some (PanicSliceBounds)
   \<and> noStoreWrite (snd (Squash (exEnvShortConfig) (exOpt 2 '''')))
   \<and> fst (Squash (exEnvPrepareFails) (exOpt 3 '''')) = Some (ErrOther ''prepare failed'')
   \<and> noStoreWrite (snd (Squash (exEnvPrepareFails) (exOpt 3 '''')))
   \<and> fst (Squash (exEnvApplyFails) (exOpt 3 '''')) = Some (ErrOther ''apply failed'')
   \<and> noStoreWrite (snd (Squash (exEnvApplyFails) (exOpt 3 '''')))
   \<and> Squash exEnvApplyFails (exOpt 3 '''') =
       (Some (ErrOther ''apply failed''),
        [EvImageGet ''src:latest'', EvReadManifest exRecord, EvReadImageConfig exRecord, EvWithLease,
         EvReadImageConfig exRecord, EvNow, EvUniquePart, EvPrepare ''key'' ''chain:'',
         EvApply (exLayer ''sha256:a'') [Mount ''overlay'' ''overlay'' []],
         EvApply (exLayer ''sha256:b'') [Mount ''overlay'' ''overlay'' []],
         EvRemove ''key'', EvLeaseDone])
   \<and> fst (Squash (exEnvCreateDiffFails) (exOpt 3 '''')) = Some (Wrapped ''failed to export layer: '' (ErrOther ''diff failed''))
   \<and> noStoreWrite (snd (Squash (exEnvCreateDiffFails) (exOpt 3 '''')))
   \<and> fst (Squash (exEnvInfoFails) (exOpt 3 '''')) = Some (Wrapped ''failed to export layer: '' ErrNotFound)
   \<and> noStoreWrite (snd (Squash (exEnvInfoFails) (exOpt 3 '''')))
   \<and> fst (Squash (exEnvNoLabel) (exOpt 3 '''')) = Some (Wrapped ''failed to export layer: '' (ErrOther ''invalid differ response with no diffID''))
   \<and> noStoreWrite (snd (Squash (exEnvNoLabel) (exOpt 3 '''')))
   \<and> fst (Squash (exEnvParseFails) (exOpt 3 '''')) = Some (Wrapped ''failed to export layer: '' (ErrOther ''invalid digest''))
   \<and> noStoreWrite (snd (Squash (exEnvParseFails) (exOpt 3 '''')))
   \<and> fst (Squash (exEnvCommit (Some (ErrOther ''io''))) (exOpt 3 '''')) = Some (ErrOther ''io'')
   \<and> noStoreWrite (snd (Squash (exEnvCommit (Some (ErrOther ''io''))) (exOpt 3 '''')))
   \<and> fst (Squash (exEnvMarshalFails) (exOpt 3 '''')) = Some (ErrOther ''marshal failed'')
   \<and> noStoreWrite (snd (Squash (exEnvMarshalFails) (exOpt 3 '''')))
   \<and> fst (Squash (exEnvMarshalIndentFails) (exOpt 3 '''')) = Some (ErrOther ''marshal failed'')
   \<and> noStoreWrite (snd (Squash (exEnvMarshalIndentFails) (exOpt 3 '''')))
   \<and> fst (Squash (exEnvManifestWriteFails) (exOpt 3 '''')) = Some (ErrOther ''write failed'')
   \<and> noImageWrite (snd (Squash (exEnvManifestWriteFails) (exOpt 3 '''')))
   \<and> fst (Squash (exEnvWriteFails) (exOpt 3 '''')) = Some (ErrOther ''write failed'')
   \<and> noImageWrite (snd (Squash (exEnvWriteFails) (exOpt 3 '''')))"
proof -
  let ?la = "exLayer ''sha256:a''" and ?lb = "exLayer ''sha256:b''" and ?lc = "exLayer ''sha256:c''"
  let ?layers = "[?la, ?lb, ?lc]"
  let ?m = "[Mount ''overlay'' ''overlay'' []]"
  let ?orig = "exConfig [''sha256:d1'', ''sha256:d2'', ''sha256:d3'']
          [exHistory ''ADD a'' False, exHistory ''ENV x'' True, exHistory ''RUN b'' False,
           exHistory ''RUN c'' False, exHistory ''CMD y'' True]"
  let ?mf = "\<lparr>SchemaVersion = 2, Config = exLayer ''sha256:c'', Layers = ?layers\<rparr>"
  let ?base = "(exConfig [] [])\<lparr>Image.Created := Some 0\<rparr>"
  let ?info = "\<lparr>ContentInfo.Size = 7, Labels = [''containerd.io/uncompressed'' \<mapsto> ''sha256:newdiff'']\<rparr>"
  let ?noinfo = "\<lparr>ContentInfo.Size = 7, Labels = Map.empty\<rparr>"
  let ?ic = "\<lparr>Image.Created = Some 0, Author = ''me'',
      Platform = \<lparr>Architecture = ''amd64'', OS = ''linux'', OSVersion = [], OSFeatures = [], Variant = []\<rparr>,
      Config = (), RootFS = \<lparr>Type = ''layers'', DiffIDs = [''sha256:newdiff'']\<rparr>,
      History = [\<lparr>History.Created = Some 0, CreatedBy = [], Author = ''me'', Comment = ''msg'',
                  EmptyLayer = False\<rparr>]\<rparr>"
  note evals = generateSquashLayer_def generateBaseImageConfig_def generateCommitImageConfig_def sliceTo_def
    exEnv_def exOpt_def exConfig_def exHistory_def exLayer_def
  note t1 = Squash_aborts_before_upsert [where env = "exEnvGetFails" and e = "ErrNotFound" and opt = "exOpt 3 ''''" and r = exRecord and manifest = ?mf
      and config = ?orig and orig = ?orig and sLayers = ?layers and baseImage = ?base and m = ?m
      and pre = "[?la]" and l = ?lb and rest = "[?lc]" and newDesc = "exLayer ''sha256:new''" and info = ?info
      and diffIDStr = "''sha256:newdiff''" and diffID = "''sha256:newdiff''" and imageConfig = ?ic
      and cJSON = "''config-json''" and mJSON = "''manifest-json''"]
  have s1: "fst (Squash (exEnvGetFails) (exOpt 3 '''')) = Some (ErrNotFound)
      \<and> noStoreWrite (snd (Squash (exEnvGetFails) (exOpt 3 '''')))"
    using t1 [THEN conjunct1] by (simp add: exEnvGetFails_def evals)
  note t2 = Squash_aborts_before_upsert [where env = "exEnvReadManifestFails" and e = "ErrOther ''no manifest''" and opt = "exOpt 3 ''''" and r = exRecord and manifest = ?mf
      and config = ?orig and orig = ?orig and sLayers = ?layers and baseImage = ?base and m = ?m
      and pre = "[?la]" and l = ?lb and rest = "[?lc]" and newDesc = "exLayer ''sha256:new''" and info = ?info
      and diffIDStr = "''sha256:newdiff''" and diffID = "''sha256:newdiff''" and imageConfig = ?ic
      and cJSON = "''config-json''" and mJSON = "''manifest-json''"]
  note t2 = t2 [THEN conjunct2]
  have s2: "fst (Squash (exEnvReadManifestFails) (exOpt 3 '''')) = Some (ErrOther ''no manifest'')
      \<and> noStoreWrite (snd (Squash (exEnvReadManifestFails) (exOpt 3 '''')))"
    using t2 [THEN conjunct1] by (simp add: exEnvReadManifestFails_def evals)
  note t3 = Squash_aborts_before_upsert [where env = "exEnvReadConfigFails" and e = "ErrOther ''no config''" and opt = "exOpt 3 ''''" and r = exRecord and manifest = ?mf
      and config = ?orig and orig = ?orig and sLayers = ?layers and baseImage = ?base and m = ?m
      and pre = "[?la]" and l = ?lb and rest = "[?lc]" and newDesc = "exLayer ''sha256:new''" and info = ?info
      and diffIDStr = "''sha256:newdiff''" and diffID = "''sha256:newdiff''" and imageConfig = ?ic
      and cJSON = "''config-json''" and mJSON = "''manifest-json''"]
  note t3 = t3 [THEN conjunct2]
  note t3 = t3 [THEN conjunct2]
  have s3: "fst (Squash (exEnvReadConfigFails) (exOpt 3 '''')) = Some (ErrOther ''no config'')
      \<and> noStoreWrite (snd (Squash (exEnvReadConfigFails) (exOpt 3 '''')))"
    using t3 [THEN conjunct1] by (simp add: exEnvReadConfigFails_def evals)
  note t4 = Squash_aborts_before_upsert [where env = "exEnv" and e = "Wrapped ''invalid squash option: '' ErrInvalidArgument" and opt = "exOpt 1 ''''" and r = exRecord and manifest = ?mf
      and config = ?orig and orig = ?orig and sLayers = ?layers and baseImage = ?base and m = ?m
      and pre = "[?la]" and l = ?lb and rest = "[?lc]" and newDesc = "exLayer ''sha256:new''" and info = ?info
      and diffIDStr = "''sha256:newdiff''" and diffID = "''sha256:newdiff''" and imageConfig = ?ic
      and cJSON = "''config-json''" and mJSON = "''manifest-json''"]
  note t4 = t4 [THEN conjunct2]
  note t4 = t4 [THEN conjunct2]
  note t4 = t4 [THEN conjunct2]
  have s4: "fst (Squash (exEnv) (exOpt 1 '''')) = Some (Wrapped ''invalid squash option: '' ErrInvalidArgument)
      \<and> noStoreWrite (snd (Squash (exEnv) (exOpt 1 '''')))"
    using t4 [THEN conjunct1] by (simp add:  evals)
  note t5 = Squash_aborts_before_upsert [where env = "exEnvLeaseFails" and e = "ErrOther ''no lease''" and opt = "exOpt 3 ''''" and r = exRecord and manifest = ?mf
      and config = ?orig and orig = ?orig and sLayers = ?layers and baseImage = ?base and m = ?m
      and pre = "[?la]" and l = ?lb and rest = "[?lc]" and newDesc = "exLayer ''sha256:new''" and info = ?info
      and diffIDStr = "''sha256:newdiff''" and diffID = "''sha256:newdiff''" and imageConfig = ?ic
      and cJSON = "''config-json''" and mJSON = "''manifest-json''"]
  note t5 = t5 [THEN conjunct2]
  note t5 = t5 [THEN conjunct2]
  note t5 = t5 [THEN conjunct2]
  note t5 = t5 [THEN conjunct2]
  have s5: "fst (Squash (exEnvLeaseFails) (exOpt 3 '''')) = Some (Wrapped ''failed to create lease for squash: '' (ErrOther ''no lease''))
      \<and> noStoreWrite (snd (Squash (exEnvLeaseFails) (exOpt 3 '''')))"
    using t5 [THEN conjunct1] by (simp add: exEnvLeaseFails_def evals)
  note t6 = Squash_aborts_before_upsert [where env = "exEnvReadFails" and e = "ErrOther ''read failed''" and opt = "exOpt 3 ''''" and r = exRecord and manifest = ?mf
      and config = ?orig and orig = ?orig and sLayers = ?layers and baseImage = ?base and m = ?m
      and pre = "[?la]" and l = ?lb and rest = "[?lc]" and newDesc = "exLayer ''sha256:new''" and info = ?info
      and diffIDStr = "''sha256:newdiff''" and diffID = "''sha256:newdiff''" and imageConfig = ?ic
      and cJSON = "''config-json''" and mJSON = "''manifest-json''"]
  note t6 = t6 [THEN conjunct2]
  note t6 = t6 [THEN conjunct2]
  note t6 = t6 [THEN conjunct2]
  note t6 = t6 [THEN conjunct2]
  note t6 = t6 [THEN conjunct2]
  have s6: "fst (Squash (exEnvReadFails) (exOpt 3 '''')) = Some (ErrOther ''read failed'')
      \<and> noStoreWrite (snd (Squash (exEnvReadFails) (exOpt 3 '''')))"
    using t6 [THEN conjunct1] by (simp add: exEnvReadFails_def evals)
  note t7 = Squash_aborts_before_upsert [where env = "exEnvShortConfig" and e = "PanicSliceBounds" and opt = "exOpt 2 ''''" and r = exRecord and manifest = ?mf
      and config = "exConfig [] []" and orig = "exConfig [] []" and sLayers = "[?lb, ?lc]"]
  note t7 = t7 [THEN conjunct2]
  note t7 = t7 [THEN conjunct2]
  note t7 = t7 [THEN conjunct2]
  note t7 = t7 [THEN conjunct2]
  note t7 = t7 [THEN conjunct2]
  note t7 = t7 [THEN conjunct2]
  have s7: "fst (Squash (exEnvShortConfig) (exOpt 2 '''')) = Some (PanicSliceBounds)
      \<and> noStoreWrite (snd (Squash (exEnvShortConfig) (exOpt 2 '''')))"
    using t7 [THEN conjunct1] by (simp add: exEnvShortConfig_def evals)
  note t8 = Squash_aborts_before_upsert [where env = "exEnvPrepareFails" and e = "ErrOther ''prepare failed''" and opt = "exOpt 3 ''''" and r = exRecord and manifest = ?mf
      and config = ?orig and orig = ?orig and sLayers = ?layers and baseImage = ?base and m = ?m
      and pre = "[?la]" and l = ?lb and rest = "[?lc]" and newDesc = "exLayer ''sha256:new''" and info = ?info
      and diffIDStr = "''sha256:newdiff''" and diffID = "''sha256:newdiff''" and imageConfig = ?ic
      and cJSON = "''config-json''" and mJSON = "''manifest-json''"]
  note t8 = t8 [THEN conjunct2]
  note t8 = t8 [THEN conjunct2]
  note t8 = t8 [THEN conjunct2]
  note t8 = t8 [THEN conjunct2]
  note t8 = t8 [THEN conjunct2]
  note t8 = t8 [THEN conjunct2]
  note t8 = t8 [THEN conjunct2]
  have s8: "fst (Squash (exEnvPrepareFails) (exOpt 3 '''')) = Some (ErrOther ''prepare failed'')
      \<and> noStoreWrite (snd (Squash (exEnvPrepareFails) (exOpt 3 '''')))"
    using t8 [THEN conjunct1] by (simp add: exEnvPrepareFails_def evals)
  note t9 = Squash_aborts_before_upsert [where env = "exEnvApplyFails" and e = "ErrOther ''apply failed''" and opt = "exOpt 3 ''''" and r = exRecord and manifest = ?mf
      and config = ?orig and orig = ?orig and sLayers = ?layers and baseImage = ?base and m = ?m
      and pre = "[?la]" and l = ?lb and rest = "[?lc]" and newDesc = "exLayer ''sha256:new''" and info = ?info
      and diffIDStr = "''sha256:newdiff''" and diffID = "''sha256:newdiff''" and imageConfig = ?ic
      and cJSON = "''config-json''" and mJSON = "''manifest-json''"]
  note t9 = t9 [THEN conjunct2]
  note t9 = t9 [THEN conjunct2]
  note t9 = t9 [THEN conjunct2]
  note t9 = t9 [THEN conjunct2]
  note t9 = t9 [THEN conjunct2]
  note t9 = t9 [THEN conjunct2]
  note t9 = t9 [THEN conjunct2]
  note t9 = t9 [THEN conjunct2]
  have s9: "fst (Squash (exEnvApplyFails) (exOpt 3 '''')) = Some (ErrOther ''apply failed'')
      \<and> noStoreWrite (snd (Squash (exEnvApplyFails) (exOpt 3 '''')))"
    using t9 [THEN conjunct1] by (simp add: exEnvApplyFails_def evals)
  have s9t: "Squash exEnvApplyFails (exOpt 3 '''') =
       (Some (ErrOther ''apply failed''),
        [EvImageGet ''src:latest'', EvReadManifest exRecord, EvReadImageConfig exRecord, EvWithLease,
         EvReadImageConfig exRecord, EvNow, EvUniquePart, EvPrepare ''key'' ''chain:'',
         EvApply (exLayer ''sha256:a'') [Mount ''overlay'' ''overlay'' []],
         EvApply (exLayer ''sha256:b'') [Mount ''overlay'' ''overlay'' []],
         EvRemove ''key'', EvLeaseDone])"
    using t9 [THEN conjunct1] by (simp add: exEnvApplyFails_def evals)
  note t10 = Squash_aborts_before_upsert [where env = "exEnvCreateDiffFails" and e = "ErrOther ''diff failed''" and opt = "exOpt 3 ''''" and r = exRecord and manifest = ?mf
      and config = ?orig and orig = ?orig and sLayers = ?layers and baseImage = ?base and m = ?m
      and pre = "[?la]" and l = ?lb and rest = "[?lc]" and newDesc = "exLayer ''sha256:new''" and info = ?info
      and diffIDStr = "''sha256:newdiff''" and diffID = "''sha256:newdiff''" and imageConfig = ?ic
      and cJSON = "''config-json''" and mJSON = "''manifest-json''"]
  note t10 = t10 [THEN conjunct2]
  note t10 = t10 [THEN conjunct2]
  note t10 = t10 [THEN conjunct2]
  note t10 = t10 [THEN conjunct2]
  note t10 = t10 [THEN conjunct2]
  note t10 = t10 [THEN conjunct2]
  note t10 = t10 [THEN conjunct2]
  note t10 = t10 [THEN conjunct2]
  note t10 = t10 [THEN conjunct2]
  have s10: "fst (Squash (exEnvCreateDiffFails) (exOpt 3 '''')) = Some (Wrapped ''failed to export layer: '' (ErrOther ''diff failed''))
      \<and> noStoreWrite (snd (Squash (exEnvCreateDiffFails) (exOpt 3 '''')))"
    using t10 [THEN conjunct1] by (simp add: exEnvCreateDiffFails_def evals)
  note t11 = Squash_aborts_before_upsert [where env = "exEnvInfoFails" and e = "ErrNotFound" and opt = "exOpt 3 ''''" and r = exRecord and manifest = ?mf
      and config = ?orig and orig = ?orig and sLayers = ?layers and baseImage = ?base and m = ?m
      and pre = "[?la]" and l = ?lb and rest = "[?lc]" and newDesc = "exLayer ''sha256:new''" and info = ?info
      and diffIDStr = "''sha256:newdiff''" and diffID = "''sha256:newdiff''" and imageConfig = ?ic
      and cJSON = "''config-json''" and mJSON = "''manifest-json''"]
  note t11 = t11 [THEN conjunct2]
  note t11 = t11 [THEN conjunct2]
  note t11 = t11 [THEN conjunct2]
  note t11 = t11 [THEN conjunct2]
  note t11 = t11 [THEN conjunct2]
  note t11 = t11 [THEN conjunct2]
  note t11 = t11 [THEN conjunct2]
  note t11 = t11 [THEN conjunct2]
  note t11 = t11 [THEN conjunct2]
  note t11 = t11 [THEN conjunct2]
  have s11: "fst (Squash (exEnvInfoFails) (exOpt 3 '''')) = Some (Wrapped ''failed to export layer: '' ErrNotFound)
      \<and> noStoreWrite (snd (Squash (exEnvInfoFails) (exOpt 3 '''')))"
    using t11 [THEN conjunct1] by (simp add: exEnvInfoFails_def evals)
  note t12 = Squash_aborts_before_upsert [where env = "exEnvNoLabel" and e = "ErrNotFound" and opt = "exOpt 3 ''''" and r = exRecord and manifest = ?mf
      and config = ?orig and orig = ?orig and sLayers = ?layers and baseImage = ?base and m = ?m
      and pre = "[?la]" and l = ?lb and rest = "[?lc]" and newDesc = "exLayer ''sha256:new''" and info = ?noinfo
      and diffIDStr = "''sha256:newdiff''" and diffID = "''sha256:newdiff''" and imageConfig = ?ic
      and cJSON = "''config-json''" and mJSON = "''manifest-json''"]
  note t12 = t12 [THEN conjunct2]
  note t12 = t12 [THEN conjunct2]
  note t12 = t12 [THEN conjunct2]
  note t12 = t12 [THEN conjunct2]
  note t12 = t12 [THEN conjunct2]
  note t12 = t12 [THEN conjunct2]
  note t12 = t12 [THEN conjunct2]
  note t12 = t12 [THEN conjunct2]
  note t12 = t12 [THEN conjunct2]
  note t12 = t12 [THEN conjunct2]
  note t12 = t12 [THEN conjunct2]
  have s12: "fst (Squash (exEnvNoLabel) (exOpt 3 '''')) = Some (Wrapped ''failed to export layer: '' (ErrOther ''invalid differ response with no diffID''))
      \<and> noStoreWrite (snd (Squash (exEnvNoLabel) (exOpt 3 '''')))"
    using t12 [THEN conjunct1] by (simp add: exEnvNoLabel_def evals)
  note t13 = Squash_aborts_before_upsert [where env = "exEnvParseFails" and e = "ErrOther ''invalid digest''" and opt = "exOpt 3 ''''" and r = exRecord and manifest = ?mf
      and config = ?orig and orig = ?orig and sLayers = ?layers and baseImage = ?base and m = ?m
      and pre = "[?la]" and l = ?lb and rest = "[?lc]" and newDesc = "exLayer ''sha256:new''" and info = ?info
      and diffIDStr = "''sha256:newdiff''" and diffID = "''sha256:newdiff''" and imageConfig = ?ic
      and cJSON = "''config-json''" and mJSON = "''manifest-json''"]
  note t13 = t13 [THEN conjunct2]
  note t13 = t13 [THEN conjunct2]
  note t13 = t13 [THEN conjunct2]
  note t13 = t13 [THEN conjunct2]
  note t13 = t13 [THEN conjunct2]
  note t13 = t13 [THEN conjunct2]
  note t13 = t13 [THEN conjunct2]
  note t13 = t13 [THEN conjunct2]
  note t13 = t13 [THEN conjunct2]
  note t13 = t13 [THEN conjunct2]
  note t13 = t13 [THEN conjunct2]
  note t13 = t13 [THEN conjunct2]
  have s13: "fst (Squash (exEnvParseFails) (exOpt 3 '''')) = Some (Wrapped ''failed to export layer: '' (ErrOther ''invalid digest''))
      \<and> noStoreWrite (snd (Squash (exEnvParseFails) (exOpt 3 '''')))"
    using t13 [THEN conjunct1] by (simp add: exEnvParseFails_def evals)
  note t14 = Squash_aborts_before_upsert [where env = "exEnvCommit (Some (ErrOther ''io''))" and e = "ErrOther ''io''" and opt = "exOpt 3 ''''" and r = exRecord and manifest = ?mf
      and config = ?orig and orig = ?orig and sLayers = ?layers and baseImage = ?base and m = ?m
      and pre = "[?la]" and l = ?lb and rest = "[?lc]" and newDesc = "exLayer ''sha256:new''" and info = ?info
      and diffIDStr = "''sha256:newdiff''" and diffID = "''sha256:newdiff''" and imageConfig = ?ic
      and cJSON = "''config-json''" and mJSON = "''manifest-json''"]
  note t14 = t14 [THEN conjunct2]
  note t14 = t14 [THEN conjunct2]
  note t14 = t14 [THEN conjunct2]
  note t14 = t14 [THEN conjunct2]
  note t14 = t14 [THEN conjunct2]
  note t14 = t14 [THEN conjunct2]
  note t14 = t14 [THEN conjunct2]
  note t14 = t14 [THEN conjunct2]
  note t14 = t14 [THEN conjunct2]
  note t14 = t14 [THEN conjunct2]
  note t14 = t14 [THEN conjunct2]
  note t14 = t14 [THEN conjunct2]
  note t14 = t14 [THEN conjunct2]
  have s14: "fst (Squash (exEnvCommit (Some (ErrOther ''io''))) (exOpt 3 '''')) = Some (ErrOther ''io'')
      \<and> noStoreWrite (snd (Squash (exEnvCommit (Some (ErrOther ''io''))) (exOpt 3 '''')))"
    using t14 [THEN conjunct1] by (simp add: exEnvCommit_def evals)
  note t15 = Squash_aborts_before_upsert [where env = "exEnvMarshalFails" and e = "ErrOther ''marshal failed''" and opt = "exOpt 3 ''''" and r = exRecord and manifest = ?mf
      and config = ?orig and orig = ?orig and sLayers = ?layers and baseImage = ?base and m = ?m
      and pre = "[?la]" and l = ?lb and rest = "[?lc]" and newDesc = "exLayer ''sha256:new''" and info = ?info
      and diffIDStr = "''sha256:newdiff''" and diffID = "''sha256:newdiff''" and imageConfig = ?ic
      and cJSON = "''config-json''" and mJSON = "''manifest-json''"]
  note t15 = t15 [THEN conjunct2]
  note t15 = t15 [THEN conjunct2]
  note t15 = t15 [THEN conjunct2]
  note t15 = t15 [THEN conjunct2]
  note t15 = t15 [THEN conjunct2]
  note t15 = t15 [THEN conjunct2]
  note t15 = t15 [THEN conjunct2]
  note t15 = t15 [THEN conjunct2]
  note t15 = t15 [THEN conjunct2]
  note t15 = t15 [THEN conjunct2]
  note t15 = t15 [THEN conjunct2]
  note t15 = t15 [THEN conjunct2]
  note t15 = t15 [THEN conjunct2]
  note t15 = t15 [THEN conjunct2]
  have s15: "fst (Squash (exEnvMarshalFails) (exOpt 3 '''')) = Some (ErrOther ''marshal failed'')
      \<and> noStoreWrite (snd (Squash (exEnvMarshalFails) (exOpt 3 '''')))"
    using t15 [THEN conjunct1] by (simp add: exEnvMarshalFails_def evals Let_def)
  note t16 = Squash_aborts_before_upsert [where env = "exEnvMarshalIndentFails" and e = "ErrOther ''marshal failed''" and opt = "exOpt 3 ''''" and r = exRecord and manifest = ?mf
      and config = ?orig and orig = ?orig and sLayers = ?layers and baseImage = ?base and m = ?m
      and pre = "[?la]" and l = ?lb and rest = "[?lc]" and newDesc = "exLayer ''sha256:new''" and info = ?info
      and diffIDStr = "''sha256:newdiff''" and diffID = "''sha256:newdiff''" and imageConfig = ?ic
      and cJSON = "''config-json''" and mJSON = "''manifest-json''"]
  note t16 = t16 [THEN conjunct2]
  note t16 = t16 [THEN conjunct2]
  note t16 = t16 [THEN conjunct2]
  note t16 = t16 [THEN conjunct2]
  note t16 = t16 [THEN conjunct2]
  note t16 = t16 [THEN conjunct2]
  note t16 = t16 [THEN conjunct2]
  note t16 = t16 [THEN conjunct2]
  note t16 = t16 [THEN conjunct2]
  note t16 = t16 [THEN conjunct2]
  note t16 = t16 [THEN conjunct2]
  note t16 = t16 [THEN conjunct2]
  note t16 = t16 [THEN conjunct2]
  note t16 = t16 [THEN conjunct2]
  note t16 = t16 [THEN conjunct2]
  have s16: "fst (Squash (exEnvMarshalIndentFails) (exOpt 3 '''')) = Some (ErrOther ''marshal failed'')
      \<and> noStoreWrite (snd (Squash (exEnvMarshalIndentFails) (exOpt 3 '''')))"
    using t16 [THEN conjunct1] by (simp add: exEnvMarshalIndentFails_def evals Let_def)
  note t17 = Squash_aborts_before_upsert [where env = "exEnvManifestWriteFails" and e = "ErrOther ''write failed''" and opt = "exOpt 3 ''''" and r = exRecord and manifest = ?mf
      and config = ?orig and orig = ?orig and sLayers = ?layers and baseImage = ?base and m = ?m
      and pre = "[?la]" and l = ?lb and rest = "[?lc]" and newDesc = "exLayer ''sha256:new''" and info = ?info
      and diffIDStr = "''sha256:newdiff''" and diffID = "''sha256:newdiff''" and imageConfig = ?ic
      and cJSON = "''config-json''" and mJSON = "''manifest-json''"]
  note t17 = t17 [THEN conjunct2]
  note t17 = t17 [THEN conjunct2]
  note t17 = t17 [THEN conjunct2]
  note t17 = t17 [THEN conjunct2]
  note t17 = t17 [THEN conjunct2]
  note t17 = t17 [THEN conjunct2]
  note t17 = t17 [THEN conjunct2]
  note t17 = t17 [THEN conjunct2]
  note t17 = t17 [THEN conjunct2]
  note t17 = t17 [THEN conjunct2]
  note t17 = t17 [THEN conjunct2]
  note t17 = t17 [THEN conjunct2]
  note t17 = t17 [THEN conjunct2]
  note t17 = t17 [THEN conjunct2]
  note t17 = t17 [THEN conjunct2]
  note t17 = t17 [THEN conjunct2]
  have s17: "fst (Squash (exEnvManifestWriteFails) (exOpt 3 '''')) = Some (ErrOther ''write failed'')
      \<and> noImageWrite (snd (Squash (exEnvManifestWriteFails) (exOpt 3 '''')))"
    using t17 [THEN conjunct1] by (simp add: exEnvManifestWriteFails_def evals Let_def)
  note t18 = Squash_aborts_before_upsert [where env = "exEnvWriteFails" and e = "ErrOther ''write failed''" and opt = "exOpt 3 ''''" and r = exRecord and manifest = ?mf
      and config = ?orig and orig = ?orig and sLayers = ?layers and baseImage = ?base and m = ?m
      and pre = "[?la]" and l = ?lb and rest = "[?lc]" and newDesc = "exLayer ''sha256:new''" and info = ?info
      and diffIDStr = "''sha256:newdiff''" and diffID = "''sha256:newdiff''" and imageConfig = ?ic
      and cJSON = "''config-json''" and mJSON = "''manifest-json''"]
  note t18 = t18 [THEN conjunct2]
  note t18 = t18 [THEN conjunct2]
  note t18 = t18 [THEN conjunct2]
  note t18 = t18 [THEN conjunct2]
  note t18 = t18 [THEN conjunct2]
  note t18 = t18 [THEN conjunct2]
  note t18 = t18 [THEN conjunct2]
  note t18 = t18 [THEN conjunct2]
  note t18 = t18 [THEN conjunct2]
  note t18 = t18 [THEN conjunct2]
  note t18 = t18 [THEN conjunct2]
  note t18 = t18 [THEN conjunct2]
  note t18 = t18 [THEN conjunct2]
  note t18 = t18 [THEN conjunct2]
  note t18 = t18 [THEN conjunct2]
  note t18 = t18 [THEN conjunct2]
  note t18 = t18 [THEN conjunct2]
  have s18: "fst (Squash (exEnvWriteFails) (exOpt 3 '''')) = Some (ErrOther ''write failed'')
      \<and> noImageWrite (snd (Squash (exEnvWriteFails) (exOpt 3 '''')))"
    using t18 by (simp add: exEnvWriteFails_def evals Let_def)
  from s1 s2 s3 s4 s5 s6 s7 s8 s9 s9t s10 s11 s12 s13 s14 s15 s16 s17 s18 show ?thesis by simp
qed

end
